theory Spec2Isabelle
  imports Main
begin

section \<open>Errors\<close>

text \<open>
  Modelled from the spec: \<^verbatim>\<open>raise\<close> and \<^verbatim>\<open>raiseRecoverable\<close> (their file,
  location.js, is not among the sources). \<^verbatim>\<open>raise(pos, message)\<close> stops the parse at
  offset \<^verbatim>\<open>pos\<close> with \<^verbatim>\<open>message\<close>; \<^verbatim>\<open>raiseRecoverable\<close> does the
  same by default. The flag \<open>recoverable\<close> records which of the two channels the
  source used. The other two values are not errors of the parser: \<open>OutOfFuel\<close> is
  the answer of a recursion whose fuel is used up, and \<open>NotModelled\<close> marks a branch of
  the source that leads into a construct outside the modelled fragment (it names the
  function of the source that would be called).
\<close>

datatype error =
    SyntaxError (recoverable: bool) (pos: int) (message: string)
  | OutOfFuel
  | NotModelled string

definition raise :: "int \<Rightarrow> string \<Rightarrow> error + 'a" where
  "raise p msg = Inl (SyntaxError False p msg)"

definition raiseRecoverable :: "int \<Rightarrow> string \<Rightarrow> error + 'a" where
  "raiseRecoverable p msg = Inl (SyntaxError True p msg)"

text \<open>Sequencing of two steps of which the first may throw.\<close>

definition bnd :: "error + 'a \<Rightarrow> ('a \<Rightarrow> error + 'b) \<Rightarrow> error + 'b" where
  "bnd m f = (case m of Inl e \<Rightarrow> Inl e | Inr x \<Rightarrow> f x)"

lemma bnd_cong [fundef_cong]:
  "m = m' \<Longrightarrow> (\<And>x. m' = Inr x \<Longrightarrow> f x = f' x) \<Longrightarrow> bnd m f = bnd m' f'"
  by (auto simp: bnd_def split: sum.splits)

lemma bnd_weak_cong [cong]: "m = m' \<Longrightarrow> bnd m f = bnd m' f"
  by simp

lemma bnd_Inl [simp]: "bnd (Inl e) f = Inl e"
  by (simp add: bnd_def)

lemma bnd_Inr [simp]: "bnd (Inr x) f = f x"
  by (simp add: bnd_def)

section \<open>Token types (tokentype.js)\<close>

text \<open>
  The class \<^verbatim>\<open>TokenType\<close>. The source compares token types by identity; the token
  types of the table below have pairwise different labels, so equality of the records is
  the same test.
\<close>

record TokenType =
  label :: string
  keyword :: "string option"
  beforeExpr :: bool
  startsExpr :: bool
  isLoop :: bool
  isAssign :: bool
  prefix :: bool
  postfix :: bool
  binop :: "nat option"

text \<open>\<^verbatim>\<open>new TokenType(label)\<close> with the empty configuration.\<close>

definition TokenType_new :: "string \<Rightarrow> TokenType" where
  "TokenType_new l =
     \<lparr>label = l, keyword = None, beforeExpr = False, startsExpr = False, isLoop = False,
      isAssign = False, prefix = False, postfix = False, binop = None\<rparr>"

definition binop_new :: "string \<Rightarrow> nat \<Rightarrow> TokenType" where
  "binop_new name prec = (TokenType_new name)\<lparr>beforeExpr := True, binop := Some prec\<rparr>"

definition kw :: "string \<Rightarrow> TokenType" where
  "kw name = (TokenType_new name)\<lparr>keyword := Some name\<rparr>"

definition tt_num :: TokenType where "tt_num = (TokenType_new ''num'')\<lparr>startsExpr := True\<rparr>"
definition tt_regexp :: TokenType where "tt_regexp = (TokenType_new ''regexp'')\<lparr>startsExpr := True\<rparr>"
definition tt_string :: TokenType where "tt_string = (TokenType_new ''string'')\<lparr>startsExpr := True\<rparr>"
definition tt_name :: TokenType where "tt_name = (TokenType_new ''name'')\<lparr>startsExpr := True\<rparr>"
definition tt_privateId :: TokenType where "tt_privateId = (TokenType_new ''privateId'')\<lparr>startsExpr := True\<rparr>"
definition tt_eof :: TokenType where "tt_eof = TokenType_new ''eof''"
definition tt_bracketL :: TokenType where "tt_bracketL = (TokenType_new ''['')\<lparr>beforeExpr := True, startsExpr := True\<rparr>"
definition tt_bracketR :: TokenType where "tt_bracketR = TokenType_new '']''"
definition tt_braceL :: TokenType where "tt_braceL = (TokenType_new ''{'')\<lparr>beforeExpr := True, startsExpr := True\<rparr>"
definition tt_braceR :: TokenType where "tt_braceR = TokenType_new ''}''"
definition tt_parenL :: TokenType where "tt_parenL = (TokenType_new ''('')\<lparr>beforeExpr := True, startsExpr := True\<rparr>"
definition tt_parenR :: TokenType where "tt_parenR = TokenType_new '')''"
definition tt_comma :: TokenType where "tt_comma = (TokenType_new '','')\<lparr>beforeExpr := True\<rparr>"
definition tt_semi :: TokenType where "tt_semi = (TokenType_new '';'')\<lparr>beforeExpr := True\<rparr>"
definition tt_colon :: TokenType where "tt_colon = (TokenType_new '':'')\<lparr>beforeExpr := True\<rparr>"
definition tt_dot :: TokenType where "tt_dot = TokenType_new ''.''"
definition tt_question :: TokenType where "tt_question = (TokenType_new ''?'')\<lparr>beforeExpr := True\<rparr>"
definition tt_questionDot :: TokenType where "tt_questionDot = TokenType_new ''?.''"
definition tt_arrow :: TokenType where "tt_arrow = (TokenType_new ''=>'')\<lparr>beforeExpr := True\<rparr>"
definition tt_template :: TokenType where "tt_template = TokenType_new ''template''"
definition tt_invalidTemplate :: TokenType where "tt_invalidTemplate = TokenType_new ''invalidTemplate''"
definition tt_ellipsis :: TokenType where "tt_ellipsis = (TokenType_new ''...'')\<lparr>beforeExpr := True\<rparr>"
definition tt_backQuote :: TokenType where "tt_backQuote = (TokenType_new [CHR 0x60])\<lparr>startsExpr := True\<rparr>"
definition tt_dollarBraceL :: TokenType where "tt_dollarBraceL = (TokenType_new ''${'')\<lparr>beforeExpr := True, startsExpr := True\<rparr>"

definition tt_eq :: TokenType where "tt_eq = (TokenType_new ''='')\<lparr>beforeExpr := True, isAssign := True\<rparr>"
definition tt_assign :: TokenType where "tt_assign = (TokenType_new ''_='')\<lparr>beforeExpr := True, isAssign := True\<rparr>"
definition tt_incDec :: TokenType where "tt_incDec = (TokenType_new ''++/--'')\<lparr>prefix := True, postfix := True, startsExpr := True\<rparr>"
definition tt_prefix :: TokenType where "tt_prefix = (TokenType_new ''!/~'')\<lparr>beforeExpr := True, prefix := True, startsExpr := True\<rparr>"
definition tt_logicalOR :: TokenType where "tt_logicalOR = binop_new ''||'' 1"
definition tt_logicalAND :: TokenType where "tt_logicalAND = binop_new ''&&'' 2"
definition tt_bitwiseOR :: TokenType where "tt_bitwiseOR = binop_new ''|'' 3"
definition tt_bitwiseXOR :: TokenType where "tt_bitwiseXOR = binop_new ''^'' 4"
definition tt_bitwiseAND :: TokenType where "tt_bitwiseAND = binop_new ''&'' 5"
definition tt_equality :: TokenType where "tt_equality = binop_new ''==/!=/===/!=='' 6"
definition tt_relational :: TokenType where "tt_relational = binop_new ''</>/<=/>='' 7"
definition tt_bitShift :: TokenType where "tt_bitShift = binop_new ''<</>>/>>>'' 8"
definition tt_plusMin :: TokenType where "tt_plusMin = (TokenType_new ''+/-'')\<lparr>beforeExpr := True, binop := Some 9, prefix := True, startsExpr := True\<rparr>"
definition tt_modulo :: TokenType where "tt_modulo = binop_new ''%'' 10"
definition tt_star :: TokenType where "tt_star = binop_new ''*'' 10"
definition tt_slash :: TokenType where "tt_slash = binop_new ''/'' 10"
definition tt_starstar :: TokenType where "tt_starstar = (TokenType_new ''**'')\<lparr>beforeExpr := True\<rparr>"
definition tt_coalesce :: TokenType where "tt_coalesce = binop_new ''??'' 1"

definition tt_break :: TokenType where "tt_break = kw ''break''"
definition tt_case :: TokenType where "tt_case = (kw ''case'')\<lparr>beforeExpr := True\<rparr>"
definition tt_catch :: TokenType where "tt_catch = kw ''catch''"
definition tt_continue :: TokenType where "tt_continue = kw ''continue''"
definition tt_debugger :: TokenType where "tt_debugger = kw ''debugger''"
definition tt_default :: TokenType where "tt_default = (kw ''default'')\<lparr>beforeExpr := True\<rparr>"
definition tt_do :: TokenType where "tt_do = (kw ''do'')\<lparr>isLoop := True, beforeExpr := True\<rparr>"
definition tt_else :: TokenType where "tt_else = (kw ''else'')\<lparr>beforeExpr := True\<rparr>"
definition tt_finally :: TokenType where "tt_finally = kw ''finally''"
definition tt_for :: TokenType where "tt_for = (kw ''for'')\<lparr>isLoop := True\<rparr>"
definition tt_function :: TokenType where "tt_function = (kw ''function'')\<lparr>startsExpr := True\<rparr>"
definition tt_if :: TokenType where "tt_if = kw ''if''"
definition tt_return :: TokenType where "tt_return = (kw ''return'')\<lparr>beforeExpr := True\<rparr>"
definition tt_switch :: TokenType where "tt_switch = kw ''switch''"
definition tt_throw :: TokenType where "tt_throw = (kw ''throw'')\<lparr>beforeExpr := True\<rparr>"
definition tt_try :: TokenType where "tt_try = kw ''try''"
definition tt_var :: TokenType where "tt_var = kw ''var''"
definition tt_const :: TokenType where "tt_const = kw ''const''"
definition tt_while :: TokenType where "tt_while = (kw ''while'')\<lparr>isLoop := True\<rparr>"
definition tt_with :: TokenType where "tt_with = kw ''with''"
definition tt_new :: TokenType where "tt_new = (kw ''new'')\<lparr>beforeExpr := True, startsExpr := True\<rparr>"
definition tt_this :: TokenType where "tt_this = (kw ''this'')\<lparr>startsExpr := True\<rparr>"
definition tt_super :: TokenType where "tt_super = (kw ''super'')\<lparr>startsExpr := True\<rparr>"
definition tt_class :: TokenType where "tt_class = (kw ''class'')\<lparr>startsExpr := True\<rparr>"
definition tt_extends :: TokenType where "tt_extends = (kw ''extends'')\<lparr>beforeExpr := True\<rparr>"
definition tt_export :: TokenType where "tt_export = kw ''export''"
definition tt_import :: TokenType where "tt_import = (kw ''import'')\<lparr>startsExpr := True\<rparr>"
definition tt_null :: TokenType where "tt_null = (kw ''null'')\<lparr>startsExpr := True\<rparr>"
definition tt_true :: TokenType where "tt_true = (kw ''true'')\<lparr>startsExpr := True\<rparr>"
definition tt_false :: TokenType where "tt_false = (kw ''false'')\<lparr>startsExpr := True\<rparr>"
definition tt_in :: TokenType where "tt_in = (kw ''in'')\<lparr>beforeExpr := True, binop := Some 7\<rparr>"
definition tt_instanceof :: TokenType where "tt_instanceof = (kw ''instanceof'')\<lparr>beforeExpr := True, binop := Some 7\<rparr>"
definition tt_typeof :: TokenType where "tt_typeof = (kw ''typeof'')\<lparr>beforeExpr := True, prefix := True, startsExpr := True\<rparr>"
definition tt_void :: TokenType where "tt_void = (kw ''void'')\<lparr>beforeExpr := True, prefix := True, startsExpr := True\<rparr>"
definition tt_delete :: TokenType where "tt_delete = (kw ''delete'')\<lparr>beforeExpr := True, prefix := True, startsExpr := True\<rparr>"

section \<open>AST nodes\<close>

text \<open>
  A node of the source is one uniform object with \<^verbatim>\<open>type\<close>, \<^verbatim>\<open>start\<close>,
  \<^verbatim>\<open>end\<close> and the fields of its kind. It is modelled as a tagged variant: one
  constructor for each kind whose fields the modelled functions read or write, and
  \<open>OtherNode\<close> (carrying its type string) for every other kind. A \<^verbatim>\<open>null\<close> entry
  of an element list is \<open>None\<close>. The first two arguments of every constructor are
  \<^verbatim>\<open>start\<close> and \<^verbatim>\<open>end\<close>; the others are the fields in the order the source
  assigns them: \<open>Property kind key value\<close>, \<open>MemberExpression object property computed
  optional\<close>, \<open>CallExpression callee arguments optional\<close>, \<open>UnaryExpression operator
  prefix argument\<close> (and \<open>UpdateExpression\<close>), \<open>BinaryExpression left operator
  right\<close> (and \<open>LogicalExpression\<close>), \<open>ConditionalExpression test consequent
  alternate\<close>, \<open>VariableDeclarator id init\<close>, \<open>VariableDeclaration kind
  declarations\<close>, \<open>DoWhileStatement body test\<close>, \<open>IfStatement test consequent
  alternate\<close>, \<open>WhileStatement test body\<close>, \<open>ForStatement init test update
  body\<close>, \<open>ForInStatement left right body\<close>, \<open>ForOfStatement await left right
  body\<close>, \<open>LabeledStatement body label\<close>. The field \<^verbatim>\<open>optional\<close> is \<open>False\<close>
  where the source leaves it undefined.
\<close>

datatype node =
    Identifier (nstart: int) (nend: int) string
  | PrivateIdentifier (nstart: int) (nend: int) string
  | Literal (nstart: int) (nend: int) string
  | ThisExpression (nstart: int) (nend: int)
  | ArrayExpression (nstart: int) (nend: int) "node option list"
  | ArrayPattern (nstart: int) (nend: int) "node option list"
  | ObjectExpression (nstart: int) (nend: int) "node list"
  | ObjectPattern (nstart: int) (nend: int) "node list"
  | Property (nstart: int) (nend: int) string node node
  | SpreadElement (nstart: int) (nend: int) node
  | RestElement (nstart: int) (nend: int) node
  | AssignmentExpression (nstart: int) (nend: int) string node node
  | AssignmentPattern (nstart: int) (nend: int) node node
  | ParenthesizedExpression (nstart: int) (nend: int) node
  | ChainExpression (nstart: int) (nend: int) node
  | MemberExpression (nstart: int) (nend: int) node node bool bool
  | CallExpression (nstart: int) (nend: int) node "node option list" bool
  | UnaryExpression (nstart: int) (nend: int) string bool node
  | UpdateExpression (nstart: int) (nend: int) string bool node
  | BinaryExpression (nstart: int) (nend: int) node string node
  | LogicalExpression (nstart: int) (nend: int) node string node
  | ConditionalExpression (nstart: int) (nend: int) node node node
  | SequenceExpression (nstart: int) (nend: int) "node list"
  | VariableDeclarator (nstart: int) (nend: int) node "node option"
  | VariableDeclaration (nstart: int) (nend: int) string "node list"
  | ExpressionStatement (nstart: int) (nend: int) node
  | DoWhileStatement (nstart: int) (nend: int) node node
  | AwaitExpression (nstart: int) (nend: int) node
  | EmptyStatement (nstart: int) (nend: int)
  | BlockStatement (nstart: int) (nend: int) "node list"
  | IfStatement (nstart: int) (nend: int) node node "node option"
  | WhileStatement (nstart: int) (nend: int) node node
  | ForStatement (nstart: int) (nend: int) "node option" "node option" "node option" node
  | ForInStatement (nstart: int) (nend: int) node node node
  | ForOfStatement (nstart: int) (nend: int) bool node node node
  | LabeledStatement (nstart: int) (nend: int) node node
  | OtherNode (nstart: int) (nend: int) string

text \<open>The field \<^verbatim>\<open>type\<close> of a node.\<close>

fun ntype :: "node \<Rightarrow> string" where
  "ntype (Identifier s e n) = ''Identifier''"
| "ntype (PrivateIdentifier s e n) = ''PrivateIdentifier''"
| "ntype (Literal s e r) = ''Literal''"
| "ntype (ThisExpression s e) = ''ThisExpression''"
| "ntype (ArrayExpression s e es) = ''ArrayExpression''"
| "ntype (ArrayPattern s e es) = ''ArrayPattern''"
| "ntype (ObjectExpression s e ps) = ''ObjectExpression''"
| "ntype (ObjectPattern s e ps) = ''ObjectPattern''"
| "ntype (Property s e k key v) = ''Property''"
| "ntype (SpreadElement s e a) = ''SpreadElement''"
| "ntype (RestElement s e a) = ''RestElement''"
| "ntype (AssignmentExpression s e op l r) = ''AssignmentExpression''"
| "ntype (AssignmentPattern s e l r) = ''AssignmentPattern''"
| "ntype (ParenthesizedExpression s e x) = ''ParenthesizedExpression''"
| "ntype (ChainExpression s e x) = ''ChainExpression''"
| "ntype (MemberExpression s e ob pr c opt) = ''MemberExpression''"
| "ntype (CallExpression s e c as opt) = ''CallExpression''"
| "ntype (UnaryExpression s e op p a) = ''UnaryExpression''"
| "ntype (UpdateExpression s e op p a) = ''UpdateExpression''"
| "ntype (BinaryExpression s e l op r) = ''BinaryExpression''"
| "ntype (LogicalExpression s e l op r) = ''LogicalExpression''"
| "ntype (ConditionalExpression s e t c a) = ''ConditionalExpression''"
| "ntype (SequenceExpression s e xs) = ''SequenceExpression''"
| "ntype (VariableDeclarator s e i init) = ''VariableDeclarator''"
| "ntype (VariableDeclaration s e k ds) = ''VariableDeclaration''"
| "ntype (ExpressionStatement s e x) = ''ExpressionStatement''"
| "ntype (DoWhileStatement s e b t) = ''DoWhileStatement''"
| "ntype (AwaitExpression s e a) = ''AwaitExpression''"
| "ntype (EmptyStatement s e) = ''EmptyStatement''"
| "ntype (BlockStatement s e b) = ''BlockStatement''"
| "ntype (IfStatement s e t c a) = ''IfStatement''"
| "ntype (WhileStatement s e t b) = ''WhileStatement''"
| "ntype (ForStatement s e i t u b) = ''ForStatement''"
| "ntype (ForInStatement s e l r b) = ''ForInStatement''"
| "ntype (ForOfStatement s e aw l r b) = ''ForOfStatement''"
| "ntype (LabeledStatement s e b l) = ''LabeledStatement''"
| "ntype (OtherNode s e t) = t"

section \<open>Delayed errors (parseutil.js)\<close>

record DestructuringErrors =
  shorthandAssign :: int
  trailingComma :: int
  parenthesizedAssign :: int
  parenthesizedBind :: int
  doubleProto :: int

definition new_DestructuringErrors :: DestructuringErrors where
  "new_DestructuringErrors =
     \<lparr>shorthandAssign = -1, trailingComma = -1, parenthesizedAssign = -1,
      parenthesizedBind = -1, doubleProto = -1\<rparr>"

text \<open>
  \<^verbatim>\<open>checkPatternErrors(refDestructuringErrors, isAssign)\<close>; the first argument is
  \<open>None\<close> where the source passes a falsy value.
\<close>

definition checkPatternErrors :: "DestructuringErrors option \<Rightarrow> bool \<Rightarrow> error + unit" where
  "checkPatternErrors refDestructuringErrors isAssign' =
     (case refDestructuringErrors of
        None \<Rightarrow> Inr ()
      | Some r \<Rightarrow>
          bnd (if trailingComma r > -1
               then raiseRecoverable (trailingComma r) ''Comma is not permitted after the rest element''
               else Inr ())
            (\<lambda>_. let parens = (if isAssign' then parenthesizedAssign r else parenthesizedBind r)
                 in if parens > -1
                    then raiseRecoverable parens
                           (if isAssign' then ''Assigning to rvalue'' else ''Parenthesized pattern'')
                    else Inr ()))"

text \<open>
  \<^verbatim>\<open>checkExpressionErrors(refDestructuringErrors, andThrow)\<close>. The source returns a
  boolean when \<^verbatim>\<open>andThrow\<close> is falsy and \<^verbatim>\<open>undefined\<close> (here \<open>False\<close>) when it
  is set and nothing is raised.
\<close>

definition checkExpressionErrors :: "DestructuringErrors option \<Rightarrow> bool \<Rightarrow> error + bool" where
  "checkExpressionErrors refDestructuringErrors andThrow =
     (case refDestructuringErrors of
        None \<Rightarrow> Inr False
      | Some r \<Rightarrow>
          if \<not> andThrow then Inr (shorthandAssign r \<ge> 0 \<or> doubleProto r \<ge> 0)
          else bnd (if shorthandAssign r \<ge> 0
                    then raise (shorthandAssign r)
                           ''Shorthand property assignments are valid only in destructuring patterns''
                    else Inr ())
                 (\<lambda>_. if doubleProto r \<ge> 0
                      then raiseRecoverable (doubleProto r) ''Redefinition of __proto__ property''
                      else Inr False))"

section \<open>The assignable converter (lval.js)\<close>

definition unexpected :: "int \<Rightarrow> error + 'a" where
  "unexpected p = raise p ''Unexpected token''"

text \<open>The test on a converted property of an object pattern: a rest element whose
  argument is an array or object pattern.\<close>

fun restOfPattern :: "node \<Rightarrow> int option" where
  "restOfPattern (RestElement s e (ArrayPattern s' e' es)) = Some s'"
| "restOfPattern (RestElement s e (ObjectPattern s' e' ps)) = Some s'"
| "restOfPattern n = None"

text \<open>The check that ends \<^verbatim>\<open>toAssignableList\<close>, on the converted list.\<close>

definition toAssignableList_last :: "nat \<Rightarrow> node option list \<Rightarrow> bool \<Rightarrow> error + unit" where
  "toAssignableList_last ecmaVersion exprList isBinding =
     (if exprList \<noteq> [] then
        (case last exprList of
           Some (RestElement s e a) \<Rightarrow>
             if ecmaVersion = 6 \<and> isBinding \<and> ntype a \<noteq> ''Identifier''
             then unexpected (nstart a) else Inr ()
         | _ \<Rightarrow> Inr ())
      else Inr ())"

text \<open>
  \<^verbatim>\<open>toAssignable(node, isBinding, refDestructuringErrors)\<close>, with the two values of
  the parser it reads, \<^verbatim>\<open>options.ecmaVersion\<close> and \<^verbatim>\<open>inAsync\<close>, as the first two
  arguments. Every call in the sources passes a node, so the argument is not optional
  here. The source changes the node in place and returns it; the model returns the
  changed node. \<open>toAssignable_props\<close> is the loop over \<^verbatim>\<open>node.properties\<close>,
  \<open>toAssignable_elts\<close> the first loop of \<^verbatim>\<open>toAssignableList\<close>.
\<close>

fun toAssignable :: "nat \<Rightarrow> bool \<Rightarrow> node \<Rightarrow> bool \<Rightarrow> DestructuringErrors option \<Rightarrow> error + node"
  and toAssignable_props :: "nat \<Rightarrow> bool \<Rightarrow> node list \<Rightarrow> bool \<Rightarrow> error + node list"
  and toAssignable_elts :: "nat \<Rightarrow> bool \<Rightarrow> node option list \<Rightarrow> bool \<Rightarrow> error + node option list"
where
  "toAssignable ecmaVersion inAsync node isBinding refDestructuringErrors =
     (if ecmaVersion \<ge> 6 then
        (case node of
           Identifier s e name \<Rightarrow>
             if inAsync \<and> name = ''await''
             then raise s ''Cannot use 'await' as identifier inside an async function''
             else Inr node
         | ObjectPattern s e ps \<Rightarrow> Inr node
         | ArrayPattern s e es \<Rightarrow> Inr node
         | AssignmentPattern s e l r \<Rightarrow> Inr node
         | RestElement s e a \<Rightarrow> Inr node
         | ObjectExpression s e ps \<Rightarrow>
             bnd (if refDestructuringErrors \<noteq> None
                  then checkPatternErrors refDestructuringErrors True else Inr ())
               (\<lambda>_. bnd (toAssignable_props ecmaVersion inAsync ps isBinding)
                 (\<lambda>ps'. Inr (ObjectPattern s e ps')))
         | Property s e kind key v \<Rightarrow>
             if kind \<noteq> ''init''
             then raise (nstart key) ''Object pattern can't contain getter or setter''
             else bnd (toAssignable ecmaVersion inAsync v isBinding None)
                    (\<lambda>v'. Inr (Property s e kind key v'))
         | ArrayExpression s e es \<Rightarrow>
             bnd (if refDestructuringErrors \<noteq> None
                  then checkPatternErrors refDestructuringErrors True else Inr ())
               (\<lambda>_. bnd (toAssignable_elts ecmaVersion inAsync es isBinding)
                 (\<lambda>es'. bnd (toAssignableList_last ecmaVersion es' isBinding)
                   (\<lambda>_. Inr (ArrayPattern s e es'))))
         | SpreadElement s e a \<Rightarrow>
             bnd (toAssignable ecmaVersion inAsync a isBinding None)
               (\<lambda>a'. if ntype a' = ''AssignmentPattern''
                     then raise (nstart a') ''Rest elements cannot have a default value''
                     else Inr (RestElement s e a'))
         | AssignmentExpression s e operator l r \<Rightarrow>
             if operator \<noteq> ''=''
             then raise (nend l) ''Only '=' operator can be used for specifying default value.''
             else bnd (toAssignable ecmaVersion inAsync l isBinding None)
                    (\<lambda>l'. Inr (AssignmentPattern s e l' r))
         | ParenthesizedExpression s e x \<Rightarrow>
             bnd (toAssignable ecmaVersion inAsync x isBinding refDestructuringErrors)
               (\<lambda>x'. Inr (ParenthesizedExpression s e x'))
         | ChainExpression s e x \<Rightarrow>
             raiseRecoverable s ''Optional chaining cannot appear in left-hand side''
         | MemberExpression s e ob pr c opt \<Rightarrow>
             if \<not> isBinding then Inr node else raise s ''Assigning to rvalue''
         | _ \<Rightarrow> raise (nstart node) ''Assigning to rvalue'')
      else if refDestructuringErrors \<noteq> None
        then bnd (checkPatternErrors refDestructuringErrors True) (\<lambda>_. Inr node)
        else Inr node)"
| "toAssignable_props ecmaVersion inAsync [] isBinding = Inr []"
| "toAssignable_props ecmaVersion inAsync (prop # ps) isBinding =
     bnd (toAssignable ecmaVersion inAsync prop isBinding None)
       (\<lambda>prop'. case restOfPattern prop' of
           Some p \<Rightarrow> raise p ''Unexpected token''
         | None \<Rightarrow> bnd (toAssignable_props ecmaVersion inAsync ps isBinding)
                     (\<lambda>ps'. Inr (prop' # ps')))"
| "toAssignable_elts ecmaVersion inAsync [] isBinding = Inr []"
| "toAssignable_elts ecmaVersion inAsync (elt # es) isBinding =
     bnd (case elt of
            None \<Rightarrow> Inr None
          | Some n \<Rightarrow> bnd (toAssignable ecmaVersion inAsync n isBinding None) (\<lambda>n'. Inr (Some n')))
       (\<lambda>elt'. bnd (toAssignable_elts ecmaVersion inAsync es isBinding)
         (\<lambda>es'. Inr (elt' # es')))"

definition toAssignableList :: "nat \<Rightarrow> bool \<Rightarrow> node option list \<Rightarrow> bool \<Rightarrow> error + node option list" where
  "toAssignableList ecmaVersion inAsync exprList isBinding =
     bnd (toAssignable_elts ecmaVersion inAsync exprList isBinding)
       (\<lambda>es'. bnd (toAssignableList_last ecmaVersion es' isBinding) (\<lambda>_. Inr es'))"

text \<open>The case labels of the switch in \<^verbatim>\<open>toAssignable\<close>.\<close>

definition toAssignable_cases :: "string list" where
  "toAssignable_cases =
     [''Identifier'', ''ObjectPattern'', ''ArrayPattern'', ''AssignmentPattern'', ''RestElement'',
      ''ObjectExpression'', ''Property'', ''ArrayExpression'', ''SpreadElement'',
      ''AssignmentExpression'', ''ParenthesizedExpression'', ''ChainExpression'',
      ''MemberExpression'']"

text \<open>The types the conversion writes into \<^verbatim>\<open>node.type\<close>.\<close>

definition pattern_type :: "string \<Rightarrow> string" where
  "pattern_type t =
     (if t = ''ObjectExpression'' then ''ObjectPattern''
      else if t = ''ArrayExpression'' then ''ArrayPattern''
      else if t = ''SpreadElement'' then ''RestElement''
      else if t = ''AssignmentExpression'' then ''AssignmentPattern''
      else t)"

section \<open>Parser state and token interface\<close>

text \<open>
  Modelled from the spec: the token interface (the tokenizer and state.js are not among
  the sources). The parser sees the tokens of \<^verbatim>\<open>input\<close> one at a time through
  \<^verbatim>\<open>type\<close>, \<^verbatim>\<open>value\<close>, \<^verbatim>\<open>start\<close>, \<^verbatim>\<open>end\<close> and \<^verbatim>\<open>containsEsc\<close>;
  \<^verbatim>\<open>next()\<close> makes the following token the current one and leaves the start and end
  of the token it consumed in \<^verbatim>\<open>lastTokStart\<close> and \<^verbatim>\<open>lastTokEnd\<close>. Here the tokens
  not yet consumed are a list whose head is the current token; after the last one the
  current token is \<^verbatim>\<open>eof\<close> at the end of the input. \<^verbatim>\<open>input\<close> is the list of
  the UTF-16 code units of the source text. The tokenizer's position \<^verbatim>\<open>pos\<close> is the
  end of the current token.
\<close>

record token =
  ttype :: TokenType
  tvalue :: string
  tstart :: int
  tend :: int
  tcontainsEsc :: bool

text \<open>A frame of \<^verbatim>\<open>privateNameStack\<close>: \<^verbatim>\<open>declared\<close> maps a name to its slot
  string, \<^verbatim>\<open>used\<close> is the list of the PrivateIdentifier nodes seen.\<close>

record privateNameFrame =
  declared :: "string \<rightharpoonup> string"
  used :: "node list"

text \<open>An entry of \<^verbatim>\<open>labels\<close>; a field the source leaves undefined is \<open>None\<close>.\<close>

record labelRec =
  lkind :: "string option"
  lname :: "string option"
  statementStart :: "int option"

text \<open>
  The fields of the parser the modelled functions use. \<^verbatim>\<open>ecmaVersion\<close>,
  \<^verbatim>\<open>preserveParens\<close> and \<^verbatim>\<open>allowReserved\<close> are the options of these names
  (\<open>allowReservedNever\<close> is \<^verbatim>\<open>options.allowReserved === "never"\<close>). \<^verbatim>\<open>inGenerator\<close>,
  \<^verbatim>\<open>inAsync\<close>, \<^verbatim>\<open>canAwait\<close>, \<^verbatim>\<open>inClassStaticBlock\<close> and
  \<^verbatim>\<open>currentThisScope().inClassFieldInit\<close> are computed from the scope stack by
  state.js, which is not among the sources; they are fields here, and constant, since
  the modelled fragment enters no function or class. The four word tests (\<open>keywordsRE\<close> is \<^verbatim>\<open>keywords\<close>) are the
  \<^verbatim>\<open>test\<close> methods of the regular expressions of these names. \<open>heap\<close> is the store
  of the \<^verbatim>\<open>DestructuringErrors\<close> objects: a reference to one is its index.
\<close>

record pstate =
  input :: "nat list"
  toks :: "token list"
  lastTokStart :: int
  lastTokEnd :: int
  ecmaVersion :: nat
  preserveParens :: bool
  allowReservedNever :: bool
  strict :: bool
  inGenerator :: bool
  inAsync :: bool
  canAwait :: bool
  inClassFieldInit :: bool
  inClassStaticBlock :: bool
  keywordsRE :: "string \<Rightarrow> bool"
  reservedWords :: "string \<Rightarrow> bool"
  reservedWordsStrict :: "string \<Rightarrow> bool"
  reservedWordsStrictBind :: "string \<Rightarrow> bool"
  yieldPos :: int
  awaitPos :: int
  awaitIdentPos :: int
  potentialArrowAt :: int
  potentialArrowInForAwait :: bool
  labels :: "labelRec list"
  privateNameStack :: "privateNameFrame list"
  heap :: "DestructuringErrors list"

definition eof_token :: "pstate \<Rightarrow> token" where
  "eof_token s =
     \<lparr>ttype = tt_eof, tvalue = [], tstart = int (length (input s)),
      tend = int (length (input s)), tcontainsEsc = False\<rparr>"

definition cur :: "pstate \<Rightarrow> token" where
  "cur s = (case toks s of [] \<Rightarrow> eof_token s | t # ts \<Rightarrow> t)"

definition type :: "pstate \<Rightarrow> TokenType" where "type s = ttype (cur s)"
definition val :: "pstate \<Rightarrow> string" where "val s = tvalue (cur s)"
definition start :: "pstate \<Rightarrow> int" where "start s = tstart (cur s)"
definition containsEsc :: "pstate \<Rightarrow> bool" where "containsEsc s = tcontainsEsc (cur s)"
definition pos_of :: "pstate \<Rightarrow> int" where "pos_of s = tend (cur s)"

definition "next" :: "pstate \<Rightarrow> pstate" where
  "next s = s\<lparr>lastTokStart := tstart (cur s), lastTokEnd := tend (cur s), toks := tl (toks s)\<rparr>"

text \<open>A parsing function takes the state and answers an error or a value and the new
  state.\<close>

type_synonym 'a parser = "pstate \<Rightarrow> error + ('a \<times> pstate)"

text \<open>References to \<^verbatim>\<open>DestructuringErrors\<close> objects; \<open>None\<close> is a falsy argument.\<close>

type_synonym ref = "nat option"

definition new_ref :: "pstate \<Rightarrow> nat \<times> pstate" where
  "new_ref s = (length (heap s), s\<lparr>heap := heap s @ [new_DestructuringErrors]\<rparr>)"

definition deref :: "ref \<Rightarrow> pstate \<Rightarrow> DestructuringErrors option" where
  "deref r s =
     (case r of None \<Rightarrow> None
      | Some i \<Rightarrow> if i < length (heap s) then Some (heap s ! i) else None)"

definition upd_ref :: "nat \<Rightarrow> (DestructuringErrors \<Rightarrow> DestructuringErrors) \<Rightarrow> pstate \<Rightarrow> pstate" where
  "upd_ref i f s = s\<lparr>heap := (heap s)[i := f (heap s ! i)]\<rparr>"

text \<open>The value of \<^verbatim>\<open>forInit\<close>: \<^verbatim>\<open>false\<close> (or undefined), \<^verbatim>\<open>true\<close> or
  \<^verbatim>\<open>"await"\<close>.\<close>

datatype forInit = FI_false | FI_true | FI_await

definition truthy :: "forInit \<Rightarrow> bool" where
  "truthy f = (f \<noteq> FI_false)"

subsection \<open>whitespace.js\<close>

definition isNewLine :: "nat \<Rightarrow> bool" where
  "isNewLine code = (code = 10 \<or> code = 13 \<or> code = 0x2028 \<or> code = 0x2029)"

text \<open>\<^verbatim>\<open>lineBreak.test(str)\<close>: the expression matches where a line terminator
  stands.\<close>

definition lineBreak_test :: "nat list \<Rightarrow> bool" where
  "lineBreak_test str = list_ex isNewLine str"

text \<open>\<^verbatim>\<open>str.slice(a, b)\<close> for offsets that are not negative.\<close>

definition slice :: "nat list \<Rightarrow> int \<Rightarrow> int \<Rightarrow> nat list" where
  "slice str a b = take (nat (b - a)) (drop (nat a) str)"

text \<open>\<^verbatim>\<open>str.charCodeAt(i)\<close>; \<open>None\<close> is NaN.\<close>

definition charCodeAt :: "nat list \<Rightarrow> int \<Rightarrow> nat option" where
  "charCodeAt str i = (if 0 \<le> i \<and> nat i < length str then Some (str ! nat i) else None)"

text \<open>The characters \<^verbatim>\<open>\s\<close> matches.\<close>

definition isWhiteSpace :: "nat \<Rightarrow> bool" where
  "isWhiteSpace c =
     (c \<in> {9, 10, 11, 12, 13, 32, 0xa0, 0x1680, 0x2028, 0x2029, 0x202f, 0x205f, 0x3000, 0xfeff}
      \<or> (0x2000 \<le> c \<and> c \<le> 0x200a))"

text \<open>The number of code units up to and including the first \<^verbatim>\<open>*/\<close>, if there is
  one.\<close>

fun commentEnd :: "nat list \<Rightarrow> nat option" where
  "commentEnd [] = None"
| "commentEnd [c] = None"
| "commentEnd (c # d # r) =
     (if c = 42 \<and> d = 47 then Some 2
      else map_option Suc (commentEnd (d # r)))"

text \<open>
  The length of the match of \<^verbatim>\<open>skipWhiteSpace\<close>, that is of
  \<^verbatim>\<open>/(?:\s|\/\/.*|\/\*[^]*?\*\/)*/\<close>, at the head of a string: white space, line
  comments up to the line terminator, and closed block comments, repeated. The first
  argument bounds the number of repetitions; \<open>skipWhiteSpace\<close> gives it the length of
  the string, and every repetition consumes a code unit.
\<close>

fun skipWhiteSpace_from :: "nat \<Rightarrow> nat list \<Rightarrow> nat" where
  "skipWhiteSpace_from 0 str = 0"
| "skipWhiteSpace_from (Suc k) [] = 0"
| "skipWhiteSpace_from (Suc k) (c # r) =
     (if isWhiteSpace c then 1 + skipWhiteSpace_from k r
      else if c = 47 then
        (case r of
           [] \<Rightarrow> 0
         | d # r' \<Rightarrow>
             if d = 47 then
               (let n = length (takeWhile (\<lambda>x. \<not> isNewLine x) r')
                in 2 + n + skipWhiteSpace_from k (drop n r'))
             else if d = 42 then
               (case commentEnd r' of
                  None \<Rightarrow> 0
                | Some n \<Rightarrow> 2 + n + skipWhiteSpace_from k (drop n r'))
             else 0)
      else 0)"

text \<open>\<^verbatim>\<open>skipWhiteSpace.lastIndex = p; skipWhiteSpace.exec(input)[0].length\<close>.\<close>

definition skipWhiteSpace :: "nat list \<Rightarrow> int \<Rightarrow> int" where
  "skipWhiteSpace str p =
     int (skipWhiteSpace_from (length str) (drop (nat p) str))"

subsection \<open>parseutil.js\<close>

definition unexpected_at :: "int \<Rightarrow> 'a parser" where
  "unexpected_at p s = raise p ''Unexpected token''"

definition unexpected_here :: "'a parser" where
  "unexpected_here s = raise (start s) ''Unexpected token''"

definition eat :: "TokenType \<Rightarrow> bool parser" where
  "eat t s = (if type s = t then Inr (True, next s) else Inr (False, s))"

definition isContextual :: "string \<Rightarrow> pstate \<Rightarrow> bool" where
  "isContextual name s = (type s = tt_name \<and> val s = name \<and> \<not> containsEsc s)"

definition eatContextual :: "string \<Rightarrow> bool parser" where
  "eatContextual name s = (if \<not> isContextual name s then Inr (False, s) else Inr (True, next s))"

definition expectContextual :: "string \<Rightarrow> unit parser" where
  "expectContextual name s =
     bnd (eatContextual name s) (\<lambda>(b, s1). if \<not> b then unexpected_here s1 else Inr ((), s1))"

definition canInsertSemicolon :: "pstate \<Rightarrow> bool" where
  "canInsertSemicolon s =
     (type s = tt_eof \<or> type s = tt_braceR
      \<or> lineBreak_test (slice (input s) (lastTokEnd s) (start s)))"

text \<open>\<^verbatim>\<open>insertSemicolon\<close> answers true or undefined (here \<open>False\<close>); the callback
  \<^verbatim>\<open>onInsertedSemicolon\<close> is an observer and is left out, as is
  \<^verbatim>\<open>onTrailingComma\<close> below.\<close>

definition insertSemicolon :: "pstate \<Rightarrow> bool" where
  "insertSemicolon s = canInsertSemicolon s"

definition semicolon :: "unit parser" where
  "semicolon s =
     bnd (eat tt_semi s)
       (\<lambda>(b, s1). if \<not> b \<and> \<not> insertSemicolon s1 then unexpected_here s1 else Inr ((), s1))"

definition afterTrailingComma :: "TokenType \<Rightarrow> bool \<Rightarrow> bool parser" where
  "afterTrailingComma tokType notNext s =
     (if type s = tokType then Inr (True, if \<not> notNext then next s else s)
      else Inr (False, s))"

definition expect :: "TokenType \<Rightarrow> unit parser" where
  "expect t s = bnd (eat t s) (\<lambda>(b, s1). if b then Inr ((), s1) else unexpected_here s1)"

fun isSimpleAssignTarget :: "node \<Rightarrow> bool" where
  "isSimpleAssignTarget (ParenthesizedExpression s e x) = isSimpleAssignTarget x"
| "isSimpleAssignTarget n = (ntype n = ''Identifier'' \<or> ntype n = ''MemberExpression'')"

text \<open>\<^verbatim>\<open>checkYieldAwaitInDefaultParams\<close>; a position of 0 is falsy.\<close>

definition checkYieldAwaitInDefaultParams :: "unit parser" where
  "checkYieldAwaitInDefaultParams s =
     (if yieldPos s \<noteq> 0 \<and> (awaitPos s = 0 \<or> yieldPos s < awaitPos s)
      then raise (yieldPos s) ''Yield expression cannot be a default value''
      else if awaitPos s \<noteq> 0
      then raise (awaitPos s) ''Await expression cannot be a default value''
      else Inr ((), s))"

section \<open>Recursion and the missing modules\<close>

text \<open>Modelled from the spec: the binding kinds of scopeflags.js, which is not among the
  sources.\<close>

datatype bindingType =
  BIND_NONE | BIND_VAR | BIND_LEXICAL | BIND_FUNCTION | BIND_OUTSIDE | BIND_SIMPLE_CATCH

text \<open>
  The functions of the parser call each other recursively, and their loops run as long
  as tokens allow. In the model every function takes a first argument \<open>P\<close>, the
  functions it may call recursively, and reaches them through the fields of \<open>P\<close>; a
  loop of the source is a function of its own (named \<open>_loop\<close>) whose next round is
  again a field of \<open>P\<close>. \<open>parsersN\<close> at the end of the definitions ties the knot
  with a counter that bounds the depth of these calls.

  \<open>P\<close> also holds the functions of the modules that are not among the sources
  and that the modelled functions call: \<^verbatim>\<open>declareName\<close>, \<^verbatim>\<open>enterScope\<close> and
  \<^verbatim>\<open>exitScope\<close> of scope.js, \<^verbatim>\<open>isIdentifierStart\<close> and \<^verbatim>\<open>isIdentifierChar\<close>
  of identifier.js. The last two take a code unit; at NaN (a read past the end of the
  input) the model takes their answer to be false.
\<close>

record parsers =
  P_parseMaybeAssign :: "forInit \<Rightarrow> ref \<Rightarrow> node parser"
  P_parseExpression :: "forInit \<Rightarrow> ref \<Rightarrow> node parser"
  P_parseExpression_loop :: "forInit \<Rightarrow> ref \<Rightarrow> node list \<Rightarrow> node list parser"
  P_parseMaybeUnary :: "ref \<Rightarrow> bool \<Rightarrow> bool \<Rightarrow> forInit \<Rightarrow> node parser"
  P_parseMaybeUnary_loop :: "int \<Rightarrow> node \<Rightarrow> node parser"
  P_parseExprOp :: "node \<Rightarrow> int \<Rightarrow> int \<Rightarrow> forInit \<Rightarrow> node parser"
  P_parseSubscripts_loop :: "node \<Rightarrow> int \<Rightarrow> bool \<Rightarrow> bool \<Rightarrow> bool \<Rightarrow> forInit \<Rightarrow> node parser"
  P_parseExprList_loop :: "TokenType \<Rightarrow> bool \<Rightarrow> bool \<Rightarrow> ref \<Rightarrow> node option list \<Rightarrow> bool
       \<Rightarrow> node option list parser"
  P_parseParen_loop :: "bool \<Rightarrow> nat \<Rightarrow> node list \<Rightarrow> bool \<Rightarrow> (node list \<times> bool \<times> int option) parser"
  P_parseBindingAtom :: "node parser"
  P_parseBindingList_loop :: "TokenType \<Rightarrow> bool \<Rightarrow> bool \<Rightarrow> node option list \<Rightarrow> bool
       \<Rightarrow> node option list parser"
  P_parseStatement :: "string option \<Rightarrow> bool \<Rightarrow> node parser"
  P_parseVar_loop :: "bool \<Rightarrow> string \<Rightarrow> node list \<Rightarrow> node list parser"
  P_parseBlock_loop :: "node list \<Rightarrow> node list parser"
  P_declareName :: "string \<Rightarrow> bindingType \<Rightarrow> int \<Rightarrow> unit parser"
  P_enterScope :: "nat \<Rightarrow> unit parser"
  P_exitScope :: "unit parser"
  P_isIdentifierStart :: "nat \<Rightarrow> bool \<Rightarrow> bool"
  P_isIdentifierChar :: "nat \<Rightarrow> bool \<Rightarrow> bool"

section \<open>The lvalue checker (lval.js)\<close>

text \<open>
  \<^verbatim>\<open>checkLValSimple\<close>, \<^verbatim>\<open>checkLValPattern\<close> and \<^verbatim>\<open>checkLValInnerPattern\<close>.
  \<^verbatim>\<open>checkClashes\<close> is the list of the names entered so far, or \<open>None\<close> where the
  source passes a falsy value; the functions answer the table as they leave it.
  \<open>checkLValPattern_props\<close> and \<open>checkLValPattern_elts\<close> are the two loops of
  \<^verbatim>\<open>checkLValPattern\<close>.
\<close>

fun checkLValSimple :: "parsers \<Rightarrow> node \<Rightarrow> bindingType \<Rightarrow> string list option
    \<Rightarrow> (string list option) parser" where
  "checkLValSimple P (Identifier st e name) bt checkClashes s =
     (let isBind = (bt \<noteq> BIND_NONE) in
      bnd (if strict s \<and> reservedWordsStrictBind s name
           then raiseRecoverable st
                  ((if isBind then ''Binding '' else ''Assigning to '') @ name @ '' in strict mode'')
           else Inr ())
      (\<lambda>_. if isBind then
          bnd (if bt = BIND_LEXICAL \<and> name = ''let''
               then raiseRecoverable st ''let is disallowed as a lexically bound name''
               else Inr ())
          (\<lambda>_. bnd (case checkClashes of
                      None \<Rightarrow> Inr None
                    | Some names \<Rightarrow>
                        if name \<in> set names then raiseRecoverable st ''Argument name clash''
                        else Inr (Some (names @ [name])))
          (\<lambda>checkClashes'.
             if bt \<noteq> BIND_OUTSIDE
             then bnd (P_declareName P name bt st s) (\<lambda>(_, s1). Inr (checkClashes', s1))
             else Inr (checkClashes', s)))
        else Inr (checkClashes, s)))"
| "checkLValSimple P (ChainExpression st e x) bt checkClashes s =
     raiseRecoverable st ''Optional chaining cannot appear in left-hand side''"
| "checkLValSimple P (MemberExpression st e ob pr c opt) bt checkClashes s =
     (if bt \<noteq> BIND_NONE then raiseRecoverable st ''Binding member expression''
      else Inr (checkClashes, s))"
| "checkLValSimple P (ParenthesizedExpression st e x) bt checkClashes s =
     (if bt \<noteq> BIND_NONE then raiseRecoverable st ''Binding parenthesized expression''
      else checkLValSimple P x bt checkClashes s)"
| "checkLValSimple P n bt checkClashes s =
     raise (nstart n) ((if bt \<noteq> BIND_NONE then ''Binding'' else ''Assigning to'') @ '' rvalue'')"

function (sequential) checkLValPattern :: "parsers \<Rightarrow> node \<Rightarrow> bindingType \<Rightarrow> string list option
      \<Rightarrow> (string list option) parser"
  and checkLValPattern_props :: "parsers \<Rightarrow> node list \<Rightarrow> bindingType \<Rightarrow> string list option
      \<Rightarrow> (string list option) parser"
  and checkLValPattern_elts :: "parsers \<Rightarrow> node option list \<Rightarrow> bindingType \<Rightarrow> string list option
      \<Rightarrow> (string list option) parser"
  and checkLValInnerPattern :: "parsers \<Rightarrow> node \<Rightarrow> bindingType \<Rightarrow> string list option
      \<Rightarrow> (string list option) parser"
where
  "checkLValPattern P (ObjectPattern st e props) bt checkClashes s =
     checkLValPattern_props P props bt checkClashes s"
| "checkLValPattern P (ArrayPattern st e elts) bt checkClashes s =
     checkLValPattern_elts P elts bt checkClashes s"
| "checkLValPattern P expr bt checkClashes s = checkLValSimple P expr bt checkClashes s"
| "checkLValPattern_props P [] bt checkClashes s = Inr (checkClashes, s)"
| "checkLValPattern_props P (prop # props) bt checkClashes s =
     bnd (checkLValInnerPattern P prop bt checkClashes s)
       (\<lambda>(c1, s1). checkLValPattern_props P props bt c1 s1)"
| "checkLValPattern_elts P [] bt checkClashes s = Inr (checkClashes, s)"
| "checkLValPattern_elts P (None # elts) bt checkClashes s =
     checkLValPattern_elts P elts bt checkClashes s"
| "checkLValPattern_elts P (Some elem # elts) bt checkClashes s =
     bnd (checkLValInnerPattern P elem bt checkClashes s)
       (\<lambda>(c1, s1). checkLValPattern_elts P elts bt c1 s1)"
| "checkLValInnerPattern P (Property st e kind key v) bt checkClashes s =
     checkLValInnerPattern P v bt checkClashes s"
| "checkLValInnerPattern P (AssignmentPattern st e l r) bt checkClashes s =
     checkLValPattern P l bt checkClashes s"
| "checkLValInnerPattern P (RestElement st e a) bt checkClashes s =
     checkLValPattern P a bt checkClashes s"
| "checkLValInnerPattern P expr bt checkClashes s = checkLValPattern P expr bt checkClashes s"
  by pat_completeness auto
termination
  by (relation "measure (case_sum
        (case_sum (\<lambda>(P, n, r). 2 * size n) (\<lambda>(P, ps, r). 2 * size_list size ps + 1))
        (case_sum (\<lambda>(P, es, r). 2 * size_list (size_option size) es + 1)
                  (\<lambda>(P, n, r). 2 * size n + 1)))") auto

text \<open>\<^verbatim>\<open>toAssignable\<close> and \<^verbatim>\<open>toAssignableList\<close> as methods of the parser.\<close>

definition toAssignable_p :: "node \<Rightarrow> bool \<Rightarrow> ref \<Rightarrow> node parser" where
  "toAssignable_p node isBinding r s =
     bnd (toAssignable (ecmaVersion s) (inAsync s) node isBinding (deref r s))
       (\<lambda>n'. Inr (n', s))"

section \<open>Identifiers and literals (expression.js)\<close>

definition checkUnreserved :: "node \<Rightarrow> unit parser" where
  "checkUnreserved n s =
     (case n of
        Identifier st e name \<Rightarrow>
          if inGenerator s \<and> name = ''yield''
          then raiseRecoverable st ''Cannot use 'yield' as identifier inside a generator''
          else if inAsync s \<and> name = ''await''
          then raiseRecoverable st ''Cannot use 'await' as identifier inside an async function''
          else if inClassFieldInit s \<and> name = ''arguments''
          then raiseRecoverable st ''Cannot use 'arguments' in class field initializer''
          else if inClassStaticBlock s \<and> (name = ''arguments'' \<or> name = ''await'')
          then raise st (''Cannot use '' @ name @ '' in class static initialization block'')
          else if keywordsRE s name
          then raise st (''Unexpected keyword '' @ [CHR 0x27] @ name @ [CHR 0x27])
          else if ecmaVersion s < 6 \<and> 92 \<in> set (slice (input s) st e)
          then Inr ((), s)
          else if (if strict s then reservedWordsStrict s else reservedWords s) name
          then (if \<not> inAsync s \<and> name = ''await''
                then raiseRecoverable st ''Cannot use keyword 'await' outside an async function''
                else raiseRecoverable st
                       (''The keyword '' @ [CHR 0x27] @ name @ [CHR 0x27] @ '' is reserved''))
          else Inr ((), s)
      | _ \<Rightarrow> Inr ((), s))"

text \<open>\<^verbatim>\<open>parseIdent(liberal)\<close>. The source also pops the tokenizer's context when a
  keyword \<^verbatim>\<open>class\<close> or \<^verbatim>\<open>function\<close> is taken as a name; the tokenizer's context
  is not part of the model.\<close>

definition parseIdent :: "bool \<Rightarrow> node parser" where
  "parseIdent liberal s =
     bnd (if type s = tt_name then Inr (val s)
          else case keyword (type s) of
                 Some k \<Rightarrow> Inr k
               | None \<Rightarrow> raise (start s) ''Unexpected token'')
       (\<lambda>name.
          let s1 = next s;
              node = Identifier (start s) (lastTokEnd s1) name
          in if \<not> liberal then
               bnd (checkUnreserved node s1)
                 (\<lambda>(_, s2). Inr (node,
                     if name = ''await'' \<and> awaitIdentPos s2 = 0
                     then s2\<lparr>awaitIdentPos := start s\<rparr> else s2))
             else Inr (node, s1))"

text \<open>\<^verbatim>\<open>parsePrivateIdent\<close>. The top of \<^verbatim>\<open>privateNameStack\<close> is its last
  element.\<close>

definition parsePrivateIdent :: "node parser" where
  "parsePrivateIdent s =
     (if type s \<noteq> tt_privateId then unexpected_here s
      else
        let name = val s;
            s1 = next s;
            node = PrivateIdentifier (start s) (lastTokEnd s1) name
        in if privateNameStack s1 = []
           then raise (nstart node)
                  (''Private field '' @ [CHR 0x27] @ ''#'' @ name @ [CHR 0x27]
                   @ '' must be declared in an enclosing class'')
           else
             let top = last (privateNameStack s1) in
             Inr (node, s1\<lparr>privateNameStack :=
                    butlast (privateNameStack s1) @ [top\<lparr>used := used top @ [node]\<rparr>]\<rparr>))"

text \<open>\<^verbatim>\<open>parseLiteral(value)\<close>; the node keeps the value of the token (the fields
  \<^verbatim>\<open>raw\<close> and \<^verbatim>\<open>bigint\<close> are left out).\<close>

definition parseLiteral :: "string \<Rightarrow> node parser" where
  "parseLiteral v s = (let s1 = next s in Inr (Literal (start s) (lastTokEnd s1) v, s1))"

definition buildBinary :: "int \<Rightarrow> node \<Rightarrow> node \<Rightarrow> string \<Rightarrow> bool \<Rightarrow> node parser" where
  "buildBinary startPos left right op logical s =
     (if ntype right = ''PrivateIdentifier''
      then raise (nstart right) ''Private identifier can only be left side of binary expression''
      else Inr (if logical then LogicalExpression startPos (lastTokEnd s) left op right
                else BinaryExpression startPos (lastTokEnd s) left op right, s))"

section \<open>The expression parser (expression.js)\<close>

text \<open>The \<^verbatim>\<open>DestructuringErrors\<close> object behind a reference that \<open>new_ref\<close> or a
  caller has handed out.\<close>

definition get_ref :: "nat \<Rightarrow> pstate \<Rightarrow> DestructuringErrors" where
  "get_ref i s = heap s ! i"

subsection \<open>Lists of expressions and of bindings\<close>

definition parseSpread :: "parsers \<Rightarrow> ref \<Rightarrow> node parser" where
  "parseSpread P refDestructuringErrors s =
     (let nodeStart = start s; s1 = next s in
      bnd (P_parseMaybeAssign P FI_false refDestructuringErrors s1)
        (\<lambda>(argument, s2). Inr (SpreadElement nodeStart (lastTokEnd s2) argument, s2)))"

text \<open>
  One round of the loop of \<^verbatim>\<open>parseExprList\<close>, with the variables \<^verbatim>\<open>elts\<close> and
  \<^verbatim>\<open>first\<close> as arguments.
\<close>

definition parseExprList_loop :: "parsers \<Rightarrow> TokenType \<Rightarrow> bool \<Rightarrow> bool \<Rightarrow> ref \<Rightarrow> node option list
    \<Rightarrow> bool \<Rightarrow> node option list parser" where
  "parseExprList_loop P close allowTrailingComma allowEmpty refDestructuringErrors elts first s =
     bnd (eat close s)
       (\<lambda>(closed, s1).
          if closed then Inr (elts, s1)
          else
            bnd (if \<not> first then
                   bnd (expect tt_comma s1)
                     (\<lambda>(_, s2). if allowTrailingComma then afterTrailingComma close False s2
                                 else Inr (False, s2))
                 else Inr (False, s1))
              (\<lambda>(break, s2).
                 if break then Inr (elts, s2)
                 else
                   bnd (if allowEmpty \<and> type s2 = tt_comma then Inr (None, s2)
                        else if type s2 = tt_ellipsis then
                          bnd (parseSpread P refDestructuringErrors s2)
                            (\<lambda>(elt, s3).
                               Inr (Some elt,
                                 case refDestructuringErrors of
                                   Some i \<Rightarrow>
                                     if type s3 = tt_comma \<and> trailingComma (get_ref i s3) < 0
                                     then upd_ref i (\<lambda>d. d\<lparr>trailingComma := start s3\<rparr>) s3
                                     else s3
                                 | None \<Rightarrow> s3))
                        else
                          bnd (P_parseMaybeAssign P FI_false refDestructuringErrors s2)
                            (\<lambda>(elt, s3). Inr (Some elt, s3)))
                     (\<lambda>(elt, s3).
                        P_parseExprList_loop P close allowTrailingComma allowEmpty
                          refDestructuringErrors (elts @ [elt]) False s3)))"

definition parseExprList :: "parsers \<Rightarrow> TokenType \<Rightarrow> bool \<Rightarrow> bool \<Rightarrow> ref \<Rightarrow> node option list parser" where
  "parseExprList P close allowTrailingComma allowEmpty refDestructuringErrors s =
     parseExprList_loop P close allowTrailingComma allowEmpty refDestructuringErrors [] True s"

definition parseRestBinding :: "parsers \<Rightarrow> node parser" where
  "parseRestBinding P s =
     (let nodeStart = start s; s1 = next s in
      if ecmaVersion s1 = 6 \<and> type s1 \<noteq> tt_name then unexpected_here s1
      else bnd (P_parseBindingAtom P s1)
             (\<lambda>(argument, s2). Inr (RestElement nodeStart (lastTokEnd s2) argument, s2)))"

text \<open>\<^verbatim>\<open>parseMaybeDefault(startPos, startLoc, left)\<close>; \<open>None\<close> is a missing
  \<^verbatim>\<open>left\<close>.\<close>

definition parseMaybeDefault :: "parsers \<Rightarrow> int \<Rightarrow> node option \<Rightarrow> node parser" where
  "parseMaybeDefault P startPos left s =
     bnd (case left of Some l \<Rightarrow> Inr (l, s) | None \<Rightarrow> P_parseBindingAtom P s)
       (\<lambda>(left', s1).
          if ecmaVersion s1 < 6 then Inr (left', s1)
          else
            bnd (eat tt_eq s1)
              (\<lambda>(eq, s2).
                 if \<not> eq then Inr (left', s2)
                 else bnd (P_parseMaybeAssign P FI_false None s2)
                        (\<lambda>(right, s3).
                           Inr (AssignmentPattern startPos (lastTokEnd s3) left' right, s3))))"

text \<open>One round of the loop of \<^verbatim>\<open>parseBindingList\<close>; \<^verbatim>\<open>parseBindingListItem\<close>
  is the identity.\<close>

definition parseBindingList_loop :: "parsers \<Rightarrow> TokenType \<Rightarrow> bool \<Rightarrow> bool \<Rightarrow> node option list
    \<Rightarrow> bool \<Rightarrow> node option list parser" where
  "parseBindingList_loop P close allowEmpty allowTrailingComma elts first s =
     bnd (eat close s)
       (\<lambda>(closed, s1).
          if closed then Inr (elts, s1)
          else
            bnd (if first then Inr ((), s1) else expect tt_comma s1)
              (\<lambda>(_, s2).
                 if allowEmpty \<and> type s2 = tt_comma
                 then P_parseBindingList_loop P close allowEmpty allowTrailingComma
                        (elts @ [None]) False s2
                 else
                   bnd (if allowTrailingComma then afterTrailingComma close False s2
                        else Inr (False, s2))
                     (\<lambda>(break, s3).
                        if break then Inr (elts, s3)
                        else if type s3 = tt_ellipsis then
                          bnd (parseRestBinding P s3)
                            (\<lambda>(rest, s4).
                               if type s4 = tt_comma
                               then raise (start s4) ''Comma is not permitted after the rest element''
                               else bnd (expect close s4)
                                      (\<lambda>(_, s5). Inr (elts @ [Some rest], s5)))
                        else
                          bnd (parseMaybeDefault P (start s3) None s3)
                            (\<lambda>(elem, s4).
                               P_parseBindingList_loop P close allowEmpty allowTrailingComma
                                 (elts @ [Some elem]) False s4))))"

definition parseBindingList :: "parsers \<Rightarrow> TokenType \<Rightarrow> bool \<Rightarrow> bool \<Rightarrow> node option list parser" where
  "parseBindingList P close allowEmpty allowTrailingComma s =
     parseBindingList_loop P close allowEmpty allowTrailingComma [] True s"

definition parseBindingAtom :: "parsers \<Rightarrow> node parser" where
  "parseBindingAtom P s =
     (if ecmaVersion s \<ge> 6 \<and> type s = tt_bracketL then
        (let nodeStart = start s; s1 = next s in
         bnd (parseBindingList P tt_bracketR True True s1)
           (\<lambda>(elements, s2). Inr (ArrayPattern nodeStart (lastTokEnd s2) elements, s2)))
      else if ecmaVersion s \<ge> 6 \<and> type s = tt_braceL then Inl (NotModelled ''parseObj'')
      else parseIdent False s)"

subsection \<open>Atoms\<close>

definition parseParenExpression :: "parsers \<Rightarrow> node parser" where
  "parseParenExpression P s =
     bnd (expect tt_parenL s)
       (\<lambda>(_, s1). bnd (P_parseExpression P FI_false None s1)
         (\<lambda>(v, s2). bnd (expect tt_parenR s2)
           (\<lambda>(_, s3). Inr (v, s3))))"

text \<open>
  One round of the loop of \<^verbatim>\<open>parseParenAndDistinguishExpression\<close>, with
  \<^verbatim>\<open>exprList\<close> and \<^verbatim>\<open>first\<close> as arguments; it answers \<^verbatim>\<open>exprList\<close>,
  \<^verbatim>\<open>lastIsComma\<close> and \<^verbatim>\<open>spreadStart\<close> as the loop leaves them.
  \<^verbatim>\<open>parseParenItem\<close> is the identity.
\<close>

definition parseParen_loop :: "parsers \<Rightarrow> bool \<Rightarrow> nat \<Rightarrow> node list \<Rightarrow> bool
    \<Rightarrow> (node list \<times> bool \<times> int option) parser" where
  "parseParen_loop P allowTrailingComma r exprList first s =
     (if type s = tt_parenR then Inr ((exprList, False, None), s)
      else
        bnd (if first then Inr ((), s) else expect tt_comma s)
          (\<lambda>(_, s1).
             bnd (if allowTrailingComma then afterTrailingComma tt_parenR True s1
                  else Inr (False, s1))
               (\<lambda>(trailing, s2).
                  if trailing then Inr ((exprList, True, None), s2)
                  else if type s2 = tt_ellipsis then
                    (let spreadStart = start s2 in
                     bnd (parseRestBinding P s2)
                       (\<lambda>(rest, s3).
                          if type s3 = tt_comma
                          then raise (start s3) ''Comma is not permitted after the rest element''
                          else Inr ((exprList @ [rest], False, Some spreadStart), s3)))
                  else
                    bnd (P_parseMaybeAssign P FI_false (Some r) s2)
                      (\<lambda>(e, s3). P_parseParen_loop P allowTrailingComma r (exprList @ [e]) False s3))))"

definition parseParenAndDistinguishExpression :: "parsers \<Rightarrow> bool \<Rightarrow> forInit \<Rightarrow> node parser" where
  "parseParenAndDistinguishExpression P canBeArrow forInit s =
     (let startPos = start s; allowTrailingComma = (ecmaVersion s \<ge> 8) in
      bnd (if ecmaVersion s \<ge> 6 then
             (let s1 = next s;
                  innerStartPos = start s1;
                  (r, s2) = new_ref s1;
                  oldYieldPos = yieldPos s2;
                  oldAwaitPos = awaitPos s2;
                  s3 = s2\<lparr>yieldPos := 0, awaitPos := 0\<rparr>
              in
              bnd (parseParen_loop P allowTrailingComma r [] True s3)
                (\<lambda>((exprList, lastIsComma, spreadStart), s4).
                   let innerEndPos = lastTokEnd s4 in
                   bnd (expect tt_parenR s4)
                     (\<lambda>(_, s5).
                        bnd (if canBeArrow \<and> \<not> canInsertSemicolon s5 then eat tt_arrow s5
                             else Inr (False, s5))
                          (\<lambda>(arrow, s6).
                             if arrow then Inl (NotModelled ''parseArrowExpression'')
                             else if exprList = [] \<or> lastIsComma
                             then unexpected_at (lastTokStart s6) s6
                             else
                               (case spreadStart of
                                  Some p \<Rightarrow> unexpected_at p s6
                                | None \<Rightarrow>
                                    bnd (checkExpressionErrors (deref (Some r) s6) True)
                                      (\<lambda>_.
                                         let s7 = s6\<lparr>yieldPos := (if oldYieldPos \<noteq> 0 then oldYieldPos
                                                                 else yieldPos s6),
                                                      awaitPos := (if oldAwaitPos \<noteq> 0 then oldAwaitPos
                                                                 else awaitPos s6)\<rparr>
                                         in case exprList of
                                              [e] \<Rightarrow> Inr (e, s7)
                                            | _ \<Rightarrow> Inr (SequenceExpression innerStartPos innerEndPos
                                                           exprList, s7)))))))
           else parseParenExpression P s)
        (\<lambda>(v, s8).
           if preserveParens s8
           then Inr (ParenthesizedExpression startPos (lastTokEnd s8) v, s8)
           else Inr (v, s8)))"

fun identName :: "node \<Rightarrow> string" where
  "identName (Identifier st e name) = name"
| "identName n = []"

text \<open>
  \<^verbatim>\<open>parseExprAtom\<close>. The cases that lead to functions, classes, arrow functions,
  object literals, templates, \<^verbatim>\<open>new\<close>, \<^verbatim>\<open>super\<close>, \<^verbatim>\<open>import\<close> and regular
  expressions are outside the model.
\<close>

definition parseExprAtom :: "parsers \<Rightarrow> ref \<Rightarrow> forInit \<Rightarrow> node parser" where
  "parseExprAtom P refDestructuringErrors forInit s =
     (if type s = tt_slash then Inl (NotModelled ''readRegexp'')
      else
        let canBeArrow = (potentialArrowAt s = start s) in
        if type s = tt_super then Inl (NotModelled ''super'')
        else if type s = tt_this then
          (let s1 = next s in Inr (ThisExpression (start s) (lastTokEnd s1), s1))
        else if type s = tt_name then
          (let startPos = start s; cEsc = containsEsc s in
           bnd (parseIdent False s)
             (\<lambda>(id', s1).
                bnd (if ecmaVersion s1 \<ge> 8 \<and> \<not> cEsc \<and> identName id' = ''async''
                        \<and> \<not> canInsertSemicolon s1
                     then eat tt_function s1 else Inr (False, s1))
                  (\<lambda>(fn, s2).
                     if fn then Inl (NotModelled ''parseFunction'')
                     else if canBeArrow \<and> \<not> canInsertSemicolon s2 then
                       bnd (eat tt_arrow s2)
                         (\<lambda>(arrow, s3).
                            if arrow then Inl (NotModelled ''parseArrowExpression'')
                            else if ecmaVersion s3 \<ge> 8 \<and> identName id' = ''async''
                                    \<and> type s3 = tt_name \<and> \<not> cEsc
                                    \<and> (\<not> potentialArrowInForAwait s3 \<or> val s3 \<noteq> ''of''
                                        \<or> containsEsc s3)
                            then
                              bnd (parseIdent False s3)
                                (\<lambda>(id2, s4).
                                   if canInsertSemicolon s4 then unexpected_here s4
                                   else bnd (eat tt_arrow s4)
                                          (\<lambda>(arrow2, s5).
                                             if \<not> arrow2 then unexpected_here s5
                                             else Inl (NotModelled ''parseArrowExpression'')))
                            else Inr (id', s3))
                     else Inr (id', s2))))
        else if type s = tt_regexp then Inl (NotModelled ''regexp'')
        else if type s = tt_num \<or> type s = tt_string then parseLiteral (val s) s
        else if type s = tt_null \<or> type s = tt_true \<or> type s = tt_false then
          (let s1 = next s in
           Inr (Literal (start s) (lastTokEnd s1)
                  (case keyword (type s) of Some k \<Rightarrow> k | None \<Rightarrow> []), s1))
        else if type s = tt_parenL then
          (let st = start s in
           bnd (parseParenAndDistinguishExpression P canBeArrow forInit s)
             (\<lambda>(expr, s1).
                Inr (expr,
                  case refDestructuringErrors of
                    None \<Rightarrow> s1
                  | Some i \<Rightarrow>
                      let s2 = (if parenthesizedAssign (get_ref i s1) < 0
                                   \<and> \<not> isSimpleAssignTarget expr
                                then upd_ref i (\<lambda>d. d\<lparr>parenthesizedAssign := st\<rparr>) s1 else s1)
                      in if parenthesizedBind (get_ref i s2) < 0
                         then upd_ref i (\<lambda>d. d\<lparr>parenthesizedBind := st\<rparr>) s2 else s2)))
        else if type s = tt_bracketL then
          (let nodeStart = start s; s1 = next s in
           bnd (parseExprList P tt_bracketR True True refDestructuringErrors s1)
             (\<lambda>(elements, s2). Inr (ArrayExpression nodeStart (lastTokEnd s2) elements, s2)))
        else if type s = tt_braceL then Inl (NotModelled ''parseObj'')
        else if type s = tt_function then Inl (NotModelled ''parseFunction'')
        else if type s = tt_class then Inl (NotModelled ''parseClass'')
        else if type s = tt_new then Inl (NotModelled ''parseNew'')
        else if type s = tt_backQuote then Inl (NotModelled ''parseTemplate'')
        else if type s = tt_import then
          (if ecmaVersion s \<ge> 11 then Inl (NotModelled ''parseExprImport'')
           else unexpected_here s)
        else unexpected_here s)"

subsection \<open>Subscripts\<close>

text \<open>The field \<^verbatim>\<open>optional\<close> of a node, false where the node has none.\<close>

fun optional_of :: "node \<Rightarrow> bool" where
  "optional_of (MemberExpression st e ob pr c opt) = opt"
| "optional_of (CallExpression st e c as opt) = opt"
| "optional_of n = False"

text \<open>
  \<^verbatim>\<open>parseSubscript\<close>. The branches that build an arrow function or a tagged template
  are outside the model. Where the source returns \<^verbatim>\<open>base\<close> itself, the model
  returns \<open>base\<close>; every other result is a new node that has \<open>base\<close> as a field.
\<close>

definition parseSubscript :: "parsers \<Rightarrow> node \<Rightarrow> int \<Rightarrow> bool \<Rightarrow> bool \<Rightarrow> bool \<Rightarrow> forInit
    \<Rightarrow> node parser" where
  "parseSubscript P base startPos noCalls maybeAsyncArrow optionalChained forInit s =
     (let optionalSupported = (ecmaVersion s \<ge> 11) in
      bnd (if optionalSupported then eat tt_questionDot s else Inr (False, s))
        (\<lambda>(optional, s1).
           if noCalls \<and> optional
           then raise (lastTokStart s1)
                  ''Optional chaining cannot appear in the callee of new expressions''
           else
             bnd (eat tt_bracketL s1)
               (\<lambda>(computed, s2).
                  bnd (if computed \<or> (optional \<and> type s2 \<noteq> tt_parenL \<and> type s2 \<noteq> tt_backQuote)
                       then Inr (True, s2) else eat tt_dot s2)
                    (\<lambda>(member, s3).
                       if member then
                         bnd (if computed then
                                bnd (P_parseExpression P FI_false None s3)
                                  (\<lambda>(property, s4).
                                     bnd (expect tt_bracketR s4)
                                       (\<lambda>(_, s5). Inr (property, s5)))
                              else if type s3 = tt_privateId \<and> ntype base \<noteq> ''Super''
                              then parsePrivateIdent s3
                              else parseIdent (\<not> allowReservedNever s3) s3)
                           (\<lambda>(property, s6).
                              Inr (MemberExpression startPos (lastTokEnd s6) base property computed
                                     (optionalSupported \<and> optional), s6))
                       else
                         bnd (if \<not> noCalls then eat tt_parenL s3 else Inr (False, s3))
                           (\<lambda>(call, s4).
                              if call then
                                (let (r, s5) = new_ref s4;
                                     oldYieldPos = yieldPos s5;
                                     oldAwaitPos = awaitPos s5;
                                     oldAwaitIdentPos = awaitIdentPos s5;
                                     s6 = s5\<lparr>yieldPos := 0, awaitPos := 0, awaitIdentPos := 0\<rparr>
                                 in
                                 bnd (parseExprList P tt_parenR (ecmaVersion s6 \<ge> 8) False (Some r) s6)
                                   (\<lambda>(exprList, s7).
                                      bnd (if maybeAsyncArrow \<and> \<not> optional \<and> \<not> canInsertSemicolon s7
                                           then eat tt_arrow s7 else Inr (False, s7))
                                        (\<lambda>(arrow, s8).
                                           if arrow then Inl (NotModelled ''parseArrowExpression'')
                                           else
                                             bnd (checkExpressionErrors (deref (Some r) s8) True)
                                               (\<lambda>_.
                                                  let s9 = s8\<lparr>
                                                    yieldPos := (if oldYieldPos \<noteq> 0 then oldYieldPos
                                                                 else yieldPos s8),
                                                    awaitPos := (if oldAwaitPos \<noteq> 0 then oldAwaitPos
                                                                 else awaitPos s8),
                                                    awaitIdentPos := (if oldAwaitIdentPos \<noteq> 0
                                                                 then oldAwaitIdentPos
                                                                 else awaitIdentPos s8)\<rparr>
                                                  in Inr (CallExpression startPos (lastTokEnd s9) base
                                                            exprList (optionalSupported \<and> optional),
                                                          s9)))))
                              else if type s4 = tt_backQuote then
                                (if optional \<or> optionalChained
                                 then raise (start s4)
                                        ''Optional chaining cannot appear in the tag of tagged template expressions''
                                 else Inl (NotModelled ''parseTemplate''))
                              else Inr (base, s4))))))"

text \<open>
  One round of the loop of \<^verbatim>\<open>parseSubscripts\<close>, with \<^verbatim>\<open>base\<close> and
  \<^verbatim>\<open>optionalChained\<close> as arguments. The test \<^verbatim>\<open>element === base\<close> compares
  references; a node that \<^verbatim>\<open>parseSubscript\<close> builds has \<^verbatim>\<open>base\<close> as a proper part
  and so differs from it as a value too.
\<close>

definition parseSubscripts_loop :: "parsers \<Rightarrow> node \<Rightarrow> int \<Rightarrow> bool \<Rightarrow> bool \<Rightarrow> bool \<Rightarrow> forInit
    \<Rightarrow> node parser" where
  "parseSubscripts_loop P base startPos noCalls maybeAsyncArrow optionalChained forInit s =
     bnd (parseSubscript P base startPos noCalls maybeAsyncArrow optionalChained forInit s)
       (\<lambda>(element, s1).
          let optionalChained' = (if optional_of element then True else optionalChained) in
          if element = base \<or> ntype element = ''ArrowFunctionExpression'' then
            (if optionalChained'
             then Inr (ChainExpression startPos (lastTokEnd s1) element, s1)
             else Inr (element, s1))
          else P_parseSubscripts_loop P element startPos noCalls maybeAsyncArrow
                 optionalChained' forInit s1)"

definition parseSubscripts :: "parsers \<Rightarrow> node \<Rightarrow> int \<Rightarrow> bool \<Rightarrow> forInit \<Rightarrow> node parser" where
  "parseSubscripts P base startPos noCalls forInit s =
     (let maybeAsyncArrow =
            (ecmaVersion s \<ge> 8 \<and> ntype base = ''Identifier'' \<and> identName base = ''async''
             \<and> lastTokEnd s = nend base \<and> \<not> canInsertSemicolon s
             \<and> nend base - nstart base = 5 \<and> potentialArrowAt s = nstart base)
      in parseSubscripts_loop P base startPos noCalls maybeAsyncArrow False forInit s)"

definition parseExprSubscripts :: "parsers \<Rightarrow> ref \<Rightarrow> forInit \<Rightarrow> node parser" where
  "parseExprSubscripts P refDestructuringErrors forInit s =
     (let startPos = start s in
      bnd (parseExprAtom P refDestructuringErrors forInit s)
        (\<lambda>(expr, s1).
           if ntype expr = ''ArrowFunctionExpression''
              \<and> slice (input s1) (lastTokStart s1) (lastTokEnd s1) \<noteq> [41]
           then Inr (expr, s1)
           else
             bnd (parseSubscripts P expr startPos False forInit s1)
               (\<lambda>(result, s2).
                  Inr (result,
                    case refDestructuringErrors of
                      None \<Rightarrow> s2
                    | Some i \<Rightarrow>
                        if ntype result = ''MemberExpression'' then
                          (let s3 = (if parenthesizedAssign (get_ref i s2) \<ge> nstart result
                                     then upd_ref i (\<lambda>d. d\<lparr>parenthesizedAssign := -1\<rparr>) s2 else s2);
                               s4 = (if parenthesizedBind (get_ref i s3) \<ge> nstart result
                                     then upd_ref i (\<lambda>d. d\<lparr>parenthesizedBind := -1\<rparr>) s3 else s3)
                           in if trailingComma (get_ref i s4) \<ge> nstart result
                              then upd_ref i (\<lambda>d. d\<lparr>trailingComma := -1\<rparr>) s4 else s4)
                        else s2))))"

subsection \<open>Unary operators\<close>

fun isPrivateFieldAccess :: "node \<Rightarrow> bool" where
  "isPrivateFieldAccess (MemberExpression st e ob pr c opt) = (ntype pr = ''PrivateIdentifier'')"
| "isPrivateFieldAccess (ChainExpression st e x) = isPrivateFieldAccess x"
| "isPrivateFieldAccess n = False"

definition parseAwait :: "parsers \<Rightarrow> forInit \<Rightarrow> node parser" where
  "parseAwait P forInit s =
     (let s0 = (if awaitPos s = 0 then s\<lparr>awaitPos := start s\<rparr> else s);
          nodeStart = start s0;
          s1 = next s0
      in bnd (P_parseMaybeUnary P None True False forInit s1)
           (\<lambda>(argument, s2). Inr (AwaitExpression nodeStart (lastTokEnd s2) argument, s2)))"

text \<open>One round of the loop of \<^verbatim>\<open>parseMaybeUnary\<close> that consumes postfix operators,
  with \<^verbatim>\<open>expr\<close> as argument.\<close>

definition parseMaybeUnary_loop :: "parsers \<Rightarrow> int \<Rightarrow> node \<Rightarrow> node parser" where
  "parseMaybeUnary_loop P startPos expr s =
     (if postfix (type s) \<and> \<not> canInsertSemicolon s then
        (let operator = val s in
         bnd (checkLValSimple P expr BIND_NONE None s)
           (\<lambda>(_, s1).
              let s2 = next s1 in
              P_parseMaybeUnary_loop P startPos
                (UnaryExpression startPos (lastTokEnd s2) operator False expr) s2))
      else Inr (expr, s))"

text \<open>
  \<^verbatim>\<open>parseMaybeUnary\<close>. The first part answers \<^verbatim>\<open>expr\<close>, \<^verbatim>\<open>sawUnary\<close> and
  whether the source has returned \<^verbatim>\<open>expr\<close> already; the second part is the test for
  \<^verbatim>\<open>**\<close> that ends the function.
\<close>

definition parseMaybeUnary :: "parsers \<Rightarrow> ref \<Rightarrow> bool \<Rightarrow> bool \<Rightarrow> forInit \<Rightarrow> node parser" where
  "parseMaybeUnary P refDestructuringErrors sawUnary incDec forInit s =
     (let startPos = start s in
      bnd (if isContextual ''await'' s \<and> canAwait s then
             bnd (parseAwait P forInit s) (\<lambda>(expr, s1). Inr ((expr, True, False), s1))
           else if prefix (type s) then
             (let nodeStart = start s;
                  update = (type s = tt_incDec);
                  operator = val s;
                  s1 = next s
              in
              bnd (P_parseMaybeUnary P None True update forInit s1)
                (\<lambda>(argument, s2).
                   bnd (checkExpressionErrors (deref refDestructuringErrors s2) True)
                     (\<lambda>_.
                        bnd (if update then
                               bnd (checkLValSimple P argument BIND_NONE None s2)
                                 (\<lambda>(_, s3). Inr (sawUnary, s3))
                             else if strict s2 \<and> operator = ''delete''
                                     \<and> ntype argument = ''Identifier''
                             then raiseRecoverable nodeStart ''Deleting local variable in strict mode''
                             else if operator = ''delete'' \<and> isPrivateFieldAccess argument
                             then raiseRecoverable nodeStart ''Private fields can not be deleted''
                             else Inr (True, s2))
                          (\<lambda>(sawUnary', s3).
                             Inr ((if update
                                   then UpdateExpression nodeStart (lastTokEnd s3) operator True argument
                                   else UnaryExpression nodeStart (lastTokEnd s3) operator True argument,
                                   sawUnary', False), s3)))))
           else if \<not> sawUnary \<and> type s = tt_privateId then
             (if truthy forInit \<or> privateNameStack s = [] then unexpected_here s
              else
                bnd (parsePrivateIdent s)
                  (\<lambda>(expr, s1).
                     if type s1 \<noteq> tt_in then unexpected_here s1
                     else Inr ((expr, sawUnary, False), s1)))
           else
             bnd (parseExprSubscripts P refDestructuringErrors forInit s)
               (\<lambda>(expr, s1).
                  bnd (checkExpressionErrors (deref refDestructuringErrors s1) False)
                    (\<lambda>bad.
                       if bad then Inr ((expr, sawUnary, True), s1)
                       else
                         bnd (parseMaybeUnary_loop P startPos expr s1)
                           (\<lambda>(expr', s2). Inr ((expr', sawUnary, False), s2)))))
        (\<lambda>((expr, sawUnary', returned), s4).
           if returned then Inr (expr, s4)
           else
             bnd (if \<not> incDec then eat tt_starstar s4 else Inr (False, s4))
               (\<lambda>(pow, s5).
                  if pow then
                    (if sawUnary' then unexpected_at (lastTokStart s5) s5
                     else
                       bnd (P_parseMaybeUnary P None False False forInit s5)
                         (\<lambda>(right, s6). buildBinary startPos expr right ''**'' False s6))
                  else Inr (expr, s5))))"

subsection \<open>Binary operators\<close>

definition parseExprOp :: "parsers \<Rightarrow> node \<Rightarrow> int \<Rightarrow> int \<Rightarrow> forInit \<Rightarrow> node parser" where
  "parseExprOp P left leftStartPos minPrec forInit s =
     (case binop (type s) of
        None \<Rightarrow> Inr (left, s)
      | Some prec0 \<Rightarrow>
          if (\<not> truthy forInit \<or> type s \<noteq> tt_in) \<and> int prec0 > minPrec then
            (let logical = (type s = tt_logicalOR \<or> type s = tt_logicalAND);
                 coalesce = (type s = tt_coalesce);
                 prec = (if coalesce
                         then (case binop tt_logicalAND of Some p \<Rightarrow> p | None \<Rightarrow> prec0)
                         else prec0);
                 op = val s;
                 s1 = next s;
                 startPos = start s1
             in
             bnd (parseMaybeUnary P None False False forInit s1)
               (\<lambda>(operand, s2).
                  bnd (P_parseExprOp P operand startPos (int prec) forInit s2)
                    (\<lambda>(right, s3).
                       bnd (buildBinary leftStartPos left right op (logical \<or> coalesce) s3)
                         (\<lambda>(node, s4).
                            if (logical \<and> type s4 = tt_coalesce)
                               \<or> (coalesce \<and> (type s4 = tt_logicalOR \<or> type s4 = tt_logicalAND))
                            then raiseRecoverable (start s4)
                                   ''Logical expressions and coalesce expressions cannot be mixed. Wrap either by parentheses''
                            else P_parseExprOp P node leftStartPos minPrec forInit s4))))
          else Inr (left, s))"

definition parseExprOps :: "parsers \<Rightarrow> forInit \<Rightarrow> ref \<Rightarrow> node parser" where
  "parseExprOps P forInit refDestructuringErrors s =
     (let startPos = start s in
      bnd (parseMaybeUnary P refDestructuringErrors False False forInit s)
        (\<lambda>(expr, s1).
           bnd (checkExpressionErrors (deref refDestructuringErrors s1) False)
             (\<lambda>bad.
                if bad then Inr (expr, s1)
                else if nstart expr = startPos \<and> ntype expr = ''ArrowFunctionExpression''
                then Inr (expr, s1)
                else parseExprOp P expr startPos (-1) forInit s1)))"

subsection \<open>Conditional, assignment and sequence\<close>

definition parseMaybeConditional :: "parsers \<Rightarrow> forInit \<Rightarrow> ref \<Rightarrow> node parser" where
  "parseMaybeConditional P forInit refDestructuringErrors s =
     (let startPos = start s in
      bnd (parseExprOps P forInit refDestructuringErrors s)
        (\<lambda>(expr, s1).
           bnd (checkExpressionErrors (deref refDestructuringErrors s1) False)
             (\<lambda>bad.
                if bad then Inr (expr, s1)
                else
                  bnd (eat tt_question s1)
                    (\<lambda>(question, s2).
                       if question then
                         bnd (P_parseMaybeAssign P FI_false None s2)
                           (\<lambda>(consequent, s3).
                              bnd (expect tt_colon s3)
                                (\<lambda>(_, s4).
                                   bnd (P_parseMaybeAssign P forInit None s4)
                                     (\<lambda>(alternate, s5).
                                        Inr (ConditionalExpression startPos (lastTokEnd s5) expr
                                               consequent alternate, s5))))
                       else Inr (expr, s2)))))"

text \<open>
  \<^verbatim>\<open>parseMaybeAssign\<close> from the point where \<^verbatim>\<open>refDestructuringErrors\<close> refers to
  an object (\<open>r\<close>), its own or the caller's, with the four variables the source sets
  before that point as arguments.
\<close>

definition parseMaybeAssign_rest :: "parsers \<Rightarrow> forInit \<Rightarrow> bool \<Rightarrow> int \<Rightarrow> int \<Rightarrow> int \<Rightarrow> nat
    \<Rightarrow> node parser" where
  "parseMaybeAssign_rest P forInit ownDestructuringErrors oldParenAssign oldTrailingComma
       oldDoubleProto r s =
     (let startPos = start s;
          s1 = (if type s = tt_parenL \<or> type s = tt_name
                then s\<lparr>potentialArrowAt := start s,
                       potentialArrowInForAwait := (forInit = FI_await)\<rparr>
                else s)
      in
      bnd (parseMaybeConditional P forInit (Some r) s1)
        (\<lambda>(left, s2).
           if isAssign (type s2) then
             (let operator = val s2 in
              bnd (if type s2 = tt_eq then toAssignable_p left False (Some r) s2
                   else Inr (left, s2))
                (\<lambda>(left', s3).
                   let s4 = (if \<not> ownDestructuringErrors
                             then upd_ref r (\<lambda>d. d\<lparr>parenthesizedAssign := -1, trailingComma := -1,
                                                     doubleProto := -1\<rparr>) s3
                             else s3);
                       s5 = (if shorthandAssign (get_ref r s4) \<ge> nstart left'
                             then upd_ref r (\<lambda>d. d\<lparr>shorthandAssign := -1\<rparr>) s4 else s4)
                   in
                   bnd (if type s5 = tt_eq then checkLValPattern P left' BIND_NONE None s5
                        else checkLValSimple P left' BIND_NONE None s5)
                     (\<lambda>(_, s6).
                        let s7 = next s6 in
                        bnd (P_parseMaybeAssign P forInit None s7)
                          (\<lambda>(right, s8).
                             let s9 = (if oldDoubleProto > -1
                                       then upd_ref r (\<lambda>d. d\<lparr>doubleProto := oldDoubleProto\<rparr>) s8
                                       else s8)
                             in Inr (AssignmentExpression startPos (lastTokEnd s9) operator left'
                                       right, s9)))))
           else
             bnd (if ownDestructuringErrors
                  then checkExpressionErrors (deref (Some r) s2) True else Inr False)
               (\<lambda>_.
                  let s3 = (if oldParenAssign > -1
                            then upd_ref r (\<lambda>d. d\<lparr>parenthesizedAssign := oldParenAssign\<rparr>) s2
                            else s2);
                      s4 = (if oldTrailingComma > -1
                            then upd_ref r (\<lambda>d. d\<lparr>trailingComma := oldTrailingComma\<rparr>) s3
                            else s3)
                  in Inr (left, s4))))"

text \<open>
  \<^verbatim>\<open>parseMaybeAssign(forInit, refDestructuringErrors)\<close>. The third parameter of the
  source, \<^verbatim>\<open>afterLeftParse\<close>, is only ever \<^verbatim>\<open>parseParenItem\<close>, the identity, and
  is left out. \<^verbatim>\<open>parseYield\<close> is outside the model; the assignment to the
  tokenizer's \<^verbatim>\<open>exprAllowed\<close> has no counterpart.
\<close>

definition parseMaybeAssign :: "parsers \<Rightarrow> forInit \<Rightarrow> ref \<Rightarrow> node parser" where
  "parseMaybeAssign P forInit refDestructuringErrors s =
     (if isContextual ''yield'' s \<and> inGenerator s then Inl (NotModelled ''parseYield'')
      else
        (case refDestructuringErrors of
           Some r \<Rightarrow>
             parseMaybeAssign_rest P forInit False
               (parenthesizedAssign (get_ref r s)) (trailingComma (get_ref r s))
               (doubleProto (get_ref r s)) r
               (upd_ref r (\<lambda>d. d\<lparr>parenthesizedAssign := -1, trailingComma := -1\<rparr>) s)
         | None \<Rightarrow>
             (let (r, s0) = new_ref s
              in parseMaybeAssign_rest P forInit True (-1) (-1) (-1) r s0)))"

text \<open>One round of the loop of \<^verbatim>\<open>parseExpression\<close>, with
  \<^verbatim>\<open>node.expressions\<close> as argument.\<close>

definition parseExpression_loop :: "parsers \<Rightarrow> forInit \<Rightarrow> ref \<Rightarrow> node list \<Rightarrow> node list parser" where
  "parseExpression_loop P forInit refDestructuringErrors expressions s =
     bnd (eat tt_comma s)
       (\<lambda>(comma, s1).
          if comma then
            bnd (parseMaybeAssign P forInit refDestructuringErrors s1)
              (\<lambda>(expr, s2).
                 P_parseExpression_loop P forInit refDestructuringErrors (expressions @ [expr]) s2)
          else Inr (expressions, s1))"

definition parseExpression :: "parsers \<Rightarrow> forInit \<Rightarrow> ref \<Rightarrow> node parser" where
  "parseExpression P forInit refDestructuringErrors s =
     (let startPos = start s in
      bnd (parseMaybeAssign P forInit refDestructuringErrors s)
        (\<lambda>(expr, s1).
           if type s1 = tt_comma then
             bnd (parseExpression_loop P forInit refDestructuringErrors [expr] s1)
               (\<lambda>(expressions, s2).
                  Inr (SequenceExpression startPos (lastTokEnd s2) expressions, s2))
           else Inr (expr, s1)))"

section \<open>The statement parser (statement.js)\<close>

definition codes :: "string \<Rightarrow> nat list" where
  "codes str = map of_char str"

text \<open>Modelled from the spec: \<^verbatim>\<open>keywordRelationalOperator.test\<close> of identifier.js,
  which is not among the sources; the keyword relational operators are \<^verbatim>\<open>in\<close> and
  \<^verbatim>\<open>instanceof\<close>.\<close>

definition keywordRelationalOperator :: "nat list \<Rightarrow> bool" where
  "keywordRelationalOperator ident = (ident = codes ''in'' \<or> ident = codes ''instanceof'')"

text \<open>A code unit \<^verbatim>\<open>c\<close> with \<^verbatim>\<open>c > 0xd7ff && c < 0xdc00\<close>; false at NaN.\<close>

definition leadSurrogate :: "nat option \<Rightarrow> bool" where
  "leadSurrogate c = (case c of None \<Rightarrow> False | Some n \<Rightarrow> n > 0xd7ff \<and> n < 0xdc00)"

text \<open>
  \<^verbatim>\<open>isLet(context)\<close>; \<open>None\<close> is a falsy \<^verbatim>\<open>context\<close>. The loop
  \<^verbatim>\<open>while (isIdentifierChar(nextCh = this.input.charCodeAt(pos), true)) ++pos\<close> is the
  count of the identifier characters from \<^verbatim>\<open>next + 1\<close> on.
\<close>

definition isLet :: "parsers \<Rightarrow> string option \<Rightarrow> pstate \<Rightarrow> bool" where
  "isLet P context s =
     (if ecmaVersion s < 6 \<or> \<not> isContextual ''let'' s then False
      else
        let skip = skipWhiteSpace (input s) (pos_of s);
            nxt = pos_of s + skip;
            nextCh = charCodeAt (input s) nxt
        in
        if nextCh = Some 91 \<or> nextCh = Some 92 then True
        else if context \<noteq> None then False
        else if nextCh = Some 123 \<or> leadSurrogate nextCh then True
        else if (case nextCh of None \<Rightarrow> False | Some c \<Rightarrow> P_isIdentifierStart P c True) then
          (let pos = nxt + 1
                 + int (length (takeWhile (\<lambda>c. P_isIdentifierChar P c True)
                                 (drop (nat (nxt + 1)) (input s))));
               nextCh' = charCodeAt (input s) pos
           in
           if nextCh' = Some 92 \<or> leadSurrogate nextCh' then True
           else \<not> keywordRelationalOperator (slice (input s) nxt pos))
        else False)"

definition isAsyncFunction :: "parsers \<Rightarrow> pstate \<Rightarrow> bool" where
  "isAsyncFunction P s =
     (if ecmaVersion s < 8 \<or> \<not> isContextual ''async'' s then False
      else
        let skip = skipWhiteSpace (input s) (pos_of s);
            nxt = pos_of s + skip;
            after = charCodeAt (input s) (nxt + 8)
        in
        \<not> lineBreak_test (slice (input s) (pos_of s) nxt)
        \<and> slice (input s) nxt (nxt + 8) = codes ''function''
        \<and> (nxt + 8 = int (length (input s))
            \<or> \<not> ((case after of None \<Rightarrow> False | Some c \<Rightarrow> P_isIdentifierChar P c True)
                   \<or> leadSurrogate after)))"

definition loopLabel :: labelRec where
  "loopLabel = \<lparr>lkind = Some ''loop'', lname = None, statementStart = None\<rparr>"

definition push_label :: "labelRec \<Rightarrow> pstate \<Rightarrow> pstate" where
  "push_label l s = s\<lparr>labels := labels s @ [l]\<rparr>"

definition pop_label :: "pstate \<Rightarrow> pstate" where
  "pop_label s = s\<lparr>labels := butlast (labels s)\<rparr>"

definition parseVarId :: "parsers \<Rightarrow> string \<Rightarrow> node parser" where
  "parseVarId P kind s =
     bnd (parseBindingAtom P s)
       (\<lambda>(id', s1).
          bnd (checkLValPattern P id' (if kind = ''var'' then BIND_VAR else BIND_LEXICAL) None s1)
            (\<lambda>(_, s2). Inr (id', s2)))"

text \<open>One round of the loop of \<^verbatim>\<open>parseVar\<close>, with \<^verbatim>\<open>node.declarations\<close> as
  argument.\<close>

definition parseVar_loop :: "parsers \<Rightarrow> bool \<Rightarrow> string \<Rightarrow> node list \<Rightarrow> node list parser" where
  "parseVar_loop P isFor kind declarations s =
     (let declStart = start s in
      bnd (parseVarId P kind s)
        (\<lambda>(id', s1).
           bnd (eat tt_eq s1)
             (\<lambda>(eq, s2).
                bnd (if eq then
                       bnd (parseMaybeAssign P (if isFor then FI_true else FI_false) None s2)
                         (\<lambda>(init, s3). Inr (Some init, s3))
                     else if kind = ''const''
                             \<and> \<not> (type s2 = tt_in \<or> (ecmaVersion s2 \<ge> 6 \<and> isContextual ''of'' s2))
                     then unexpected_here s2
                     else if ntype id' \<noteq> ''Identifier''
                             \<and> \<not> (isFor \<and> (type s2 = tt_in \<or> isContextual ''of'' s2))
                     then raise (lastTokEnd s2)
                            ''Complex binding patterns require an initialization value''
                     else Inr (None, s2))
                  (\<lambda>(init, s3).
                     let declarations' =
                           declarations @ [VariableDeclarator declStart (lastTokEnd s3) id' init]
                     in bnd (eat tt_comma s3)
                          (\<lambda>(comma, s4).
                             if \<not> comma then Inr (declarations', s4)
                             else P_parseVar_loop P isFor kind declarations' s4)))))"

text \<open>\<^verbatim>\<open>parseVar(node, isFor, kind)\<close> answers \<^verbatim>\<open>node.declarations\<close>;
  \<^verbatim>\<open>node.kind\<close> is \<^verbatim>\<open>kind\<close>.\<close>

definition parseVar :: "parsers \<Rightarrow> bool \<Rightarrow> string \<Rightarrow> node list parser" where
  "parseVar P isFor kind s = parseVar_loop P isFor kind [] s"

definition parseVarStatement :: "parsers \<Rightarrow> int \<Rightarrow> string \<Rightarrow> node parser" where
  "parseVarStatement P nodeStart kind s =
     (let s1 = next s in
      bnd (parseVar P False kind s1)
        (\<lambda>(declarations, s2).
           bnd (semicolon s2)
             (\<lambda>(_, s3). Inr (VariableDeclaration nodeStart (lastTokEnd s3) kind declarations, s3))))"

definition parseDebuggerStatement :: "int \<Rightarrow> node parser" where
  "parseDebuggerStatement nodeStart s =
     (let s1 = next s in
      bnd (semicolon s1)
        (\<lambda>(_, s2). Inr (OtherNode nodeStart (lastTokEnd s2) ''DebuggerStatement'', s2)))"

definition parseDoStatement :: "parsers \<Rightarrow> int \<Rightarrow> node parser" where
  "parseDoStatement P nodeStart s =
     (let s1 = next s;
          s2 = push_label loopLabel s1
      in
      bnd (P_parseStatement P (Some ''do'') False s2)
        (\<lambda>(body, s3).
           let s4 = pop_label s3 in
           bnd (expect tt_while s4)
             (\<lambda>(_, s5).
                bnd (parseParenExpression P s5)
                  (\<lambda>(test, s6).
                     bnd (if ecmaVersion s6 \<ge> 6
                          then bnd (eat tt_semi s6) (\<lambda>(_, s7). Inr ((), s7))
                          else semicolon s6)
                       (\<lambda>(_, s8).
                          Inr (DoWhileStatement nodeStart (lastTokEnd s8) body test, s8))))))"

definition parseFor :: "parsers \<Rightarrow> int \<Rightarrow> node option \<Rightarrow> node parser" where
  "parseFor P nodeStart init s =
     bnd (expect tt_semi s)
       (\<lambda>(_, s1).
          bnd (if type s1 = tt_semi then Inr (None, s1)
               else bnd (parseExpression P FI_false None s1) (\<lambda>(t, s2). Inr (Some t, s2)))
            (\<lambda>(test, s2).
               bnd (expect tt_semi s2)
                 (\<lambda>(_, s3).
                    bnd (if type s3 = tt_parenR then Inr (None, s3)
                         else bnd (parseExpression P FI_false None s3) (\<lambda>(u, s4). Inr (Some u, s4)))
                      (\<lambda>(update, s4).
                         bnd (expect tt_parenR s4)
                           (\<lambda>(_, s5).
                              bnd (P_parseStatement P (Some ''for'') False s5)
                                (\<lambda>(body, s6).
                                   bnd (P_exitScope P s6)
                                     (\<lambda>(_, s7).
                                        let s8 = pop_label s7 in
                                        Inr (ForStatement nodeStart (lastTokEnd s8) init test update
                                               body, s8))))))))"

text \<open>
  The test of \<^verbatim>\<open>parseForIn\<close> on \<^verbatim>\<open>init\<close>: a VariableDeclaration whose first
  declarator has an initializer; the answer is its \<^verbatim>\<open>kind\<close> and the \<^verbatim>\<open>id\<close> of
  that declarator.
\<close>

fun forInInitializer :: "node \<Rightarrow> (string \<times> node) option" where
  "forInInitializer (VariableDeclaration st e kind (VariableDeclarator st' e' id' (Some init) # ds)) =
     Some (kind, id')"
| "forInInitializer n = None"

text \<open>\<^verbatim>\<open>parseForIn(node, init)\<close>; the argument \<open>await\<close> is \<^verbatim>\<open>node.await\<close> as
  \<^verbatim>\<open>parseForStatement\<close> has set it.\<close>

definition parseForIn :: "parsers \<Rightarrow> int \<Rightarrow> bool \<Rightarrow> node \<Rightarrow> node parser" where
  "parseForIn P nodeStart await init s =
     (let isForIn = (type s = tt_in);
          s1 = next s
      in
      if (case forInInitializer init of
            None \<Rightarrow> False
          | Some (kind, id') \<Rightarrow>
              \<not> isForIn \<or> ecmaVersion s1 < 8 \<or> strict s1 \<or> kind \<noteq> ''var''
              \<or> ntype id' \<noteq> ''Identifier'')
      then raise (nstart init)
             ((if isForIn then ''for-in'' else ''for-of'')
              @ '' loop variable declaration may not have an initializer'')
      else
        bnd (if isForIn then parseExpression P FI_false None s1
             else parseMaybeAssign P FI_false None s1)
          (\<lambda>(right, s2).
             bnd (expect tt_parenR s2)
               (\<lambda>(_, s3).
                  bnd (P_parseStatement P (Some ''for'') False s3)
                    (\<lambda>(body, s4).
                       bnd (P_exitScope P s4)
                         (\<lambda>(_, s5).
                            let s6 = pop_label s5 in
                            Inr (if isForIn
                                 then ForInStatement nodeStart (lastTokEnd s6) init right body
                                 else ForOfStatement nodeStart (lastTokEnd s6) await init right body,
                                 s6))))))"

definition parseForStatement :: "parsers \<Rightarrow> int \<Rightarrow> node parser" where
  "parseForStatement P nodeStart s =
     (let s1 = next s in
      bnd (if ecmaVersion s1 \<ge> 9 \<and> canAwait s1 then eatContextual ''await'' s1
           else Inr (False, s1))
        (\<lambda>(aw, s2).
           let awaitAt = (if aw then lastTokStart s2 else -1);
               s3 = push_label loopLabel s2
           in
           bnd (P_enterScope P 0 s3)
             (\<lambda>(_, s4).
                bnd (expect tt_parenL s4)
                  (\<lambda>(_, s5).
                     if type s5 = tt_semi then
                       (if awaitAt > -1 then unexpected_at awaitAt s5
                        else parseFor P nodeStart None s5)
                     else
                       let isLet' = isLet P None s5 in
                       if type s5 = tt_var \<or> type s5 = tt_const \<or> isLet' then
                         (let initStart = start s5;
                              kind = (if isLet' then ''let'' else val s5);
                              s6 = next s5
                          in
                          bnd (parseVar P True kind s6)
                            (\<lambda>(declarations, s7).
                               let init = VariableDeclaration initStart (lastTokEnd s7) kind
                                            declarations
                               in
                               if (type s7 = tt_in \<or> (ecmaVersion s7 \<ge> 6 \<and> isContextual ''of'' s7))
                                  \<and> length declarations = 1
                               then
                                 (if ecmaVersion s7 \<ge> 9 \<and> type s7 = tt_in \<and> awaitAt > -1
                                  then unexpected_at awaitAt s7
                                  else parseForIn P nodeStart
                                         (ecmaVersion s7 \<ge> 9 \<and> type s7 \<noteq> tt_in \<and> awaitAt > -1)
                                         init s7)
                               else if awaitAt > -1 then unexpected_at awaitAt s7
                               else parseFor P nodeStart (Some init) s7))
                       else
                         (let startsWithLet = isContextual ''let'' s5;
                              (r, s6) = new_ref s5
                          in
                          bnd (parseExpression P (if awaitAt > -1 then FI_await else FI_true)
                                 (Some r) s6)
                            (\<lambda>(init, s7).
                               let isForOf = (type s7 \<noteq> tt_in \<and> ecmaVersion s7 \<ge> 6
                                              \<and> isContextual ''of'' s7)
                               in
                               if type s7 = tt_in \<or> isForOf then
                                 (if ecmaVersion s7 \<ge> 9 \<and> type s7 = tt_in \<and> awaitAt > -1
                                  then unexpected_at awaitAt s7
                                  else if startsWithLet \<and> isForOf
                                  then raise (nstart init)
                                         ''The left-hand side of a for-of loop may not start with 'let'.''
                                  else
                                    bnd (toAssignable_p init False (Some r) s7)
                                      (\<lambda>(init', s8).
                                         bnd (checkLValPattern P init' BIND_NONE None s8)
                                           (\<lambda>(_, s9).
                                              parseForIn P nodeStart
                                                (ecmaVersion s9 \<ge> 9 \<and> type s9 \<noteq> tt_in
                                                 \<and> awaitAt > -1)
                                                init' s9)))
                               else
                                 bnd (checkExpressionErrors (deref (Some r) s7) True)
                                   (\<lambda>_.
                                      if awaitAt > -1 then unexpected_at awaitAt s7
                                      else parseFor P nodeStart (Some init) s7)))))))"

definition parseIfStatement :: "parsers \<Rightarrow> int \<Rightarrow> node parser" where
  "parseIfStatement P nodeStart s =
     (let s1 = next s in
      bnd (parseParenExpression P s1)
        (\<lambda>(test, s2).
           bnd (P_parseStatement P (Some ''if'') False s2)
             (\<lambda>(consequent, s3).
                bnd (eat tt_else s3)
                  (\<lambda>(else', s4).
                     bnd (if else'
                          then bnd (P_parseStatement P (Some ''if'') False s4)
                                 (\<lambda>(a, s5). Inr (Some a, s5))
                          else Inr (None, s4))
                       (\<lambda>(alternate, s5).
                          Inr (IfStatement nodeStart (lastTokEnd s5) test consequent alternate,
                               s5))))))"

definition parseWhileStatement :: "parsers \<Rightarrow> int \<Rightarrow> node parser" where
  "parseWhileStatement P nodeStart s =
     (let s1 = next s in
      bnd (parseParenExpression P s1)
        (\<lambda>(test, s2).
           let s3 = push_label loopLabel s2 in
           bnd (P_parseStatement P (Some ''while'') False s3)
             (\<lambda>(body, s4).
                let s5 = pop_label s4 in
                Inr (WhileStatement nodeStart (lastTokEnd s5) test body, s5))))"

definition parseEmptyStatement :: "int \<Rightarrow> node parser" where
  "parseEmptyStatement nodeStart s =
     (let s1 = next s in Inr (EmptyStatement nodeStart (lastTokEnd s1), s1))"

text \<open>\<^verbatim>\<open>str.indexOf(sub) !== -1\<close>.\<close>

fun hasSubstring :: "string \<Rightarrow> string \<Rightarrow> bool" where
  "hasSubstring sub [] = (sub = [])"
| "hasSubstring sub (c # cs) = (take (length sub) (c # cs) = sub \<or> hasSubstring sub cs)"

text \<open>The loop of \<^verbatim>\<open>parseLabeledStatement\<close> that updates the labels which end at
  this statement, from the last one backwards; the argument is the list reversed.\<close>

fun updateLabels :: "int \<Rightarrow> int \<Rightarrow> string option \<Rightarrow> labelRec list \<Rightarrow> labelRec list" where
  "updateLabels nodeStart newStart kind [] = []"
| "updateLabels nodeStart newStart kind (l # ls) =
     (if statementStart l = Some nodeStart
      then l\<lparr>statementStart := Some newStart, lkind := kind\<rparr>
           # updateLabels nodeStart newStart kind ls
      else l # ls)"

definition parseLabeledStatement :: "parsers \<Rightarrow> int \<Rightarrow> string \<Rightarrow> node \<Rightarrow> string option
    \<Rightarrow> node parser" where
  "parseLabeledStatement P nodeStart maybeName expr context s =
     (if list_ex (\<lambda>l. lname l = Some maybeName) (labels s)
      then raise (nstart expr)
             (''Label '' @ [CHR 0x27] @ maybeName @ [CHR 0x27] @ '' is already declared'')
      else
        let kind = (if isLoop (type s) then Some ''loop''
                    else if type s = tt_switch then Some ''switch'' else None);
            s1 = s\<lparr>labels := rev (updateLabels nodeStart (start s) kind (rev (labels s)))\<rparr>;
            s2 = push_label \<lparr>lkind = kind, lname = Some maybeName,
                             statementStart = Some (start s1)\<rparr> s1
        in
        bnd (P_parseStatement P
               (Some (case context of
                        None \<Rightarrow> ''label''
                      | Some c \<Rightarrow> if \<not> hasSubstring ''label'' c then c @ ''label'' else c))
               False s2)
          (\<lambda>(body, s3).
             let s4 = pop_label s3 in
             Inr (LabeledStatement nodeStart (lastTokEnd s4) body expr, s4)))"

definition parseExpressionStatement :: "int \<Rightarrow> node \<Rightarrow> node parser" where
  "parseExpressionStatement nodeStart expr s =
     bnd (semicolon s)
       (\<lambda>(_, s1). Inr (ExpressionStatement nodeStart (lastTokEnd s1) expr, s1))"

text \<open>One round of the loop of \<^verbatim>\<open>parseBlock\<close>, with \<^verbatim>\<open>node.body\<close> as
  argument.\<close>

definition parseBlock_loop :: "parsers \<Rightarrow> node list \<Rightarrow> node list parser" where
  "parseBlock_loop P body s =
     (if type s \<noteq> tt_braceR then
        bnd (P_parseStatement P None False s)
          (\<lambda>(stmt, s1). P_parseBlock_loop P (body @ [stmt]) s1)
      else Inr (body, s))"

definition parseBlock :: "parsers \<Rightarrow> bool \<Rightarrow> int \<Rightarrow> bool \<Rightarrow> node parser" where
  "parseBlock P createNewLexicalScope nodeStart exitStrict s =
     bnd (expect tt_braceL s)
       (\<lambda>(_, s1).
          bnd (if createNewLexicalScope then P_enterScope P 0 s1 else Inr ((), s1))
            (\<lambda>(_, s2).
               bnd (parseBlock_loop P [] s2)
                 (\<lambda>(body, s3).
                    let s4 = (if exitStrict then s3\<lparr>strict := False\<rparr> else s3);
                        s5 = next s4
                    in bnd (if createNewLexicalScope then P_exitScope P s5 else Inr ((), s5))
                         (\<lambda>(_, s6). Inr (BlockStatement nodeStart (lastTokEnd s6) body, s6)))))"

text \<open>
  \<^verbatim>\<open>parseStatement(context, topLevel, exports)\<close>; \<^verbatim>\<open>exports\<close> is used by the
  module statements only and is left out. The statements \<^verbatim>\<open>break\<close>,
  \<^verbatim>\<open>continue\<close>, \<^verbatim>\<open>function\<close>, \<^verbatim>\<open>class\<close>, \<^verbatim>\<open>return\<close>, \<^verbatim>\<open>switch\<close>,
  \<^verbatim>\<open>throw\<close>, \<^verbatim>\<open>try\<close>, \<^verbatim>\<open>with\<close>, \<^verbatim>\<open>import\<close> and \<^verbatim>\<open>export\<close> are
  outside the model; the tests the source makes before it calls their parsers are kept.
\<close>

definition parseStatement :: "parsers \<Rightarrow> string option \<Rightarrow> bool \<Rightarrow> node parser" where
  "parseStatement P context topLevel s =
     (let nodeStart = start s;
          let' = isLet P context s;
          starttype = (if let' then tt_var else type s);
          kind0 = (if let' then Some ''let'' else None)
      in
      if starttype = tt_break \<or> starttype = tt_continue
      then Inl (NotModelled ''parseBreakContinueStatement'')
      else if starttype = tt_debugger then parseDebuggerStatement nodeStart s
      else if starttype = tt_do then parseDoStatement P nodeStart s
      else if starttype = tt_for then parseForStatement P nodeStart s
      else if starttype = tt_function then
        (if (context \<noteq> None \<and> (strict s \<or> (context \<noteq> Some ''if'' \<and> context \<noteq> Some ''label'')))
            \<and> ecmaVersion s \<ge> 6
         then unexpected_here s
         else Inl (NotModelled ''parseFunctionStatement''))
      else if starttype = tt_class then
        (if context \<noteq> None then unexpected_here s else Inl (NotModelled ''parseClass''))
      else if starttype = tt_if then parseIfStatement P nodeStart s
      else if starttype = tt_return then Inl (NotModelled ''parseReturnStatement'')
      else if starttype = tt_switch then Inl (NotModelled ''parseSwitchStatement'')
      else if starttype = tt_throw then Inl (NotModelled ''parseThrowStatement'')
      else if starttype = tt_try then Inl (NotModelled ''parseTryStatement'')
      else if starttype = tt_const \<or> starttype = tt_var then
        (let kind = (case kind0 of Some k \<Rightarrow> k | None \<Rightarrow> val s) in
         if context \<noteq> None \<and> kind \<noteq> ''var'' then unexpected_here s
         else parseVarStatement P nodeStart kind s)
      else if starttype = tt_while then parseWhileStatement P nodeStart s
      else if starttype = tt_with then Inl (NotModelled ''parseWithStatement'')
      else if starttype = tt_braceL then parseBlock P True nodeStart False s
      else if starttype = tt_semi then parseEmptyStatement nodeStart s
      else if starttype = tt_export \<or> starttype = tt_import
      then Inl (NotModelled ''parseImport/parseExport'')
      else if isAsyncFunction P s then
        (if context \<noteq> None then unexpected_here s
         else Inl (NotModelled ''parseFunctionStatement''))
      else
        (let maybeName = val s in
         bnd (parseExpression P FI_false None s)
           (\<lambda>(expr, s1).
              bnd (if starttype = tt_name \<and> ntype expr = ''Identifier'' then eat tt_colon s1
                   else Inr (False, s1))
                (\<lambda>(colon, s2).
                   if colon then parseLabeledStatement P nodeStart maybeName expr context s2
                   else parseExpressionStatement nodeStart expr s2))))"

section \<open>Tying the knot\<close>

text \<open>
  The functions of scope.js and identifier.js that a parse uses.
\<close>

record env =
  declareName :: "string \<Rightarrow> bindingType \<Rightarrow> int \<Rightarrow> unit parser"
  enterScope :: "nat \<Rightarrow> unit parser"
  exitScope :: "unit parser"
  isIdentifierStart :: "nat \<Rightarrow> bool \<Rightarrow> bool"
  isIdentifierChar :: "nat \<Rightarrow> bool \<Rightarrow> bool"

text \<open>
  \<open>parsersN E n\<close> are the functions of the parser that may call each other through up to
  \<open>n\<close> fields of \<open>P\<close> in a row; with none left the answer is \<open>OutOfFuel\<close>.
\<close>

primrec parsersN :: "env \<Rightarrow> nat \<Rightarrow> parsers" where
  "parsersN E 0 =
     \<lparr>P_parseMaybeAssign = (\<lambda>forInit r s. Inl OutOfFuel),
      P_parseExpression = (\<lambda>forInit r s. Inl OutOfFuel),
      P_parseExpression_loop = (\<lambda>forInit r es s. Inl OutOfFuel),
      P_parseMaybeUnary = (\<lambda>r sawUnary incDec forInit s. Inl OutOfFuel),
      P_parseMaybeUnary_loop = (\<lambda>startPos expr s. Inl OutOfFuel),
      P_parseExprOp = (\<lambda>left leftStartPos minPrec forInit s. Inl OutOfFuel),
      P_parseSubscripts_loop = (\<lambda>base startPos noCalls maybeAsyncArrow optionalChained forInit s.
         Inl OutOfFuel),
      P_parseExprList_loop = (\<lambda>close allowTrailingComma allowEmpty r elts first s. Inl OutOfFuel),
      P_parseParen_loop = (\<lambda>allowTrailingComma r exprList first s. Inl OutOfFuel),
      P_parseBindingAtom = (\<lambda>s. Inl OutOfFuel),
      P_parseBindingList_loop = (\<lambda>close allowEmpty allowTrailingComma elts first s. Inl OutOfFuel),
      P_parseStatement = (\<lambda>context topLevel s. Inl OutOfFuel),
      P_parseVar_loop = (\<lambda>isFor kind declarations s. Inl OutOfFuel),
      P_parseBlock_loop = (\<lambda>body s. Inl OutOfFuel),
      P_declareName = declareName E,
      P_enterScope = enterScope E,
      P_exitScope = exitScope E,
      P_isIdentifierStart = isIdentifierStart E,
      P_isIdentifierChar = isIdentifierChar E\<rparr>"
| "parsersN E (Suc n) =
     \<lparr>P_parseMaybeAssign = parseMaybeAssign (parsersN E n),
      P_parseExpression = parseExpression (parsersN E n),
      P_parseExpression_loop = parseExpression_loop (parsersN E n),
      P_parseMaybeUnary = parseMaybeUnary (parsersN E n),
      P_parseMaybeUnary_loop = parseMaybeUnary_loop (parsersN E n),
      P_parseExprOp = parseExprOp (parsersN E n),
      P_parseSubscripts_loop = parseSubscripts_loop (parsersN E n),
      P_parseExprList_loop = parseExprList_loop (parsersN E n),
      P_parseParen_loop = parseParen_loop (parsersN E n),
      P_parseBindingAtom = parseBindingAtom (parsersN E n),
      P_parseBindingList_loop = parseBindingList_loop (parsersN E n),
      P_parseStatement = parseStatement (parsersN E n),
      P_parseVar_loop = parseVar_loop (parsersN E n),
      P_parseBlock_loop = parseBlock_loop (parsersN E n),
      P_declareName = declareName E,
      P_enterScope = enterScope E,
      P_exitScope = exitScope E,
      P_isIdentifierStart = isIdentifierStart E,
      P_isIdentifierChar = isIdentifierChar E\<rparr>"

text \<open>The value of a parse without the state it leaves.\<close>

definition result :: "error + ('a \<times> pstate) \<Rightarrow> error + 'a" where
  "result r = (case r of Inl e \<Rightarrow> Inl e | Inr (x, s) \<Rightarrow> Inr x)"

section \<open>An example configuration\<close>

text \<open>
  The examples below run the parser on token lists written out by hand. They use the
  following stand-ins for the modules that are not among the sources: a
  \<^verbatim>\<open>declareName\<close> that accepts every declaration, \<^verbatim>\<open>enterScope\<close> and
  \<^verbatim>\<open>exitScope\<close> without effect, and the ASCII letters, \<^verbatim>\<open>$\<close> and \<^verbatim>\<open>_\<close> (and
  the digits, for \<^verbatim>\<open>isIdentifierChar\<close>) as identifier characters.
\<close>

definition asciiIdentifierStart :: "nat \<Rightarrow> bool \<Rightarrow> bool" where
  "asciiIdentifierStart c astral =
     (c = 36 \<or> c = 95 \<or> (65 \<le> c \<and> c \<le> 90) \<or> (97 \<le> c \<and> c \<le> 122))"

definition asciiIdentifierChar :: "nat \<Rightarrow> bool \<Rightarrow> bool" where
  "asciiIdentifierChar c astral = (asciiIdentifierStart c astral \<or> (48 \<le> c \<and> c \<le> 57))"

definition exampleEnv :: env where
  "exampleEnv =
     \<lparr>declareName = (\<lambda>name bt p s. Inr ((), s)),
      enterScope = (\<lambda>flags s. Inr ((), s)),
      exitScope = (\<lambda>s. Inr ((), s)),
      isIdentifierStart = asciiIdentifierStart,
      isIdentifierChar = asciiIdentifierChar\<rparr>"

text \<open>
  A parser at the first token of \<open>ts\<close>, for a script in sloppy mode, outside every
  function and class, with empty stacks and no reserved words; the keywords are the
  words that have a keyword token type.
\<close>

definition startState :: "nat \<Rightarrow> string \<Rightarrow> token list \<Rightarrow> pstate" where
  "startState version text ts =
     \<lparr>input = codes text, toks = ts, lastTokStart = 0, lastTokEnd = 0,
      ecmaVersion = version, preserveParens = False, allowReservedNever = False,
      strict = False, inGenerator = False, inAsync = False, canAwait = False,
      inClassFieldInit = False, inClassStaticBlock = False,
      keywordsRE = (\<lambda>w. w \<in> set [''break'', ''case'', ''catch'', ''continue'', ''debugger'',
         ''default'', ''do'', ''else'', ''finally'', ''for'', ''function'', ''if'', ''return'',
         ''switch'', ''throw'', ''try'', ''var'', ''const'', ''while'', ''with'', ''new'', ''this'',
         ''super'', ''class'', ''extends'', ''export'', ''import'', ''null'', ''true'', ''false'',
         ''in'', ''instanceof'', ''typeof'', ''void'', ''delete'']),
      reservedWords = (\<lambda>w. False), reservedWordsStrict = (\<lambda>w. False),
      reservedWordsStrictBind = (\<lambda>w. False),
      yieldPos = 0, awaitPos = 0, awaitIdentPos = 0,
      potentialArrowAt = -1, potentialArrowInForAwait = False,
      labels = [], privateNameStack = [], heap = []\<rparr>"

text \<open>A token of the given type and text from \<open>a\<close> to \<open>b\<close>, without escapes.\<close>

definition tk :: "TokenType \<Rightarrow> string \<Rightarrow> int \<Rightarrow> int \<Rightarrow> token" where
  "tk t v a b = \<lparr>ttype = t, tvalue = v, tstart = a, tend = b, tcontainsEsc = False\<rparr>"

section \<open>The top level, class bodies and exports (statement.js)\<close>

text \<open>
  The loop of \<^verbatim>\<open>parseTopLevel\<close>, which reads statements up to the end of the input;
  the answer is \<^verbatim>\<open>node.body\<close>. The first argument bounds the number of
  statements. (The rest of \<^verbatim>\<open>parseTopLevel\<close>, the check of undefined exports and the
  directive prologue, is not modelled.)
\<close>

fun parseTopLevel_loop :: "nat \<Rightarrow> parsers \<Rightarrow> node list \<Rightarrow> node list parser" where
  "parseTopLevel_loop 0 P body s = Inl OutOfFuel"
| "parseTopLevel_loop (Suc k) P body s =
     (if type s \<noteq> tt_eof then
        bnd (parseStatement P None True s)
          (\<lambda>(stmt, s1). parseTopLevel_loop k P (body @ [stmt]) s1)
      else Inr (body, s))"

text \<open>\<^verbatim>\<open>enterClassBody\<close> pushes an empty frame (and answers its \<^verbatim>\<open>declared\<close>
  object, which is the one of the top frame).\<close>

definition enterClassBody :: "pstate \<Rightarrow> pstate" where
  "enterClassBody s =
     s\<lparr>privateNameStack := privateNameStack s @ [\<lparr>declared = Map.empty, used = []\<rparr>]\<rparr>"

text \<open>The name of a PrivateIdentifier (or Identifier) node.\<close>

fun nodeName :: "node \<Rightarrow> string" where
  "nodeName (PrivateIdentifier st e name) = name"
| "nodeName (Identifier st e name) = name"
| "nodeName n = []"

text \<open>
  The loop of \<^verbatim>\<open>exitClassBody\<close> over \<^verbatim>\<open>used\<close>, with \<^verbatim>\<open>parent\<close> (\<open>None\<close> is
  null) as it is changed on the way.
\<close>

fun exitClassBody_loop :: "(string \<rightharpoonup> string) \<Rightarrow> privateNameFrame option \<Rightarrow> node list
    \<Rightarrow> error + privateNameFrame option" where
  "exitClassBody_loop decl parent [] = Inr parent"
| "exitClassBody_loop decl parent (id' # ids) =
     (if decl (nodeName id') = None then
        (case parent of
           Some p \<Rightarrow> exitClassBody_loop decl (Some (p\<lparr>used := used p @ [id']\<rparr>)) ids
         | None \<Rightarrow>
             raiseRecoverable (nstart id')
               (''Private field '' @ [CHR 0x27] @ ''#'' @ nodeName id' @ [CHR 0x27]
                @ '' must be declared in an enclosing class''))
      else exitClassBody_loop decl parent ids)"

text \<open>\<^verbatim>\<open>exitClassBody\<close>. The source calls it after \<^verbatim>\<open>enterClassBody\<close> only; on
  an empty stack its \<^verbatim>\<open>pop()\<close> has nothing to return, which is no case of the
  parser.\<close>

definition exitClassBody :: "unit parser" where
  "exitClassBody s =
     (if privateNameStack s = [] then Inl (NotModelled ''exitClassBody on an empty stack'')
      else
        let frame = last (privateNameStack s);
            rest = butlast (privateNameStack s);
            parent = (if rest = [] then None else Some (last rest))
        in bnd (exitClassBody_loop (declared frame) parent (used frame))
             (\<lambda>parent'.
                Inr ((), s\<lparr>privateNameStack :=
                            (case parent' of None \<Rightarrow> rest | Some p \<Rightarrow> butlast rest @ [p])\<rparr>)))"

text \<open>
  \<^verbatim>\<open>isPrivateNameConflicted(privateNameMap, element)\<close>; of \<^verbatim>\<open>element\<close> the
  function reads \<^verbatim>\<open>key.name\<close>, \<^verbatim>\<open>type\<close>, \<^verbatim>\<open>kind\<close> and \<^verbatim>\<open>static\<close>, which
  are the arguments here. It answers the flag and the map as it leaves it.
\<close>

definition isPrivateNameConflicted :: "(string \<rightharpoonup> string) \<Rightarrow> string \<Rightarrow> string \<Rightarrow> string \<Rightarrow> bool
    \<Rightarrow> bool \<times> (string \<rightharpoonup> string)" where
  "isPrivateNameConflicted privateNameMap name etype ekind static =
     (let curr = privateNameMap name;
          nxt = (if etype = ''MethodDefinition'' \<and> (ekind = ''get'' \<or> ekind = ''set'')
                 then (if static then ''s'' else ''i'') @ ekind else ''true'')
      in
      if (curr = Some ''iget'' \<and> nxt = ''iset'') \<or> (curr = Some ''iset'' \<and> nxt = ''iget'')
         \<or> (curr = Some ''sget'' \<and> nxt = ''sset'') \<or> (curr = Some ''sset'' \<and> nxt = ''sget'')
      then (False, privateNameMap(name \<mapsto> ''true''))
      else if curr = None then (False, privateNameMap(name \<mapsto> nxt))
      else (True, privateNameMap))"

text \<open>The call of \<^verbatim>\<open>isPrivateNameConflicted\<close> in \<^verbatim>\<open>parseClass\<close>: its map is the
  \<^verbatim>\<open>declared\<close> of the frame of this class, the top of the stack at that point.\<close>

definition declarePrivateName :: "string \<Rightarrow> string \<Rightarrow> string \<Rightarrow> bool \<Rightarrow> pstate \<Rightarrow> bool \<times> pstate" where
  "declarePrivateName name etype ekind static s =
     (let top = last (privateNameStack s);
          (conflict, m) = isPrivateNameConflicted (declared top) name etype ekind static
      in (conflict,
          s\<lparr>privateNameStack := butlast (privateNameStack s) @ [top\<lparr>declared := m\<rparr>]\<rparr>))"

text \<open>\<^verbatim>\<open>checkExport(exports, name, pos)\<close> for a table that is not null; the table is
  the list of the names entered.\<close>

definition checkExport :: "string list \<Rightarrow> string \<Rightarrow> int \<Rightarrow> error + string list" where
  "checkExport exports name p =
     (if name \<in> set exports
      then raiseRecoverable p (''Duplicate export '' @ [CHR 0x27] @ name @ [CHR 0x27])
      else Inr (exports @ [name]))"

text \<open>\<^verbatim>\<open>checkPatternExport(exports, pat)\<close>, with its loops over
  \<^verbatim>\<open>pat.properties\<close> and \<^verbatim>\<open>pat.elements\<close>.\<close>

fun checkPatternExport :: "string list \<Rightarrow> node \<Rightarrow> error + string list"
  and checkPatternExport_props :: "string list \<Rightarrow> node list \<Rightarrow> error + string list"
  and checkPatternExport_elts :: "string list \<Rightarrow> node option list \<Rightarrow> error + string list"
where
  "checkPatternExport exports pat =
     (case pat of
        Identifier st e name \<Rightarrow> checkExport exports name st
      | ObjectPattern st e props \<Rightarrow> checkPatternExport_props exports props
      | ArrayPattern st e elts \<Rightarrow> checkPatternExport_elts exports elts
      | Property st e kind key v \<Rightarrow> checkPatternExport exports v
      | AssignmentPattern st e l r \<Rightarrow> checkPatternExport exports l
      | RestElement st e a \<Rightarrow> checkPatternExport exports a
      | ParenthesizedExpression st e x \<Rightarrow> checkPatternExport exports x
      | _ \<Rightarrow> Inr exports)"
| "checkPatternExport_props exports [] = Inr exports"
| "checkPatternExport_props exports (prop # props) =
     bnd (checkPatternExport exports prop) (\<lambda>exports'. checkPatternExport_props exports' props)"
| "checkPatternExport_elts exports [] = Inr exports"
| "checkPatternExport_elts exports (elt # elts) =
     (case elt of
        None \<Rightarrow> checkPatternExport_elts exports elts
      | Some n \<Rightarrow>
          bnd (checkPatternExport exports n) (\<lambda>exports'. checkPatternExport_elts exports' elts))"

section \<open>The spine of a chain\<close>




section \<open>Example inputs\<close>

text \<open>The inputs of the examples, each with the tokens of its text.\<close>

definition mixedInput :: pstate where
  "mixedInput =
     startState 13 ''1 && 2 ?? 3''
       [tk tt_num ''1'' 0 1, tk tt_logicalAND ''&&'' 2 4, tk tt_num ''2'' 5 6,
        tk tt_coalesce ''??'' 7 9, tk tt_num ''3'' 10 11]"

definition parenInput :: pstate where
  "parenInput =
     startState 13 ''(1 && 2) ?? 3''
       [tk tt_parenL ''('' 0 1, tk tt_num ''1'' 1 2, tk tt_logicalAND ''&&'' 3 5,
        tk tt_num ''2'' 6 7, tk tt_parenR '')'' 7 8, tk tt_coalesce ''??'' 9 11,
        tk tt_num ''3'' 12 13]"

definition prefixIncInput :: pstate where
  "prefixIncInput = startState 13 ''++a'' [tk tt_incDec ''++'' 0 2, tk tt_name ''a'' 2 3]"

definition notInput :: pstate where
  "notInput = startState 13 ''!a'' [tk tt_prefix ''!'' 0 1, tk tt_name ''a'' 1 2]"

definition typeofInput :: pstate where
  "typeofInput = startState 13 ''typeof a'' [tk tt_typeof ''typeof'' 0 6, tk tt_name ''a'' 7 8]"

definition minusInput :: pstate where
  "minusInput = startState 13 ''-a'' [tk tt_plusMin ''-'' 0 1, tk tt_name ''a'' 1 2]"

definition tildeInput :: pstate where
  "tildeInput = startState 13 ''~a'' [tk tt_prefix ''~'' 0 1, tk tt_name ''a'' 1 2]"

definition plusInput :: pstate where
  "plusInput = startState 13 ''+a'' [tk tt_plusMin ''+'' 0 1, tk tt_name ''a'' 1 2]"

definition voidInput :: pstate where
  "voidInput = startState 13 ''void a'' [tk tt_void ''void'' 0 4, tk tt_name ''a'' 5 6]"

definition deleteInput :: pstate where
  "deleteInput =
     startState 13 ''delete a'' [tk tt_delete ''delete'' 0 6, tk tt_name ''a'' 7 8]"

text \<open>The same text in strict mode.\<close>

definition deleteStrictInput :: pstate where
  "deleteStrictInput = deleteInput\<lparr>strict := True\<rparr>"

definition prefixDecInput :: pstate where
  "prefixDecInput = startState 13 ''--a'' [tk tt_incDec ''--'' 0 2, tk tt_name ''a'' 2 3]"

definition postfixDecInput :: pstate where
  "postfixDecInput = startState 13 ''a--'' [tk tt_name ''a'' 0 1, tk tt_incDec ''--'' 1 3]"

definition postfixInput :: pstate where
  "postfixInput = startState 13 ''a++'' [tk tt_name ''a'' 0 1, tk tt_incDec ''++'' 1 3]"

text \<open>The text \<^verbatim>\<open>a\<close>, a line feed, \<^verbatim>\<open>++b\<close>.\<close>

definition newlineInput :: pstate where
  "newlineInput =
     startState 13 (''a'' @ [CHR 0x0A] @ ''++b'')
       [tk tt_name ''a'' 0 1, tk tt_incDec ''++'' 2 4, tk tt_name ''b'' 4 5]"


text \<open>The text \<^verbatim>\<open>do x; while (y) z\<close>, for a given \<^verbatim>\<open>ecmaVersion\<close>.\<close>

definition doInput :: "nat \<Rightarrow> pstate" where
  "doInput version =
     startState version ''do x; while (y) z''
       [tk tt_do ''do'' 0 2, tk tt_name ''x'' 3 4, tk tt_semi '';'' 4 5,
        tk tt_while ''while'' 6 11, tk tt_parenL ''('' 12 13, tk tt_name ''y'' 13 14,
        tk tt_parenR '')'' 14 15, tk tt_name ''z'' 16 17]"

text \<open>The text \<^verbatim>\<open>const x\<close>, a line feed, \<^verbatim>\<open>of\<close>.\<close>

definition constOfInput :: pstate where
  "constOfInput =
     startState 13 (''const x'' @ [CHR 0x0A] @ ''of'')
       [tk tt_const ''const'' 0 5, tk tt_name ''x'' 6 7, tk tt_name ''of'' 8 10]"

definition constInInput :: pstate where
  "constInInput =
     startState 13 (''const x'' @ [CHR 0x0A] @ ''in y'')
       [tk tt_const ''const'' 0 5, tk tt_name ''x'' 6 7, tk tt_in ''in'' 8 10,
        tk tt_name ''y'' 11 12]"

definition constNoInitInput :: pstate where
  "constNoInitInput =
     startState 13 ''const x;''
       [tk tt_const ''const'' 0 5, tk tt_name ''x'' 6 7, tk tt_semi '';'' 7 8]"

definition forConstInput :: pstate where
  "forConstInput =
     startState 13 ''for (const x of xs) x++;''
       [tk tt_for ''for'' 0 3, tk tt_parenL ''('' 4 5, tk tt_const ''const'' 5 10,
        tk tt_name ''x'' 11 12, tk tt_name ''of'' 13 15, tk tt_name ''xs'' 16 18,
        tk tt_parenR '')'' 18 19, tk tt_name ''x'' 20 21, tk tt_incDec ''++'' 21 23,
        tk tt_semi '';'' 23 24]"

definition elisionInput :: pstate where
  "elisionInput =
     startState 13 ''[a,,b] = c''
       [tk tt_bracketL ''['' 0 1, tk tt_name ''a'' 1 2, tk tt_comma '','' 2 3,
        tk tt_comma '','' 3 4, tk tt_name ''b'' 4 5, tk tt_bracketR '']'' 5 6,
        tk tt_eq ''='' 7 8, tk tt_name ''c'' 9 10]"

definition elisionVarInput :: pstate where
  "elisionVarInput =
     startState 13 ''var [a,,b] = c''
       [tk tt_var ''var'' 0 3, tk tt_bracketL ''['' 4 5, tk tt_name ''a'' 5 6,
        tk tt_comma '','' 6 7, tk tt_comma '','' 7 8, tk tt_name ''b'' 8 9,
        tk tt_bracketR '']'' 9 10, tk tt_eq ''='' 11 12, tk tt_name ''c'' 13 14]"


text \<open>
  The states of the parser on \<^verbatim>\<open>do x; while (y) z\<close> after the body of the loop, after
  \<^verbatim>\<open>while\<close> and after the test in parentheses: the tokens read so far are gone, the
  label of the loop is pushed and popped, and each of the two expressions has set
  \<^verbatim>\<open>potentialArrowAt\<close> and made one DestructuringErrors object.
\<close>

definition afterDoBody :: "nat \<Rightarrow> pstate" where
  "afterDoBody version =
     (next (next (next (doInput version))))
       \<lparr>potentialArrowAt := 3, labels := [loopLabel], heap := [new_DestructuringErrors]\<rparr>"

definition afterWhile :: "nat \<Rightarrow> pstate" where
  "afterWhile version = next (pop_label (afterDoBody version))"

definition afterTest :: "nat \<Rightarrow> pstate" where
  "afterTest version =
     (next (next (next (afterWhile version))))
       \<lparr>potentialArrowAt := 13,
         heap := [new_DestructuringErrors, new_DestructuringErrors]\<rparr>"


text \<open>Statements that start with \<^verbatim>\<open>let\<close>.\<close>

definition letInput :: pstate where
  "letInput =
     startState 13 ''let x = 1''
       [tk tt_name ''let'' 0 3, tk tt_name ''x'' 4 5, tk tt_eq ''='' 6 7, tk tt_num ''1'' 8 9]"

definition letBracketInput :: "nat \<Rightarrow> pstate" where
  "letBracketInput version =
     startState version ''let [a] = b''
       [tk tt_name ''let'' 0 3, tk tt_bracketL ''['' 4 5, tk tt_name ''a'' 5 6,
        tk tt_bracketR '']'' 6 7, tk tt_eq ''='' 8 9, tk tt_name ''b'' 10 11]"

definition letBraceInput :: pstate where
  "letBraceInput =
     startState 13 ''let {a} = b''
       [tk tt_name ''let'' 0 3, tk tt_braceL ''{'' 4 5, tk tt_name ''a'' 5 6,
        tk tt_braceR ''}'' 6 7, tk tt_eq ''='' 8 9, tk tt_name ''b'' 10 11]"

definition letInInput :: pstate where
  "letInInput =
     startState 13 ''let in x''
       [tk tt_name ''let'' 0 3, tk tt_in ''in'' 4 6, tk tt_name ''x'' 7 8]"

definition letInstanceofInput :: pstate where
  "letInstanceofInput =
     startState 13 ''let instanceof x''
       [tk tt_name ''let'' 0 3, tk tt_instanceof ''instanceof'' 4 14, tk tt_name ''x'' 15 16]"

definition letAssignInput :: pstate where
  "letAssignInput =
     startState 13 ''let = 1''
       [tk tt_name ''let'' 0 3, tk tt_eq ''='' 4 5, tk tt_num ''1'' 6 7]"

text \<open>The text \<^verbatim>\<open>let a = 1\<close>; the escape is the name \<^verbatim>\<open>a\<close>.\<close>

definition letEscapeInput :: pstate where
  "letEscapeInput =
     startState 13 (''let '' @ [CHR 0x5C] @ ''u0061 = 1'')
       [tk tt_name ''let'' 0 3,
        \<lparr>ttype = tt_name, tvalue = ''a'', tstart = 4, tend = 10, tcontainsEsc = True\<rparr>,
        tk tt_eq ''='' 11 12, tk tt_num ''1'' 13 14]"

text \<open>A text whose code units are \<^verbatim>\<open>let\<close>, a space, the surrogate pair of U+1D4B3
  and \<^verbatim>\<open> = 1\<close>; the value of the name token stands for the astral letter.\<close>

definition letAstralInput :: pstate where
  "letAstralInput =
     (startState 13 []
        [tk tt_name ''let'' 0 3, tk tt_name ''X'' 4 6, tk tt_eq ''='' 7 8, tk tt_num ''1'' 9 10])
       \<lparr>input := [108, 101, 116, 32, 0xD835, 0xDCB3, 32, 61, 32, 49]\<rparr>"

definition ifLetBracketInput :: pstate where
  "ifLetBracketInput =
     startState 13 ''if (a) let [b] = c''
       [tk tt_if ''if'' 0 2, tk tt_parenL ''('' 3 4, tk tt_name ''a'' 4 5,
        tk tt_parenR '')'' 5 6, tk tt_name ''let'' 7 10, tk tt_bracketL ''['' 11 12,
        tk tt_name ''b'' 12 13, tk tt_bracketR '']'' 13 14, tk tt_eq ''='' 15 16,
        tk tt_name ''c'' 17 18]"

text \<open>The text \<^verbatim>\<open>if (a) let\<close>, a line feed, \<^verbatim>\<open>x\<close>.\<close>

definition ifLetInput :: pstate where
  "ifLetInput =
     startState 13 (''if (a) let'' @ [CHR 0x0A] @ ''x'')
       [tk tt_if ''if'' 0 2, tk tt_parenL ''('' 3 4, tk tt_name ''a'' 4 5,
        tk tt_parenR '')'' 5 6, tk tt_name ''let'' 7 10, tk tt_name ''x'' 11 12]"






section \<open>Verified properties\<close>

declare toAssignable.simps [simp del]

subsection \<open>Running the model\<close>

text \<open>The fields of \<open>parsersN\<close>, one level at a time, and the definitions an
  evaluation unfolds.\<close>

lemma parsers_Suc:
  "P_parseMaybeAssign (parsersN E (Suc n)) = parseMaybeAssign (parsersN E n)"
  "P_parseExpression (parsersN E (Suc n)) = parseExpression (parsersN E n)"
  "P_parseExpression_loop (parsersN E (Suc n)) = parseExpression_loop (parsersN E n)"
  "P_parseMaybeUnary (parsersN E (Suc n)) = parseMaybeUnary (parsersN E n)"
  "P_parseMaybeUnary_loop (parsersN E (Suc n)) = parseMaybeUnary_loop (parsersN E n)"
  "P_parseExprOp (parsersN E (Suc n)) = parseExprOp (parsersN E n)"
  "P_parseSubscripts_loop (parsersN E (Suc n)) = parseSubscripts_loop (parsersN E n)"
  "P_parseExprList_loop (parsersN E (Suc n)) = parseExprList_loop (parsersN E n)"
  "P_parseParen_loop (parsersN E (Suc n)) = parseParen_loop (parsersN E n)"
  "P_parseBindingAtom (parsersN E (Suc n)) = parseBindingAtom (parsersN E n)"
  "P_parseBindingList_loop (parsersN E (Suc n)) = parseBindingList_loop (parsersN E n)"
  "P_parseStatement (parsersN E (Suc n)) = parseStatement (parsersN E n)"
  "P_parseVar_loop (parsersN E (Suc n)) = parseVar_loop (parsersN E n)"
  "P_parseBlock_loop (parsersN E (Suc n)) = parseBlock_loop (parsersN E n)"
  by simp_all

lemma parsers_env:
  "P_declareName (parsersN E k) = declareName E"
  "P_enterScope (parsersN E k) = enterScope E"
  "P_exitScope (parsersN E k) = exitScope E"
  "P_isIdentifierStart (parsersN E k) = isIdentifierStart E"
  "P_isIdentifierChar (parsersN E k) = isIdentifierChar E"
  by (cases k; simp)+

lemma parsers_0:
  "P_parseMaybeAssign (parsersN E 0) = (\<lambda>a b s. Inl OutOfFuel)"
  "P_parseExpression (parsersN E 0) = (\<lambda>a b s. Inl OutOfFuel)"
  "P_parseExpression_loop (parsersN E 0) = (\<lambda>a b c s. Inl OutOfFuel)"
  "P_parseMaybeUnary (parsersN E 0) = (\<lambda>a b c d s. Inl OutOfFuel)"
  "P_parseMaybeUnary_loop (parsersN E 0) = (\<lambda>a b s. Inl OutOfFuel)"
  "P_parseExprOp (parsersN E 0) = (\<lambda>a b c d s. Inl OutOfFuel)"
  "P_parseSubscripts_loop (parsersN E 0) = (\<lambda>a b c d e f s. Inl OutOfFuel)"
  "P_parseExprList_loop (parsersN E 0) = (\<lambda>a b c d e f s. Inl OutOfFuel)"
  "P_parseParen_loop (parsersN E 0) = (\<lambda>a b c d s. Inl OutOfFuel)"
  "P_parseBindingAtom (parsersN E 0) = (\<lambda>s. Inl OutOfFuel)"
  "P_parseBindingList_loop (parsersN E 0) = (\<lambda>a b c d e s. Inl OutOfFuel)"
  "P_parseStatement (parsersN E 0) = (\<lambda>a b s. Inl OutOfFuel)"
  "P_parseVar_loop (parsersN E 0) = (\<lambda>a b c s. Inl OutOfFuel)"
  "P_parseBlock_loop (parsersN E 0) = (\<lambda>a s. Inl OutOfFuel)"
  by simp_all

lemma parsers_numeral:
  "P_parseMaybeAssign (parsersN E (numeral k)) = parseMaybeAssign (parsersN E (pred_numeral k))"
  "P_parseExpression (parsersN E (numeral k)) = parseExpression (parsersN E (pred_numeral k))"
  "P_parseExpression_loop (parsersN E (numeral k)) = parseExpression_loop (parsersN E (pred_numeral k))"
  "P_parseMaybeUnary (parsersN E (numeral k)) = parseMaybeUnary (parsersN E (pred_numeral k))"
  "P_parseMaybeUnary_loop (parsersN E (numeral k)) = parseMaybeUnary_loop (parsersN E (pred_numeral k))"
  "P_parseExprOp (parsersN E (numeral k)) = parseExprOp (parsersN E (pred_numeral k))"
  "P_parseSubscripts_loop (parsersN E (numeral k)) = parseSubscripts_loop (parsersN E (pred_numeral k))"
  "P_parseExprList_loop (parsersN E (numeral k)) = parseExprList_loop (parsersN E (pred_numeral k))"
  "P_parseParen_loop (parsersN E (numeral k)) = parseParen_loop (parsersN E (pred_numeral k))"
  "P_parseBindingAtom (parsersN E (numeral k)) = parseBindingAtom (parsersN E (pred_numeral k))"
  "P_parseBindingList_loop (parsersN E (numeral k)) = parseBindingList_loop (parsersN E (pred_numeral k))"
  "P_parseStatement (parsersN E (numeral k)) = parseStatement (parsersN E (pred_numeral k))"
  "P_parseVar_loop (parsersN E (numeral k)) = parseVar_loop (parsersN E (pred_numeral k))"
  "P_parseBlock_loop (parsersN E (numeral k)) = parseBlock_loop (parsersN E (pred_numeral k))"
  by (simp_all add: numeral_eq_Suc)

lemma parsers_1:
  "P_parseMaybeAssign (parsersN E 1) = parseMaybeAssign (parsersN E 0)"
  "P_parseExpression (parsersN E 1) = parseExpression (parsersN E 0)"
  "P_parseExpression_loop (parsersN E 1) = parseExpression_loop (parsersN E 0)"
  "P_parseMaybeUnary (parsersN E 1) = parseMaybeUnary (parsersN E 0)"
  "P_parseMaybeUnary_loop (parsersN E 1) = parseMaybeUnary_loop (parsersN E 0)"
  "P_parseExprOp (parsersN E 1) = parseExprOp (parsersN E 0)"
  "P_parseSubscripts_loop (parsersN E 1) = parseSubscripts_loop (parsersN E 0)"
  "P_parseExprList_loop (parsersN E 1) = parseExprList_loop (parsersN E 0)"
  "P_parseParen_loop (parsersN E 1) = parseParen_loop (parsersN E 0)"
  "P_parseBindingAtom (parsersN E 1) = parseBindingAtom (parsersN E 0)"
  "P_parseBindingList_loop (parsersN E 1) = parseBindingList_loop (parsersN E 0)"
  "P_parseStatement (parsersN E 1) = parseStatement (parsersN E 0)"
  "P_parseVar_loop (parsersN E 1) = parseVar_loop (parsersN E 0)"
  "P_parseBlock_loop (parsersN E 1) = parseBlock_loop (parsersN E 0)"
  by (simp_all only: One_nat_def parsers_Suc)

declare parsersN.simps [simp del]

lemmas all_defs = raise_def raiseRecoverable_def TokenType_new_def binop_new_def kw_def
   tt_num_def tt_regexp_def tt_string_def tt_name_def tt_privateId_def tt_eof_def
   tt_bracketL_def tt_bracketR_def tt_braceL_def tt_braceR_def tt_parenL_def tt_parenR_def
   tt_comma_def tt_semi_def tt_colon_def tt_dot_def tt_question_def tt_questionDot_def
   tt_arrow_def tt_template_def tt_invalidTemplate_def tt_ellipsis_def tt_backQuote_def
   tt_dollarBraceL_def tt_eq_def tt_assign_def tt_incDec_def tt_prefix_def tt_logicalOR_def
   tt_logicalAND_def tt_bitwiseOR_def tt_bitwiseXOR_def tt_bitwiseAND_def tt_equality_def
   tt_relational_def tt_bitShift_def tt_plusMin_def tt_modulo_def tt_star_def tt_slash_def
   tt_starstar_def tt_coalesce_def tt_break_def tt_case_def tt_catch_def tt_continue_def
   tt_debugger_def tt_default_def tt_do_def tt_else_def tt_finally_def tt_for_def
   tt_function_def tt_if_def tt_return_def tt_switch_def tt_throw_def tt_try_def tt_var_def
   tt_const_def tt_while_def tt_with_def tt_new_def tt_this_def tt_super_def tt_class_def
   tt_extends_def tt_export_def tt_import_def tt_null_def tt_true_def tt_false_def tt_in_def
   tt_instanceof_def tt_typeof_def tt_void_def tt_delete_def new_DestructuringErrors_def
   checkPatternErrors_def checkExpressionErrors_def unexpected_def toAssignableList_last_def
   toAssignableList_def toAssignable_cases_def pattern_type_def eof_token_def cur_def type_def
   val_def start_def containsEsc_def pos_of_def next_def new_ref_def deref_def upd_ref_def
   truthy_def isNewLine_def lineBreak_test_def slice_def charCodeAt_def isWhiteSpace_def
   skipWhiteSpace_def unexpected_at_def unexpected_here_def eat_def isContextual_def
   eatContextual_def expectContextual_def canInsertSemicolon_def insertSemicolon_def
   semicolon_def afterTrailingComma_def expect_def checkYieldAwaitInDefaultParams_def
   toAssignable_p_def checkUnreserved_def parseIdent_def parsePrivateIdent_def parseLiteral_def
   buildBinary_def get_ref_def parseSpread_def parseExprList_loop_def parseExprList_def
   parseRestBinding_def parseMaybeDefault_def parseBindingList_loop_def parseBindingList_def
   parseBindingAtom_def parseParenExpression_def parseParen_loop_def
   parseParenAndDistinguishExpression_def parseExprAtom_def parseSubscript_def
   parseSubscripts_loop_def parseSubscripts_def parseExprSubscripts_def parseAwait_def
   parseMaybeUnary_loop_def parseMaybeUnary_def parseExprOp_def parseExprOps_def
   parseMaybeConditional_def parseMaybeAssign_rest_def parseMaybeAssign_def
   parseExpression_loop_def parseExpression_def codes_def keywordRelationalOperator_def
   leadSurrogate_def isLet_def isAsyncFunction_def loopLabel_def push_label_def pop_label_def
   parseVarId_def parseVar_loop_def parseVar_def parseVarStatement_def
   parseDebuggerStatement_def parseDoStatement_def parseFor_def parseForIn_def
   parseForStatement_def parseIfStatement_def parseWhileStatement_def parseEmptyStatement_def
   parseLabeledStatement_def parseExpressionStatement_def parseBlock_loop_def parseBlock_def
   parseStatement_def result_def asciiIdentifierStart_def asciiIdentifierChar_def
   exampleEnv_def startState_def tk_def enterClassBody_def exitClassBody_def
   isPrivateNameConflicted_def declarePrivateName_def checkExport_def

lemmas ev = all_defs Let_def parsers_Suc parsers_env parsers_0 parsers_numeral parsers_1

subsection \<open>Evaluation\<close>

lemmas evc = prod.case_cong_weak let_weak_cong

lemma parseTopLevel_loop_numeral:
  "parseTopLevel_loop (numeral k) P body s =
     (if type s \<noteq> tt_eof then
        bnd (parseStatement P None True s)
          (\<lambda>(stmt, s1). parseTopLevel_loop (pred_numeral k) P (body @ [stmt]) s1)
      else Inr (body, s))"
  by (simp add: numeral_eq_Suc)

lemma parseTopLevel_loop_1:
  "parseTopLevel_loop 1 P body s =
     (if type s \<noteq> tt_eof then
        bnd (parseStatement P None True s)
          (\<lambda>(stmt, s1). parseTopLevel_loop 0 P (body @ [stmt]) s1)
      else Inr (body, s))"
  by (simp add: One_nat_def [symmetric] del: One_nat_def) (simp add: One_nat_def)

lemmas evt = parseTopLevel_loop_numeral parseTopLevel_loop_1

subsection \<open>Delayed errors\<close>

text \<open>
  C6, as stated, fails: neither function looks at every field. With only
  \<^verbatim>\<open>trailingComma\<close> set, \<^verbatim>\<open>checkExpressionErrors\<close> raises nothing, and with only
  \<^verbatim>\<open>shorthandAssign\<close> or \<^verbatim>\<open>doubleProto\<close> set, \<^verbatim>\<open>checkPatternErrors\<close> raises
  nothing.
\<close>

theorem checkErrors_any_field_counterexample:
  "checkExpressionErrors (Some (new_DestructuringErrors\<lparr>trailingComma := 7\<rparr>)) True = Inr False
   \<and> checkExpressionErrors (Some (new_DestructuringErrors\<lparr>parenthesizedAssign := 7\<rparr>)) True = Inr False
   \<and> checkPatternErrors (Some (new_DestructuringErrors\<lparr>shorthandAssign := 7\<rparr>)) True = Inr ()
   \<and> checkPatternErrors (Some (new_DestructuringErrors\<lparr>doubleProto := 7\<rparr>)) False = Inr ()"
  by (simp add: checkExpressionErrors_def checkPatternErrors_def new_DestructuringErrors_def)

text \<open>
  C6, amended: every field of a new \<^verbatim>\<open>DestructuringErrors\<close> is \<open>-1\<close>.
  \<^verbatim>\<open>checkExpressionErrors\<close> with \<^verbatim>\<open>andThrow\<close> promotes \<^verbatim>\<open>shorthandAssign\<close> (through
  \<^verbatim>\<open>raise\<close>) and otherwise \<^verbatim>\<open>doubleProto\<close> (through \<^verbatim>\<open>raiseRecoverable\<close>), at the
  stored offset, and ignores the other three fields. \<^verbatim>\<open>checkPatternErrors\<close> promotes
  \<^verbatim>\<open>trailingComma\<close> and otherwise \<^verbatim>\<open>parenthesizedAssign\<close> (when \<^verbatim>\<open>isAssign\<close>) or
  \<^verbatim>\<open>parenthesizedBind\<close> (when not), at the stored offset, and ignores the other fields.
\<close>

theorem checkErrors_promote:
  "new_DestructuringErrors =
     \<lparr>shorthandAssign = -1, trailingComma = -1, parenthesizedAssign = -1,
      parenthesizedBind = -1, doubleProto = -1\<rparr>
   \<and> checkExpressionErrors (Some r) True =
     (if shorthandAssign r \<ge> 0
      then raise (shorthandAssign r)
             ''Shorthand property assignments are valid only in destructuring patterns''
      else if doubleProto r \<ge> 0
      then raiseRecoverable (doubleProto r) ''Redefinition of __proto__ property''
      else Inr False)
   \<and> checkPatternErrors (Some r) isAssign' =
     (if trailingComma r > -1
      then raiseRecoverable (trailingComma r) ''Comma is not permitted after the rest element''
      else if isAssign' \<and> parenthesizedAssign r > -1
      then raiseRecoverable (parenthesizedAssign r) ''Assigning to rvalue''
      else if \<not> isAssign' \<and> parenthesizedBind r > -1
      then raiseRecoverable (parenthesizedBind r) ''Parenthesized pattern''
      else Inr ())"
  by (simp add: checkExpressionErrors_def checkPatternErrors_def new_DestructuringErrors_def
      raise_def raiseRecoverable_def Let_def)


subsection \<open>The assignable converter\<close>

text \<open>
  C1, as stated, fails in three places: an \<^verbatim>\<open>Identifier\<close> is none of the kinds the claim
  lists and is accepted, not an error; a \<^verbatim>\<open>ParenthesizedExpression\<close> is not
  unwrapped: the node that comes back is still the wrapper; and with
  \<^verbatim>\<open>ecmaVersion\<close> 5 nothing is converted: an ObjectExpression comes back as it is.
\<close>

theorem toAssignable_counterexample:
  "toAssignable 13 False (Identifier 0 1 ''x'') False None = Inr (Identifier 0 1 ''x'')
   \<and> toAssignable 13 False (ParenthesizedExpression 0 3 (Identifier 1 2 ''x'')) False None
       = Inr (ParenthesizedExpression 0 3 (Identifier 1 2 ''x''))
   \<and> toAssignable 5 False (ObjectExpression 0 2 []) False None = Inr (ObjectExpression 0 2 [])"
  by (simp add: toAssignable.simps)

lemma toAssignable_type:
  assumes "6 \<le> ev"
    and "toAssignable ev ia n isBinding r = Inr n'"
  shows "ntype n' = pattern_type (ntype n) \<and> nstart n' = nstart n \<and> nend n' = nend n"
  using assms
  apply (subst (asm) toAssignable.simps)
  apply (cases n)
  apply (auto simp: bnd_def raise_def raiseRecoverable_def pattern_type_def
      split: if_splits sum.splits)
  done

lemma toAssignable_default:
  assumes "6 \<le> ev" and "ntype n \<notin> set toAssignable_cases"
  shows "toAssignable ev ia n isBinding r = raise (nstart n) ''Assigning to rvalue''"
  using assms
  apply (subst toAssignable.simps)
  apply (cases n)
  apply (simp_all add: toAssignable_cases_def)
  done

lemma toAssignable_old:
  assumes "ev < 6"
  shows "toAssignable ev ia n isBinding r =
           (if r \<noteq> None then bnd (checkPatternErrors r True) (\<lambda>_. Inr n) else Inr n)"
  using assms by (subst toAssignable.simps) simp

lemma toAssignable_object:
  assumes "6 \<le> ev"
  shows "toAssignable ev ia (ObjectExpression s e ps) isBinding r =
           bnd (if r \<noteq> None then checkPatternErrors r True else Inr ())
             (\<lambda>_. bnd (toAssignable_props ev ia ps isBinding)
               (\<lambda>ps'. Inr (ObjectPattern s e ps')))"
  using assms by (subst toAssignable.simps) simp

lemma toAssignable_array:
  assumes "6 \<le> ev"
  shows "toAssignable ev ia (ArrayExpression s e es) isBinding r =
           bnd (if r \<noteq> None then checkPatternErrors r True else Inr ())
             (\<lambda>_. bnd (toAssignableList ev ia es isBinding)
               (\<lambda>es'. Inr (ArrayPattern s e es')))"
  using assms
  by (subst toAssignable.simps) (simp add: toAssignableList_def bnd_def split: sum.splits)

lemma toAssignable_spread:
  assumes "6 \<le> ev"
  shows "toAssignable ev ia (SpreadElement s e a) isBinding r =
           bnd (toAssignable ev ia a isBinding None)
             (\<lambda>a'. if ntype a' = ''AssignmentPattern''
                   then raise (nstart a') ''Rest elements cannot have a default value''
                   else Inr (RestElement s e a'))"
  using assms by (subst toAssignable.simps) simp

lemma toAssignable_assignment:
  assumes "6 \<le> ev"
  shows "toAssignable ev ia (AssignmentExpression s e ''='' l rt) isBinding r =
           bnd (toAssignable ev ia l isBinding None) (\<lambda>l'. Inr (AssignmentPattern s e l' rt))"
  using assms by (subst toAssignable.simps) simp

lemma toAssignable_props_iff:
  "toAssignable_props ev ia ps isBinding = Inr ps' \<longleftrightarrow>
     list_all2 (\<lambda>p p'. toAssignable ev ia p isBinding None = Inr p' \<and> restOfPattern p' = None)
       ps ps'"
proof (induction ps arbitrary: ps')
  case Nil
  show ?case by auto
next
  case (Cons p ps)
  show ?case
  proof (cases "toAssignable ev ia p isBinding None")
    case (Inl err)
    then show ?thesis by (simp add: list_all2_Cons1)
  next
    case (Inr q)
    show ?thesis
    proof (cases "restOfPattern q")
      case (Some x)
      with Inr show ?thesis by (auto simp add: list_all2_Cons1 raise_def)
    next
      case None
      show ?thesis
      proof (cases "toAssignable_props ev ia ps isBinding")
        case (Inl err)
        with Inr None Cons.IH show ?thesis by (auto simp add: list_all2_Cons1)
      next
        case (Inr qs)
        with \<open>toAssignable ev ia p isBinding None = Inr q\<close> None Cons.IH
        show ?thesis by (auto simp add: list_all2_Cons1)
      qed
    qed
  qed
qed

lemma toAssignable_elts_iff:
  "toAssignable_elts ev ia es isBinding = Inr es' \<longleftrightarrow>
     list_all2 (\<lambda>x x'. case x of None \<Rightarrow> x' = None
                  | Some n \<Rightarrow> \<exists>n'. x' = Some n' \<and> toAssignable ev ia n isBinding None = Inr n')
       es es'"
proof (induction es arbitrary: es')
  case Nil
  show ?case by auto
next
  case (Cons x es)
  show ?case
  proof (cases x)
    case None
    show ?thesis
    proof (cases "toAssignable_elts ev ia es isBinding")
      case (Inl err)
      with None Cons.IH show ?thesis by (auto simp add: list_all2_Cons1)
    next
      case (Inr qs)
      with None Cons.IH show ?thesis by (auto simp add: list_all2_Cons1)
    qed
  next
    case (Some n)
    show ?thesis
    proof (cases "toAssignable ev ia n isBinding None")
      case (Inl err)
      with Some show ?thesis by (simp add: list_all2_Cons1)
    next
      case (Inr q)
      show ?thesis
      proof (cases "toAssignable_elts ev ia es isBinding")
        case (Inl err)
        with Some Inr Cons.IH show ?thesis by (auto simp add: list_all2_Cons1)
      next
        case (Inr qs)
        with Some \<open>toAssignable ev ia n isBinding None = Inr q\<close> Cons.IH
        show ?thesis by (auto simp add: list_all2_Cons1)
      qed
    qed
  qed
qed

lemma toAssignable_nested:
  "toAssignable 13 False
     (ObjectExpression 0 30
        [Property 1 20 ''init'' (Identifier 1 2 ''a'')
           (ArrayExpression 4 20
              [Some (AssignmentExpression 5 10 ''='' (Identifier 5 6 ''b'') (Literal 9 10 ''1'')),
               None,
               Some (SpreadElement 12 19 (MemberExpression 15 19 (Identifier 15 16 ''c'')
                       (Identifier 17 19 ''d'') False False))])]) False None =
   Inr (ObjectPattern 0 30
        [Property 1 20 ''init'' (Identifier 1 2 ''a'')
           (ArrayPattern 4 20
              [Some (AssignmentPattern 5 10 (Identifier 5 6 ''b'') (Literal 9 10 ''1'')),
               None,
               Some (RestElement 12 19 (MemberExpression 15 19 (Identifier 15 16 ''c'')
                       (Identifier 17 19 ''d'') False False))])])"
  by (simp add: toAssignable.simps toAssignableList_last_def)

text \<open>
  C1, amended. For \<^verbatim>\<open>ecmaVersion >= 6\<close>: an ObjectExpression becomes an ObjectPattern of
  its converted properties, an ArrayExpression an ArrayPattern of its elements converted
  by \<^verbatim>\<open>toAssignableList\<close>, a SpreadElement a RestElement of its converted argument (which
  must not come out as an AssignmentPattern), and an AssignmentExpression with operator
  \<^verbatim>\<open>=\<close> an AssignmentPattern, a node without operator, of its converted left side and
  its right side; the first two run \<^verbatim>\<open>checkPatternErrors\<close> before, when
  \<^verbatim>\<open>refDestructuringErrors\<close> is given. The properties convert exactly when each converts
  (to something that is no RestElement of an array or object pattern), the elements
  exactly when each element that is not null converts, and null stays null. Every
  conversion that succeeds keeps \<^verbatim>\<open>start\<close> and \<^verbatim>\<open>end\<close> and changes the type of the
  node by this mapping only. An Identifier (other than \<^verbatim>\<open>await\<close> inside an async
  function) and a node that already is an ObjectPattern, ArrayPattern, AssignmentPattern
  or RestElement come back as they are. A Property is accepted only with kind
  \<^verbatim>\<open>init\<close>, and its value is converted. A ParenthesizedExpression stays the wrapper of
  its converted expression. A ChainExpression, an assignment whose operator is not
  \<^verbatim>\<open>=\<close> and every kind that is no case label of the switch are errors; a
  MemberExpression is accepted, as it is, exactly when \<^verbatim>\<open>isBinding\<close> is false. For
  \<^verbatim>\<open>ecmaVersion < 6\<close> every node comes back as it is, after \<^verbatim>\<open>checkPatternErrors\<close>
  when \<^verbatim>\<open>refDestructuringErrors\<close> is given.
\<close>

theorem toAssignable_mapping:
  "(6 \<le> ev \<longrightarrow>
     (\<forall>n'. toAssignable ev ia n isBinding r = Inr n' \<longrightarrow>
        ntype n' = pattern_type (ntype n) \<and> nstart n' = nstart n \<and> nend n' = nend n)
     \<and> toAssignable ev ia (ObjectExpression s e ps) isBinding r =
         bnd (if r \<noteq> None then checkPatternErrors r True else Inr ())
           (\<lambda>_. bnd (toAssignable_props ev ia ps isBinding)
             (\<lambda>ps'. Inr (ObjectPattern s e ps')))
     \<and> toAssignable ev ia (ArrayExpression s e es) isBinding r =
         bnd (if r \<noteq> None then checkPatternErrors r True else Inr ())
           (\<lambda>_. bnd (toAssignableList ev ia es isBinding)
             (\<lambda>es'. Inr (ArrayPattern s e es')))
     \<and> toAssignable ev ia (SpreadElement s e a) isBinding r =
         bnd (toAssignable ev ia a isBinding None)
           (\<lambda>a'. if ntype a' = ''AssignmentPattern''
                 then raise (nstart a') ''Rest elements cannot have a default value''
                 else Inr (RestElement s e a'))
     \<and> toAssignable ev ia (AssignmentExpression s e ''='' l rt) isBinding r =
         bnd (toAssignable ev ia l isBinding None) (\<lambda>l'. Inr (AssignmentPattern s e l' rt))
     \<and> toAssignable ev ia (Identifier s e nm) isBinding r =
         (if ia \<and> nm = ''await''
          then raise s ''Cannot use 'await' as identifier inside an async function''
          else Inr (Identifier s e nm))
     \<and> toAssignable ev ia (ObjectPattern s e ps) isBinding r = Inr (ObjectPattern s e ps)
     \<and> toAssignable ev ia (ArrayPattern s e es) isBinding r = Inr (ArrayPattern s e es)
     \<and> toAssignable ev ia (AssignmentPattern s e l rt) isBinding r
         = Inr (AssignmentPattern s e l rt)
     \<and> toAssignable ev ia (RestElement s e a) isBinding r = Inr (RestElement s e a)
     \<and> toAssignable ev ia (Property s e k key v) isBinding r =
         (if k \<noteq> ''init'' then raise (nstart key) ''Object pattern can't contain getter or setter''
          else bnd (toAssignable ev ia v isBinding None)
                 (\<lambda>v'. Inr (Property s e k key v')))
     \<and> toAssignable ev ia (ParenthesizedExpression s e x) isBinding r =
         bnd (toAssignable ev ia x isBinding r)
           (\<lambda>x'. Inr (ParenthesizedExpression s e x'))
     \<and> isl (toAssignable ev ia (ChainExpression s e x) isBinding r)
     \<and> (op \<noteq> ''='' \<longrightarrow>
          isl (toAssignable ev ia (AssignmentExpression s e op l rt) isBinding r))
     \<and> (isl (toAssignable ev ia (MemberExpression s e ob pr c opt) isBinding r)
          \<longleftrightarrow> isBinding)
     \<and> toAssignable ev ia (MemberExpression s e ob pr c opt) False r =
         Inr (MemberExpression s e ob pr c opt)
     \<and> (ntype n \<notin> set toAssignable_cases \<longrightarrow>
          isl (toAssignable ev ia n isBinding r)))
   \<and> (toAssignable_props ev ia ps isBinding = Inr ps' \<longleftrightarrow>
        list_all2 (\<lambda>p p'. toAssignable ev ia p isBinding None = Inr p' \<and> restOfPattern p' = None)
          ps ps')
   \<and> (toAssignable_elts ev ia es isBinding = Inr es' \<longleftrightarrow>
        list_all2 (\<lambda>x x'. case x of None \<Rightarrow> x' = None
                     | Some n \<Rightarrow> \<exists>n'. x' = Some n' \<and> toAssignable ev ia n isBinding None = Inr n')
          es es')
   \<and> toAssignableList ev ia es isBinding =
        bnd (toAssignable_elts ev ia es isBinding)
          (\<lambda>es'. bnd (toAssignableList_last ev es' isBinding) (\<lambda>_. Inr es'))
   \<and> (ev < 6 \<longrightarrow>
        toAssignable ev ia n isBinding r =
          (if r \<noteq> None then bnd (checkPatternErrors r True) (\<lambda>_. Inr n) else Inr n))"
proof -
  have new: "6 \<le> ev \<Longrightarrow>
     (\<forall>n'. toAssignable ev ia n isBinding r = Inr n' \<longrightarrow>
        ntype n' = pattern_type (ntype n) \<and> nstart n' = nstart n \<and> nend n' = nend n)
     \<and> toAssignable ev ia (ObjectExpression s e ps) isBinding r =
         bnd (if r \<noteq> None then checkPatternErrors r True else Inr ())
           (\<lambda>_. bnd (toAssignable_props ev ia ps isBinding)
             (\<lambda>ps'. Inr (ObjectPattern s e ps')))
     \<and> toAssignable ev ia (ArrayExpression s e es) isBinding r =
         bnd (if r \<noteq> None then checkPatternErrors r True else Inr ())
           (\<lambda>_. bnd (toAssignableList ev ia es isBinding)
             (\<lambda>es'. Inr (ArrayPattern s e es')))
     \<and> toAssignable ev ia (SpreadElement s e a) isBinding r =
         bnd (toAssignable ev ia a isBinding None)
           (\<lambda>a'. if ntype a' = ''AssignmentPattern''
                 then raise (nstart a') ''Rest elements cannot have a default value''
                 else Inr (RestElement s e a'))
     \<and> toAssignable ev ia (AssignmentExpression s e ''='' l rt) isBinding r =
         bnd (toAssignable ev ia l isBinding None) (\<lambda>l'. Inr (AssignmentPattern s e l' rt))
     \<and> toAssignable ev ia (Identifier s e nm) isBinding r =
         (if ia \<and> nm = ''await''
          then raise s ''Cannot use 'await' as identifier inside an async function''
          else Inr (Identifier s e nm))
     \<and> toAssignable ev ia (ObjectPattern s e ps) isBinding r = Inr (ObjectPattern s e ps)
     \<and> toAssignable ev ia (ArrayPattern s e es) isBinding r = Inr (ArrayPattern s e es)
     \<and> toAssignable ev ia (AssignmentPattern s e l rt) isBinding r
         = Inr (AssignmentPattern s e l rt)
     \<and> toAssignable ev ia (RestElement s e a) isBinding r = Inr (RestElement s e a)
     \<and> toAssignable ev ia (Property s e k key v) isBinding r =
         (if k \<noteq> ''init'' then raise (nstart key) ''Object pattern can't contain getter or setter''
          else bnd (toAssignable ev ia v isBinding None)
                 (\<lambda>v'. Inr (Property s e k key v')))
     \<and> toAssignable ev ia (ParenthesizedExpression s e x) isBinding r =
         bnd (toAssignable ev ia x isBinding r)
           (\<lambda>x'. Inr (ParenthesizedExpression s e x'))
     \<and> isl (toAssignable ev ia (ChainExpression s e x) isBinding r)
     \<and> (op \<noteq> ''='' \<longrightarrow>
          isl (toAssignable ev ia (AssignmentExpression s e op l rt) isBinding r))
     \<and> (isl (toAssignable ev ia (MemberExpression s e ob pr c opt) isBinding r)
          \<longleftrightarrow> isBinding)
     \<and> toAssignable ev ia (MemberExpression s e ob pr c opt) False r =
         Inr (MemberExpression s e ob pr c opt)
     \<and> (ntype n \<notin> set toAssignable_cases \<longrightarrow>
          isl (toAssignable ev ia n isBinding r))"
  proof (intro conjI)
    assume v: "6 \<le> ev"
    show "\<forall>n'. toAssignable ev ia n isBinding r = Inr n' \<longrightarrow>
        ntype n' = pattern_type (ntype n) \<and> nstart n' = nstart n \<and> nend n' = nend n"
      using v toAssignable_type by blast
    show "ntype n \<notin> set toAssignable_cases \<longrightarrow> isl (toAssignable ev ia n isBinding r)"
      using v by (simp add: toAssignable_default raise_def)
    show "toAssignable ev ia (ObjectExpression s e ps) isBinding r =
         bnd (if r \<noteq> None then checkPatternErrors r True else Inr ())
           (\<lambda>_. bnd (toAssignable_props ev ia ps isBinding)
             (\<lambda>ps'. Inr (ObjectPattern s e ps')))"
      using v by (rule toAssignable_object)
    show "toAssignable ev ia (ArrayExpression s e es) isBinding r =
         bnd (if r \<noteq> None then checkPatternErrors r True else Inr ())
           (\<lambda>_. bnd (toAssignableList ev ia es isBinding)
             (\<lambda>es'. Inr (ArrayPattern s e es')))"
      using v by (rule toAssignable_array)
    show "toAssignable ev ia (SpreadElement s e a) isBinding r =
         bnd (toAssignable ev ia a isBinding None)
           (\<lambda>a'. if ntype a' = ''AssignmentPattern''
                 then raise (nstart a') ''Rest elements cannot have a default value''
                 else Inr (RestElement s e a'))"
      using v by (rule toAssignable_spread)
    show "toAssignable ev ia (AssignmentExpression s e ''='' l rt) isBinding r =
         bnd (toAssignable ev ia l isBinding None) (\<lambda>l'. Inr (AssignmentPattern s e l' rt))"
      using v by (rule toAssignable_assignment)
  qed (simp_all add: toAssignable.simps [of _ _ "Identifier s e nm"]
      toAssignable.simps [of _ _ "ObjectPattern s e ps"]
      toAssignable.simps [of _ _ "ArrayPattern s e es"]
      toAssignable.simps [of _ _ "AssignmentPattern s e l rt"]
      toAssignable.simps [of _ _ "RestElement s e a"]
      toAssignable.simps [of _ _ "Property s e k key v"]
      toAssignable.simps [of _ _ "ParenthesizedExpression s e x"]
      toAssignable.simps [of _ _ "ChainExpression s e x"]
      toAssignable.simps [of _ _ "AssignmentExpression s e op l rt"]
      toAssignable.simps [of _ _ "MemberExpression s e ob pr c opt"]
      raise_def raiseRecoverable_def)
  show ?thesis
    apply (intro conjI)
    subgoal using new by blast
    subgoal by (rule toAssignable_props_iff)
    subgoal by (rule toAssignable_elts_iff)
    subgoal by (simp add: toAssignableList_def)
    subgoal by (intro impI, rule toAssignable_old)
    done
qed

theorem toAssignable_mapping_witness:
  "(6::nat) \<le> 13
   \<and> toAssignable 13 False
        (ArrayExpression 0 9
           [Some (Identifier 1 2 ''a''), None,
            Some (SpreadElement 4 8 (Identifier 7 8 ''b''))]) False None
      = Inr (ArrayPattern 0 9
           [Some (Identifier 1 2 ''a''), None,
            Some (RestElement 4 8 (Identifier 7 8 ''b''))])
   \<and> ntype (ArrayPattern 0 9
           [Some (Identifier 1 2 ''a''), None,
            Some (RestElement 4 8 (Identifier 7 8 ''b''))])
      = pattern_type (ntype (ArrayExpression 0 9
           [Some (Identifier 1 2 ''a''), None,
            Some (SpreadElement 4 8 (Identifier 7 8 ''b''))]))
   \<and> ''+='' \<noteq> ''=''
   \<and> isl (toAssignable 13 False
        (AssignmentExpression 0 6 ''+='' (Identifier 0 1 ''a'') (Literal 5 6 ''1'')) False None)
   \<and> ntype (Literal 5 6 ''1'') \<notin> set toAssignable_cases
   \<and> isl (toAssignable 13 False (Literal 5 6 ''1'') False None)
   \<and> (5::nat) < 6
   \<and> toAssignable 5 False
        (AssignmentExpression 0 6 ''+='' (Identifier 0 1 ''a'') (Literal 5 6 ''1'')) False None
      = Inr (AssignmentExpression 0 6 ''+='' (Identifier 0 1 ''a'') (Literal 5 6 ''1''))"
proof -
  have h: "(6::nat) \<le> 13" by simp
  have eq: "toAssignable 13 False
        (ArrayExpression 0 9
           [Some (Identifier 1 2 ''a''), None,
            Some (SpreadElement 4 8 (Identifier 7 8 ''b''))]) False None
      = Inr (ArrayPattern 0 9
           [Some (Identifier 1 2 ''a''), None,
            Some (RestElement 4 8 (Identifier 7 8 ''b''))])"
    by (simp add: toAssignable.simps toAssignableList_last_def)
  have op: "''+='' \<noteq> ''=''" by simp
  have lit: "ntype (Literal 5 6 ''1'') \<notin> set toAssignable_cases"
    by (simp add: toAssignable_cases_def)
  have old: "(5::nat) < 6" by simp
  note t = toAssignable_mapping [where ev = 13 and ia = False and isBinding = False
      and r = None and op = "''+=''" and s = 0 and e = 6 and l = "Identifier 0 1 ''a''"
      and rt = "Literal 5 6 ''1''", THEN conjunct1, rule_format, OF h]
  have a: "ntype (ArrayPattern 0 9
           [Some (Identifier 1 2 ''a''), None,
            Some (RestElement 4 8 (Identifier 7 8 ''b''))])
      = pattern_type (ntype (ArrayExpression 0 9
           [Some (Identifier 1 2 ''a''), None,
            Some (SpreadElement 4 8 (Identifier 7 8 ''b''))]))"
    using t [where n = "ArrayExpression 0 9
           [Some (Identifier 1 2 ''a''), None,
            Some (SpreadElement 4 8 (Identifier 7 8 ''b''))]"] eq by blast
  have b: "isl (toAssignable 13 False
        (AssignmentExpression 0 6 ''+='' (Identifier 0 1 ''a'') (Literal 5 6 ''1'')) False None)"
    using t op by blast
  have c: "isl (toAssignable 13 False (Literal 5 6 ''1'') False None)"
    using t [where n = "Literal 5 6 ''1''"] lit by blast
  have d: "toAssignable 5 False
        (AssignmentExpression 0 6 ''+='' (Identifier 0 1 ''a'') (Literal 5 6 ''1'')) False None
      = Inr (AssignmentExpression 0 6 ''+='' (Identifier 0 1 ''a'') (Literal 5 6 ''1''))"
    using toAssignable_mapping [where ev = 5 and r = None, THEN conjunct2, THEN conjunct2,
        THEN conjunct2, THEN conjunct2, rule_format, OF old]
    by simp
  from h eq a op b lit c old d show ?thesis by blast
qed

subsection \<open>Mixing of coalesce and logical operators\<close>

lemmas tts = tt_coalesce_def tt_logicalAND_def tt_logicalOR_def tt_in_def binop_new_def
  TokenType_new_def kw_def

lemma parseExprOp_coalesce:
  assumes "type s = tt_coalesce" and "minPrec < 1"
    and "parseMaybeUnary P None False False forInit (next s) = Inr (operand, s2)"
    and "P_parseExprOp P operand (start (next s)) 2 forInit s2 = Inr (right, s3)"
    and "ntype right \<noteq> ''PrivateIdentifier''"
  shows "parseExprOp P left lsp minPrec forInit s =
     (if type s3 = tt_logicalOR \<or> type s3 = tt_logicalAND
      then raiseRecoverable (start s3)
             ''Logical expressions and coalesce expressions cannot be mixed. Wrap either by parentheses''
      else P_parseExprOp P (LogicalExpression lsp (lastTokEnd s3) left (val s) right) lsp minPrec
             forInit s3)"
  using assms by (simp add: parseExprOp_def buildBinary_def tts Let_def)

lemma parseExprOp_logical:
  assumes "type s = tt_logicalOR \<or> type s = tt_logicalAND"
    and "binop (type s) = Some p" and "minPrec < int p"
    and "parseMaybeUnary P None False False forInit (next s) = Inr (operand, s2)"
    and "P_parseExprOp P operand (start (next s)) (int p) forInit s2 = Inr (right, s3)"
    and "ntype right \<noteq> ''PrivateIdentifier''"
  shows "parseExprOp P left lsp minPrec forInit s =
     (if type s3 = tt_coalesce
      then raiseRecoverable (start s3)
             ''Logical expressions and coalesce expressions cannot be mixed. Wrap either by parentheses''
      else P_parseExprOp P (LogicalExpression lsp (lastTokEnd s3) left (val s) right) lsp minPrec
             forInit s3)"
  using assms by (auto simp add: parseExprOp_def buildBinary_def tts Let_def)

lemma mixedInput_error:
  "result (parseExpression (parsersN exampleEnv 10) FI_false None mixedInput) =
     Inl (SyntaxError True 7
       ''Logical expressions and coalesce expressions cannot be mixed. Wrap either by parentheses'')"
  by (simp add: ev mixedInput_def cong: evc)

lemma parenInput_parses:
  "result (parseExpression (parsersN exampleEnv 10) FI_false None parenInput) =
     Inr (LogicalExpression 0 13
            (LogicalExpression 1 7 (Literal 1 2 ''1'') ''&&'' (Literal 6 7 ''2''))
            ''??'' (Literal 12 13 ''3''))"
  by (simp add: ev parenInput_def cong: evc)

text \<open>
  C3. The input \<^verbatim>\<open>1 && 2 ?? 3\<close> raises the error of mixed operators through
  \<^verbatim>\<open>raiseRecoverable\<close>, at the offset of \<^verbatim>\<open>??\<close>; \<^verbatim>\<open>(1 && 2) ?? 3\<close> parses to a
  LogicalExpression. In \<^verbatim>\<open>parseExprOp\<close>, the operand to the right of \<^verbatim>\<open>??\<close> is parsed
  with precedence 2, the precedence of \<^verbatim>\<open>&&\<close>, and a \<^verbatim>\<open>||\<close> or \<^verbatim>\<open>&&\<close> that
  follows it raises the error; the operand to the right of \<^verbatim>\<open>||\<close> or \<^verbatim>\<open>&&\<close> is
  parsed with the precedence of that operator, and a \<^verbatim>\<open>??\<close> that follows it raises
  the error.
\<close>

theorem mixed_coalesce_error:
  "result (parseExpression (parsersN exampleEnv 10) FI_false None mixedInput) =
     Inl (SyntaxError True 7
       ''Logical expressions and coalesce expressions cannot be mixed. Wrap either by parentheses'')
   \<and> result (parseExpression (parsersN exampleEnv 10) FI_false None parenInput) =
     Inr (LogicalExpression 0 13
            (LogicalExpression 1 7 (Literal 1 2 ''1'') ''&&'' (Literal 6 7 ''2''))
            ''??'' (Literal 12 13 ''3''))
   \<and> binop tt_logicalAND = Some 2
   \<and> (type s = tt_coalesce \<and> minPrec < 1
        \<and> parseMaybeUnary P None False False forInit (next s) = Inr (operand, s2)
        \<and> P_parseExprOp P operand (start (next s)) 2 forInit s2 = Inr (right, s3)
        \<and> ntype right \<noteq> ''PrivateIdentifier''
      \<longrightarrow> parseExprOp P left lsp minPrec forInit s =
           (if type s3 = tt_logicalOR \<or> type s3 = tt_logicalAND
            then raiseRecoverable (start s3)
                   ''Logical expressions and coalesce expressions cannot be mixed. Wrap either by parentheses''
            else P_parseExprOp P (LogicalExpression lsp (lastTokEnd s3) left (val s) right) lsp
                   minPrec forInit s3))
   \<and> ((type s = tt_logicalOR \<or> type s = tt_logicalAND)
        \<and> binop (type s) = Some p \<and> minPrec < int p
        \<and> parseMaybeUnary P None False False forInit (next s) = Inr (operand, s2)
        \<and> P_parseExprOp P operand (start (next s)) (int p) forInit s2 = Inr (right, s3)
        \<and> ntype right \<noteq> ''PrivateIdentifier''
      \<longrightarrow> parseExprOp P left lsp minPrec forInit s =
           (if type s3 = tt_coalesce
            then raiseRecoverable (start s3)
                   ''Logical expressions and coalesce expressions cannot be mixed. Wrap either by parentheses''
            else P_parseExprOp P (LogicalExpression lsp (lastTokEnd s3) left (val s) right) lsp
                   minPrec forInit s3))"
  apply (intro conjI)
  subgoal by (rule mixedInput_error)
  subgoal by (rule parenInput_parses)
  subgoal by (simp add: tts)
  subgoal by (intro impI, elim conjE, rule parseExprOp_coalesce; assumption)
  subgoal by (intro impI, elim conjE, rule parseExprOp_logical; assumption)
  done

theorem mixed_coalesce_error_witness:
  "type (next mixedInput) = tt_logicalAND
   \<and> binop (type (next mixedInput)) = Some 2 \<and> (-1::int) < int 2
   \<and> parseMaybeUnary (parsersN exampleEnv 5) None False False FI_false (next (next mixedInput))
       = Inr (Literal 5 6 ''2'', next (next (next mixedInput)))
   \<and> P_parseExprOp (parsersN exampleEnv 5) (Literal 5 6 ''2'') (start (next (next mixedInput)))
        (int 2) FI_false (next (next (next mixedInput)))
       = Inr (Literal 5 6 ''2'', next (next (next mixedInput)))
   \<and> ntype (Literal 5 6 ''2'') \<noteq> ''PrivateIdentifier''
   \<and> parseExprOp (parsersN exampleEnv 5) (Literal 0 1 ''1'') 0 (-1) FI_false (next mixedInput)
       = raiseRecoverable 7
           ''Logical expressions and coalesce expressions cannot be mixed. Wrap either by parentheses''"
proof -
  have h1: "type (next mixedInput) = tt_logicalAND"
    and h2: "binop (type (next mixedInput)) = Some 2"
    by (simp_all add: ev mixedInput_def cong: evc)
  have h3: "(-1::int) < int 2" by simp
  have h4: "parseMaybeUnary (parsersN exampleEnv 5) None False False FI_false
              (next (next mixedInput))
            = Inr (Literal 5 6 ''2'', next (next (next mixedInput)))"
    by (simp add: ev mixedInput_def cong: evc)
  have h5: "P_parseExprOp (parsersN exampleEnv 5) (Literal 5 6 ''2'')
              (start (next (next mixedInput))) (int 2) FI_false (next (next (next mixedInput)))
            = Inr (Literal 5 6 ''2'', next (next (next mixedInput)))"
    by (simp add: ev mixedInput_def cong: evc)
  have h6: "ntype (Literal 5 6 ''2'') \<noteq> ''PrivateIdentifier''" by simp
  have t: "type (next (next (next mixedInput))) = tt_coalesce"
    and st: "start (next (next (next mixedInput))) = 7"
    by (simp_all add: ev mixedInput_def cong: evc)
  have "type (next mixedInput) = tt_logicalOR \<or> type (next mixedInput) = tt_logicalAND"
    using h1 by simp
  with h2 h3 h4 h5 h6
  have "parseExprOp (parsersN exampleEnv 5) (Literal 0 1 ''1'') 0 (-1) FI_false (next mixedInput)
        = (if type (next (next (next mixedInput))) = tt_coalesce
           then raiseRecoverable (start (next (next (next mixedInput))))
                  ''Logical expressions and coalesce expressions cannot be mixed. Wrap either by parentheses''
           else P_parseExprOp (parsersN exampleEnv 5)
                  (LogicalExpression 0 (lastTokEnd (next (next (next mixedInput))))
                     (Literal 0 1 ''1'') (val (next mixedInput)) (Literal 5 6 ''2''))
                  0 (-1) FI_false (next (next (next mixedInput))))"
    using mixed_coalesce_error [THEN conjunct2, THEN conjunct2, THEN conjunct2, THEN conjunct2,
        of "next mixedInput" 2 "-1" "parsersN exampleEnv 5" FI_false "Literal 5 6 ''2''"
        "next (next (next mixedInput))" "Literal 5 6 ''2''" "next (next (next mixedInput))"
        "Literal 0 1 ''1''" 0]
    by blast
  with t st h1 h2 h3 h4 h5 h6 show ?thesis by simp
qed


subsection \<open>Prefix and postfix operators\<close>

lemma postfixInput_unary:
  "result (parseMaybeUnary (parsersN exampleEnv 5) None False False FI_false postfixInput) =
     Inr (UnaryExpression 0 3 ''++'' False (Identifier 0 1 ''a''))"
  by (simp add: ev postfixInput_def cong: evc)

text \<open>
  C4, as stated, fails for the postfix operators: for \<^verbatim>\<open>a++\<close> the node that
  \<^verbatim>\<open>parseMaybeUnary\<close> finishes is a UnaryExpression with \<^verbatim>\<open>prefix = false\<close>, not an
  UpdateExpression.
\<close>

theorem postfix_update_counterexample:
  "result (parseMaybeUnary (parsersN exampleEnv 5) None False False FI_false postfixInput) =
     Inr (UnaryExpression 0 3 ''++'' False (Identifier 0 1 ''a''))
   \<and> ntype (UnaryExpression 0 3 ''++'' False (Identifier 0 1 ''a'')) \<noteq> ''UpdateExpression''"
  using postfixInput_unary by simp

lemma parseMaybeUnary_update:
  assumes "type s = tt_incDec" and "\<not> (isContextual ''await'' s \<and> canAwait s)"
    and "P_parseMaybeUnary P None True True forInit (next s) = Inr (argument, s2)"
    and "checkExpressionErrors (deref r s2) True = Inr b"
    and "checkLValSimple P argument BIND_NONE None s2 = Inr (c, s3)"
    and "incDec \<or> type s3 \<noteq> tt_starstar"
  shows "parseMaybeUnary P r sawUnary incDec forInit s =
           Inr (UpdateExpression (start s) (lastTokEnd s3) (val s) True argument, s3)"
  using assms
  by (auto simp add: parseMaybeUnary_def eat_def tt_incDec_def TokenType_new_def Let_def)

lemma parseMaybeUnary_prefix:
  assumes "prefix (type s)" and "type s \<noteq> tt_incDec"
    and "\<not> (isContextual ''await'' s \<and> canAwait s)"
    and "P_parseMaybeUnary P None True False forInit (next s) = Inr (argument, s2)"
    and "checkExpressionErrors (deref r s2) True = Inr b"
    and "incDec \<or> type s2 \<noteq> tt_starstar"
  shows "parseMaybeUnary P r sawUnary incDec forInit s =
           (if val s = ''delete'' \<and> strict s2 \<and> ntype argument = ''Identifier''
            then raiseRecoverable (start s) ''Deleting local variable in strict mode''
            else if val s = ''delete'' \<and> isPrivateFieldAccess argument
            then raiseRecoverable (start s) ''Private fields can not be deleted''
            else Inr (UnaryExpression (start s) (lastTokEnd s2) (val s) True argument, s2))"
  using assms
  by (auto simp add: parseMaybeUnary_def eat_def raiseRecoverable_def Let_def)

lemma parseMaybeUnary_loop_postfix:
  assumes "postfix (type s)" and "\<not> canInsertSemicolon s"
    and "checkLValSimple P expr BIND_NONE None s = Inr (c, s1)"
  shows "parseMaybeUnary_loop P startPos expr s =
           P_parseMaybeUnary_loop P startPos
             (UnaryExpression startPos (lastTokEnd (next s1)) (val s) False expr) (next s1)"
  using assms by (simp add: parseMaybeUnary_loop_def Let_def)

lemma parseMaybeUnary_loop_newline:
  assumes "canInsertSemicolon s"
  shows "parseMaybeUnary_loop P startPos expr s = Inr (expr, s)"
  using assms by (simp add: parseMaybeUnary_loop_def)

lemma prefix_examples:
  "result (parseMaybeUnary (parsersN exampleEnv 5) None False False FI_false prefixIncInput) =
     Inr (UpdateExpression 0 3 ''++'' True (Identifier 2 3 ''a''))"
  "result (parseMaybeUnary (parsersN exampleEnv 5) None False False FI_false notInput) =
     Inr (UnaryExpression 0 2 ''!'' True (Identifier 1 2 ''a''))"
  "result (parseMaybeUnary (parsersN exampleEnv 5) None False False FI_false typeofInput) =
     Inr (UnaryExpression 0 8 ''typeof'' True (Identifier 7 8 ''a''))"
  "result (parseMaybeUnary (parsersN exampleEnv 5) None False False FI_false minusInput) =
     Inr (UnaryExpression 0 2 ''-'' True (Identifier 1 2 ''a''))"
  by (simp_all add: ev prefixIncInput_def notInput_def typeofInput_def minusInput_def cong: evc)

lemma more_prefix_examples:
  "result (parseMaybeUnary (parsersN exampleEnv 5) None False False FI_false prefixDecInput) =
     Inr (UpdateExpression 0 3 ''--'' True (Identifier 2 3 ''a''))"
  "result (parseMaybeUnary (parsersN exampleEnv 5) None False False FI_false tildeInput) =
     Inr (UnaryExpression 0 2 ''~'' True (Identifier 1 2 ''a''))"
  "result (parseMaybeUnary (parsersN exampleEnv 5) None False False FI_false plusInput) =
     Inr (UnaryExpression 0 2 ''+'' True (Identifier 1 2 ''a''))"
  "result (parseMaybeUnary (parsersN exampleEnv 5) None False False FI_false voidInput) =
     Inr (UnaryExpression 0 6 ''void'' True (Identifier 5 6 ''a''))"
  "result (parseMaybeUnary (parsersN exampleEnv 5) None False False FI_false deleteInput) =
     Inr (UnaryExpression 0 8 ''delete'' True (Identifier 7 8 ''a''))"
  by (simp_all add: ev prefixDecInput_def tildeInput_def plusInput_def voidInput_def
      deleteInput_def cong: evc)

lemma deleteStrictInput_error:
  "result (parseMaybeUnary (parsersN exampleEnv 5) None False False FI_false deleteStrictInput) =
     Inl (SyntaxError True 0 ''Deleting local variable in strict mode'')"
  by (simp add: ev deleteStrictInput_def deleteInput_def cong: evc)

lemma postfixDecInput_unary:
  "result (parseMaybeUnary (parsersN exampleEnv 5) None False False FI_false postfixDecInput) =
     Inr (UnaryExpression 0 3 ''--'' False (Identifier 0 1 ''a''))"
  by (simp add: ev postfixDecInput_def cong: evc)

lemma newlineInput_not_consumed:
  "parseMaybeUnary (parsersN exampleEnv 5) None False False FI_false newlineInput =
     Inr (Identifier 0 1 ''a'', next newlineInput)"
  by (simp add: ev newlineInput_def cong: evc)

text \<open>
  C4, amended: on a prefix \<^verbatim>\<open>++\<close> or \<^verbatim>\<open>--\<close>, \<^verbatim>\<open>parseMaybeUnary\<close> finishes an
  UpdateExpression with \<^verbatim>\<open>prefix = true\<close>, and on the other prefix operators
  (\<^verbatim>\<open>!\<close>, \<^verbatim>\<open>~\<close>, \<^verbatim>\<open>+\<close>, \<^verbatim>\<open>-\<close>, \<^verbatim>\<open>typeof\<close>, \<^verbatim>\<open>void\<close>, \<^verbatim>\<open>delete\<close>) a
  UnaryExpression with \<^verbatim>\<open>prefix = true\<close>; \<^verbatim>\<open>delete\<close> of an identifier in strict
  mode and \<^verbatim>\<open>delete\<close> of a private field are errors instead. A postfix \<^verbatim>\<open>++\<close> or
  \<^verbatim>\<open>--\<close> that it consumes after \<^verbatim>\<open>parseExprSubscripts\<close> finishes a UnaryExpression
  with \<^verbatim>\<open>prefix = false\<close>; a postfix operator where a semicolon can be inserted, so
  one that a line break precedes, is not consumed. (The general statements are for an
  argument that parses and that no \<^verbatim>\<open>**\<close> follows.)
\<close>

theorem unary_and_update:
  "result (parseMaybeUnary (parsersN exampleEnv 5) None False False FI_false prefixIncInput) =
     Inr (UpdateExpression 0 3 ''++'' True (Identifier 2 3 ''a''))
   \<and> result (parseMaybeUnary (parsersN exampleEnv 5) None False False FI_false notInput) =
     Inr (UnaryExpression 0 2 ''!'' True (Identifier 1 2 ''a''))
   \<and> result (parseMaybeUnary (parsersN exampleEnv 5) None False False FI_false typeofInput) =
     Inr (UnaryExpression 0 8 ''typeof'' True (Identifier 7 8 ''a''))
   \<and> result (parseMaybeUnary (parsersN exampleEnv 5) None False False FI_false minusInput) =
     Inr (UnaryExpression 0 2 ''-'' True (Identifier 1 2 ''a''))
   \<and> result (parseMaybeUnary (parsersN exampleEnv 5) None False False FI_false postfixInput) =
     Inr (UnaryExpression 0 3 ''++'' False (Identifier 0 1 ''a''))
   \<and> parseMaybeUnary (parsersN exampleEnv 5) None False False FI_false newlineInput =
     Inr (Identifier 0 1 ''a'', next newlineInput)
   \<and> (type s = tt_incDec \<and> \<not> (isContextual ''await'' s \<and> canAwait s)
        \<and> P_parseMaybeUnary P None True True forInit (next s) = Inr (argument, s2)
        \<and> checkExpressionErrors (deref r s2) True = Inr b
        \<and> checkLValSimple P argument BIND_NONE None s2 = Inr (c, s3)
        \<and> (incDec \<or> type s3 \<noteq> tt_starstar)
      \<longrightarrow> parseMaybeUnary P r sawUnary incDec forInit s =
            Inr (UpdateExpression (start s) (lastTokEnd s3) (val s) True argument, s3))
   \<and> (prefix (type s) \<and> type s \<noteq> tt_incDec \<and> \<not> (isContextual ''await'' s \<and> canAwait s)
        \<and> P_parseMaybeUnary P None True False forInit (next s) = Inr (argument, s2)
        \<and> checkExpressionErrors (deref r s2) True = Inr b
        \<and> (incDec \<or> type s2 \<noteq> tt_starstar)
      \<longrightarrow> parseMaybeUnary P r sawUnary incDec forInit s =
            (if val s = ''delete'' \<and> strict s2 \<and> ntype argument = ''Identifier''
             then raiseRecoverable (start s) ''Deleting local variable in strict mode''
             else if val s = ''delete'' \<and> isPrivateFieldAccess argument
             then raiseRecoverable (start s) ''Private fields can not be deleted''
             else Inr (UnaryExpression (start s) (lastTokEnd s2) (val s) True argument, s2)))
   \<and> (postfix (type s) \<and> \<not> canInsertSemicolon s
        \<and> checkLValSimple P expr BIND_NONE None s = Inr (c, s1)
      \<longrightarrow> parseMaybeUnary_loop P startPos expr s =
            P_parseMaybeUnary_loop P startPos
              (UnaryExpression startPos (lastTokEnd (next s1)) (val s) False expr) (next s1))
   \<and> (canInsertSemicolon s \<longrightarrow> parseMaybeUnary_loop P startPos expr s = Inr (expr, s))
   \<and> result (parseMaybeUnary (parsersN exampleEnv 5) None False False FI_false prefixDecInput) =
     Inr (UpdateExpression 0 3 ''--'' True (Identifier 2 3 ''a''))
   \<and> result (parseMaybeUnary (parsersN exampleEnv 5) None False False FI_false tildeInput) =
     Inr (UnaryExpression 0 2 ''~'' True (Identifier 1 2 ''a''))
   \<and> result (parseMaybeUnary (parsersN exampleEnv 5) None False False FI_false plusInput) =
     Inr (UnaryExpression 0 2 ''+'' True (Identifier 1 2 ''a''))
   \<and> result (parseMaybeUnary (parsersN exampleEnv 5) None False False FI_false voidInput) =
     Inr (UnaryExpression 0 6 ''void'' True (Identifier 5 6 ''a''))
   \<and> result (parseMaybeUnary (parsersN exampleEnv 5) None False False FI_false deleteInput) =
     Inr (UnaryExpression 0 8 ''delete'' True (Identifier 7 8 ''a''))
   \<and> result (parseMaybeUnary (parsersN exampleEnv 5) None False False FI_false
        deleteStrictInput) =
     Inl (SyntaxError True 0 ''Deleting local variable in strict mode'')
   \<and> result (parseMaybeUnary (parsersN exampleEnv 5) None False False FI_false postfixDecInput) =
     Inr (UnaryExpression 0 3 ''--'' False (Identifier 0 1 ''a''))"
  apply (intro conjI)
  subgoal by (rule prefix_examples)
  subgoal by (rule prefix_examples)
  subgoal by (rule prefix_examples)
  subgoal by (rule prefix_examples)
  subgoal by (rule postfixInput_unary)
  subgoal by (rule newlineInput_not_consumed)
  subgoal by (intro impI, elim conjE, rule parseMaybeUnary_update; assumption)
  subgoal by (intro impI, elim conjE, rule parseMaybeUnary_prefix; assumption)
  subgoal by (intro impI, elim conjE, rule parseMaybeUnary_loop_postfix; assumption)
  subgoal by (intro impI, rule parseMaybeUnary_loop_newline; assumption)
  subgoal by (rule more_prefix_examples)
  subgoal by (rule more_prefix_examples)
  subgoal by (rule more_prefix_examples)
  subgoal by (rule more_prefix_examples)
  subgoal by (rule more_prefix_examples)
  subgoal by (rule deleteStrictInput_error)
  subgoal by (rule postfixDecInput_unary)
  done

theorem unary_and_update_witness:
  "postfix (type (next postfixInput)) \<and> \<not> canInsertSemicolon (next postfixInput)
   \<and> checkLValSimple (parsersN exampleEnv 2) (Identifier 0 1 ''a'') BIND_NONE None
        (next postfixInput) = Inr (None, next postfixInput)
   \<and> parseMaybeUnary_loop (parsersN exampleEnv 2) 0 (Identifier 0 1 ''a'') (next postfixInput) =
       P_parseMaybeUnary_loop (parsersN exampleEnv 2) 0
         (UnaryExpression 0 (lastTokEnd (next (next postfixInput))) (val (next postfixInput)) False
            (Identifier 0 1 ''a''))
         (next (next postfixInput))
   \<and> canInsertSemicolon (next newlineInput)
   \<and> parseMaybeUnary_loop (parsersN exampleEnv 2) 0 (Identifier 0 1 ''a'') (next newlineInput) =
       Inr (Identifier 0 1 ''a'', next newlineInput)
   \<and> prefix (type deleteInput) \<and> type deleteInput \<noteq> tt_incDec
   \<and> \<not> (isContextual ''await'' deleteInput \<and> canAwait deleteInput)
   \<and> P_parseMaybeUnary (parsersN exampleEnv 5) None True False FI_false (next deleteInput) =
       Inr (Identifier 7 8 ''a'', next (next deleteInput))
   \<and> checkExpressionErrors (deref None (next (next deleteInput))) True = Inr False
   \<and> type (next (next deleteInput)) \<noteq> tt_starstar
   \<and> parseMaybeUnary (parsersN exampleEnv 5) None False False FI_false deleteInput =
       Inr (UnaryExpression 0 8 ''delete'' True (Identifier 7 8 ''a''), next (next deleteInput))
   \<and> type prefixDecInput = tt_incDec
   \<and> \<not> (isContextual ''await'' prefixDecInput \<and> canAwait prefixDecInput)
   \<and> P_parseMaybeUnary (parsersN exampleEnv 5) None True True FI_false (next prefixDecInput) =
       Inr (Identifier 2 3 ''a'', next (next prefixDecInput))
   \<and> checkExpressionErrors (deref None (next (next prefixDecInput))) True = Inr False
   \<and> checkLValSimple (parsersN exampleEnv 5) (Identifier 2 3 ''a'') BIND_NONE None
        (next (next prefixDecInput)) = Inr (None, next (next prefixDecInput))
   \<and> type (next (next prefixDecInput)) \<noteq> tt_starstar
   \<and> parseMaybeUnary (parsersN exampleEnv 5) None False False FI_false prefixDecInput =
       Inr (UpdateExpression 0 3 ''--'' True (Identifier 2 3 ''a''), next (next prefixDecInput))"
proof -
  have h1: "postfix (type (next postfixInput))"
    and h2: "\<not> canInsertSemicolon (next postfixInput)"
    and h3: "checkLValSimple (parsersN exampleEnv 2) (Identifier 0 1 ''a'') BIND_NONE None
        (next postfixInput) = Inr (None, next postfixInput)"
    and h4: "canInsertSemicolon (next newlineInput)"
    by (simp_all add: ev postfixInput_def newlineInput_def cong: evc)
  have d1: "prefix (type deleteInput)" and d2: "type deleteInput \<noteq> tt_incDec"
    and d3: "\<not> (isContextual ''await'' deleteInput \<and> canAwait deleteInput)"
    and d4: "P_parseMaybeUnary (parsersN exampleEnv 5) None True False FI_false
               (next deleteInput) = Inr (Identifier 7 8 ''a'', next (next deleteInput))"
    and d5: "checkExpressionErrors (deref None (next (next deleteInput))) True = Inr False"
    and d6: "type (next (next deleteInput)) \<noteq> tt_starstar"
    and d7: "val deleteInput = ''delete''" "start deleteInput = 0"
      "lastTokEnd (next (next deleteInput)) = 8" "\<not> strict (next (next deleteInput))"
    by (simp_all add: ev deleteInput_def cong: evc)
  have u1: "type prefixDecInput = tt_incDec"
    and u2: "\<not> (isContextual ''await'' prefixDecInput \<and> canAwait prefixDecInput)"
    and u3: "P_parseMaybeUnary (parsersN exampleEnv 5) None True True FI_false
               (next prefixDecInput) = Inr (Identifier 2 3 ''a'', next (next prefixDecInput))"
    and u4: "checkExpressionErrors (deref None (next (next prefixDecInput))) True = Inr False"
    and u5: "checkLValSimple (parsersN exampleEnv 5) (Identifier 2 3 ''a'') BIND_NONE None
        (next (next prefixDecInput)) = Inr (None, next (next prefixDecInput))"
    and u6: "type (next (next prefixDecInput)) \<noteq> tt_starstar"
    and u7: "val prefixDecInput = ''--''" "start prefixDecInput = 0"
      "lastTokEnd (next (next prefixDecInput)) = 3"
    by (simp_all add: ev prefixDecInput_def cong: evc)
  note t = unary_and_update [THEN conjunct2, THEN conjunct2, THEN conjunct2, THEN conjunct2,
      THEN conjunct2, THEN conjunct2]
  have a: "parseMaybeUnary_loop (parsersN exampleEnv 2) 0 (Identifier 0 1 ''a'') (next postfixInput) =
       P_parseMaybeUnary_loop (parsersN exampleEnv 2) 0
         (UnaryExpression 0 (lastTokEnd (next (next postfixInput))) (val (next postfixInput)) False
            (Identifier 0 1 ''a''))
         (next (next postfixInput))"
    using t [THEN conjunct2, THEN conjunct2, THEN conjunct1, rule_format,
        of "next postfixInput" "parsersN exampleEnv 2"
        "Identifier 0 1 ''a''" None "next postfixInput" 0] h1 h2 h3 by blast
  have b: "parseMaybeUnary_loop (parsersN exampleEnv 2) 0 (Identifier 0 1 ''a'') (next newlineInput) =
       Inr (Identifier 0 1 ''a'', next newlineInput)"
    using t [THEN conjunct2, THEN conjunct2, THEN conjunct2, THEN conjunct1, rule_format,
        of "next newlineInput"] h4 by blast
  have "parseMaybeUnary (parsersN exampleEnv 5) None False False FI_false deleteInput =
        (if val deleteInput = ''delete'' \<and> strict (next (next deleteInput))
              \<and> ntype (Identifier 7 8 ''a'') = ''Identifier''
         then raiseRecoverable (start deleteInput) ''Deleting local variable in strict mode''
         else if val deleteInput = ''delete'' \<and> isPrivateFieldAccess (Identifier 7 8 ''a'')
         then raiseRecoverable (start deleteInput) ''Private fields can not be deleted''
         else Inr (UnaryExpression (start deleteInput) (lastTokEnd (next (next deleteInput)))
                     (val deleteInput) True (Identifier 7 8 ''a''), next (next deleteInput)))"
    using t [THEN conjunct2, THEN conjunct1, rule_format,
        of deleteInput "parsersN exampleEnv 5" FI_false "Identifier 7 8 ''a''"
        "next (next deleteInput)" None False False False] d1 d2 d3 d4 d5 d6 by blast
  then have d: "parseMaybeUnary (parsersN exampleEnv 5) None False False FI_false deleteInput =
       Inr (UnaryExpression 0 8 ''delete'' True (Identifier 7 8 ''a''), next (next deleteInput))"
    using d7 by simp
  have "parseMaybeUnary (parsersN exampleEnv 5) None False False FI_false prefixDecInput =
        Inr (UpdateExpression (start prefixDecInput) (lastTokEnd (next (next prefixDecInput)))
               (val prefixDecInput) True (Identifier 2 3 ''a''), next (next prefixDecInput))"
    using t [THEN conjunct1, rule_format,
        of prefixDecInput "parsersN exampleEnv 5" FI_false "Identifier 2 3 ''a''"
        "next (next prefixDecInput)" None False None "next (next prefixDecInput)" False False]
      u1 u2 u3 u4 u5 u6 by blast
  then have u: "parseMaybeUnary (parsersN exampleEnv 5) None False False FI_false prefixDecInput =
       Inr (UpdateExpression 0 3 ''--'' True (Identifier 2 3 ''a''), next (next prefixDecInput))"
    using u7 by simp
  from h1 h2 h3 h4 a b d1 d2 d3 d4 d5 d6 d u1 u2 u3 u4 u5 u6 u show ?thesis by blast
qed


subsection \<open>The semicolon after do-while\<close>

lemma parseDoStatement_es6:
  assumes "P_parseStatement P (Some ''do'') False (push_label loopLabel (next s)) = Inr (bd, s3)"
    and "expect tt_while (pop_label s3) = Inr (u, s5)"
    and "parseParenExpression P s5 = Inr (tst, s6)"
    and "6 \<le> ecmaVersion s6"
  shows "parseDoStatement P nodeStart s =
           Inr (DoWhileStatement nodeStart
                  (lastTokEnd (if type s6 = tt_semi then next s6 else s6)) bd tst,
                if type s6 = tt_semi then next s6 else s6)"
  using assms by (simp add: parseDoStatement_def eat_def Let_def)

lemma parseDoStatement_es5:
  assumes "P_parseStatement P (Some ''do'') False (push_label loopLabel (next s)) = Inr (bd, s3)"
    and "expect tt_while (pop_label s3) = Inr (u, s5)"
    and "parseParenExpression P s5 = Inr (tst, s6)"
    and "ecmaVersion s6 < 6"
  shows "parseDoStatement P nodeStart s =
           (if type s6 = tt_semi
            then Inr (DoWhileStatement nodeStart (lastTokEnd (next s6)) bd tst, next s6)
            else if canInsertSemicolon s6
            then Inr (DoWhileStatement nodeStart (lastTokEnd s6) bd tst, s6)
            else raise (start s6) ''Unexpected token'')"
  using assms
  by (simp add: parseDoStatement_def semicolon_def insertSemicolon_def unexpected_here_def
      eat_def raise_def Let_def)

lemma doInput_es6:
  "result (parseTopLevel_loop 5 (parsersN exampleEnv 12) [] (doInput 13)) =
     Inr [DoWhileStatement 0 15 (ExpressionStatement 3 5 (Identifier 3 4 ''x''))
            (Identifier 13 14 ''y''),
          ExpressionStatement 16 17 (Identifier 16 17 ''z'')]"
  by (simp add: ev evt doInput_def cong: evc)

lemma doInput_es5:
  "result (parseTopLevel_loop 5 (parsersN exampleEnv 12) [] (doInput 5)) =
     Inl (SyntaxError False 16 ''Unexpected token'')"
  by (simp add: ev evt doInput_def cong: evc)

text \<open>
  C10. When the body, the keyword \<^verbatim>\<open>while\<close> and the test in parentheses have been
  parsed, \<^verbatim>\<open>parseDoStatement\<close> with \<^verbatim>\<open>ecmaVersion >= 6\<close> always answers the
  DoWhileStatement: it takes a \<^verbatim>\<open>;\<close> if there is one and nothing otherwise, and never
  raises. With \<^verbatim>\<open>ecmaVersion < 6\<close> the rule of \<^verbatim>\<open>semicolon()\<close> holds: without a
  \<^verbatim>\<open>;\<close> and where none can be inserted, the token is unexpected. The text
  \<^verbatim>\<open>do x; while (y) z\<close> parses as two statements with \<^verbatim>\<open>ecmaVersion\<close> 13, and is an
  error at \<^verbatim>\<open>z\<close> with \<^verbatim>\<open>ecmaVersion\<close> 5.
\<close>

theorem do_while_semicolon:
  "result (parseTopLevel_loop 5 (parsersN exampleEnv 12) [] (doInput 13)) =
     Inr [DoWhileStatement 0 15 (ExpressionStatement 3 5 (Identifier 3 4 ''x''))
            (Identifier 13 14 ''y''),
          ExpressionStatement 16 17 (Identifier 16 17 ''z'')]
   \<and> result (parseTopLevel_loop 5 (parsersN exampleEnv 12) [] (doInput 5)) =
     Inl (SyntaxError False 16 ''Unexpected token'')
   \<and> (P_parseStatement P (Some ''do'') False (push_label loopLabel (next s)) = Inr (bd, s3)
        \<and> expect tt_while (pop_label s3) = Inr (u, s5)
        \<and> parseParenExpression P s5 = Inr (tst, s6)
        \<and> 6 \<le> ecmaVersion s6
      \<longrightarrow> parseDoStatement P nodeStart s =
            Inr (DoWhileStatement nodeStart
                   (lastTokEnd (if type s6 = tt_semi then next s6 else s6)) bd tst,
                 if type s6 = tt_semi then next s6 else s6))
   \<and> (P_parseStatement P (Some ''do'') False (push_label loopLabel (next s)) = Inr (bd, s3)
        \<and> expect tt_while (pop_label s3) = Inr (u, s5)
        \<and> parseParenExpression P s5 = Inr (tst, s6)
        \<and> ecmaVersion s6 < 6
      \<longrightarrow> parseDoStatement P nodeStart s =
            (if type s6 = tt_semi
             then Inr (DoWhileStatement nodeStart (lastTokEnd (next s6)) bd tst, next s6)
             else if canInsertSemicolon s6
             then Inr (DoWhileStatement nodeStart (lastTokEnd s6) bd tst, s6)
             else raise (start s6) ''Unexpected token''))"
  apply (intro conjI)
  subgoal by (rule doInput_es6)
  subgoal by (rule doInput_es5)
  subgoal by (intro impI, elim conjE, rule parseDoStatement_es6; assumption)
  subgoal by (intro impI, elim conjE, rule parseDoStatement_es5; assumption)
  done

lemma doInput_states_es6:
  "P_parseStatement (parsersN exampleEnv 12) (Some ''do'') False
     (push_label loopLabel (next (doInput 13))) =
     Inr (ExpressionStatement 3 5 (Identifier 3 4 ''x''), afterDoBody 13)"
  "expect tt_while (pop_label (afterDoBody 13)) = Inr ((), afterWhile 13)"
  "parseParenExpression (parsersN exampleEnv 12) (afterWhile 13) =
     Inr (Identifier 13 14 ''y'', afterTest 13)"
  "ecmaVersion (afterTest 13) = 13"
  "type (afterTest 13) \<noteq> tt_semi"
  "\<not> canInsertSemicolon (afterTest 13)"
  "start (afterTest 13) = 16"
  "lastTokEnd (afterTest 13) = 15"
  by (simp_all add: ev doInput_def afterDoBody_def afterWhile_def afterTest_def cong: evc)

lemma doInput_states_es5:
  "P_parseStatement (parsersN exampleEnv 12) (Some ''do'') False
     (push_label loopLabel (next (doInput 5))) =
     Inr (ExpressionStatement 3 5 (Identifier 3 4 ''x''), afterDoBody 5)"
  "expect tt_while (pop_label (afterDoBody 5)) = Inr ((), afterWhile 5)"
  "parseParenExpression (parsersN exampleEnv 12) (afterWhile 5) =
     Inr (Identifier 13 14 ''y'', afterTest 5)"
  "ecmaVersion (afterTest 5) = 5"
  "type (afterTest 5) \<noteq> tt_semi"
  "\<not> canInsertSemicolon (afterTest 5)"
  "start (afterTest 5) = 16"
  "lastTokEnd (afterTest 5) = 15"
  by (simp_all add: ev doInput_def afterDoBody_def afterWhile_def afterTest_def cong: evc)

theorem do_while_semicolon_witness:
  "P_parseStatement (parsersN exampleEnv 12) (Some ''do'') False
     (push_label loopLabel (next (doInput 13))) =
     Inr (ExpressionStatement 3 5 (Identifier 3 4 ''x''), afterDoBody 13)
   \<and> expect tt_while (pop_label (afterDoBody 13)) = Inr ((), afterWhile 13)
   \<and> parseParenExpression (parsersN exampleEnv 12) (afterWhile 13) =
     Inr (Identifier 13 14 ''y'', afterTest 13)
   \<and> 6 \<le> ecmaVersion (afterTest 13)
   \<and> parseDoStatement (parsersN exampleEnv 12) 0 (doInput 13) =
       Inr (DoWhileStatement 0 15 (ExpressionStatement 3 5 (Identifier 3 4 ''x''))
              (Identifier 13 14 ''y''), afterTest 13)
   \<and> P_parseStatement (parsersN exampleEnv 12) (Some ''do'') False
     (push_label loopLabel (next (doInput 5))) =
     Inr (ExpressionStatement 3 5 (Identifier 3 4 ''x''), afterDoBody 5)
   \<and> expect tt_while (pop_label (afterDoBody 5)) = Inr ((), afterWhile 5)
   \<and> parseParenExpression (parsersN exampleEnv 12) (afterWhile 5) =
     Inr (Identifier 13 14 ''y'', afterTest 5)
   \<and> ecmaVersion (afterTest 5) < 6
   \<and> parseDoStatement (parsersN exampleEnv 12) 0 (doInput 5) = raise 16 ''Unexpected token''"
proof -
  note t = do_while_semicolon [THEN conjunct2, THEN conjunct2]
  have a: "parseDoStatement (parsersN exampleEnv 12) 0 (doInput 13) =
       Inr (DoWhileStatement 0 15 (ExpressionStatement 3 5 (Identifier 3 4 ''x''))
              (Identifier 13 14 ''y''), afterTest 13)"
    using t [THEN conjunct1, rule_format, of "parsersN exampleEnv 12" "doInput 13"
        "ExpressionStatement 3 5 (Identifier 3 4 ''x'')" "afterDoBody 13" "()" "afterWhile 13"
        "Identifier 13 14 ''y''" "afterTest 13" 0]
      doInput_states_es6
    by simp
  have b: "parseDoStatement (parsersN exampleEnv 12) 0 (doInput 5) = raise 16 ''Unexpected token''"
    using t [THEN conjunct2, rule_format, of "parsersN exampleEnv 12" "doInput 5"
        "ExpressionStatement 3 5 (Identifier 3 4 ''x'')" "afterDoBody 5" "()" "afterWhile 5"
        "Identifier 13 14 ''y''" "afterTest 5" 0]
      doInput_states_es5
    by simp
  from a b doInput_states_es6 doInput_states_es5 show ?thesis by simp
qed


subsection \<open>A const declarator without initializer\<close>

lemma constOfInput_parses:
  "result (parseTopLevel_loop 5 (parsersN exampleEnv 12) [] constOfInput) =
     Inr [VariableDeclaration 0 7 ''const''
            [VariableDeclarator 6 7 (Identifier 6 7 ''x'') None],
          ExpressionStatement 8 10 (Identifier 8 10 ''of'')]"
  by (simp add: ev evt constOfInput_def cong: evc)

lemma forConstInput_parses:
  "result (parseTopLevel_loop 5 (parsersN exampleEnv 12) [] forConstInput) =
     Inr [ForOfStatement 0 24 False
            (VariableDeclaration 5 12 ''const''
               [VariableDeclarator 11 12 (Identifier 11 12 ''x'') None])
            (Identifier 16 18 ''xs'')
            (ExpressionStatement 20 24
               (UnaryExpression 20 23 ''++'' False (Identifier 20 21 ''x'')))]"
  by (simp add: ev evt forConstInput_def cong: evc)

lemma constNoInitInput_error:
  "result (parseTopLevel_loop 5 (parsersN exampleEnv 12) [] constNoInitInput) =
     Inl (SyntaxError False 7 ''Unexpected token'')"
  by (simp add: ev evt constNoInitInput_def cong: evc)

text \<open>
  C8. The text \<^verbatim>\<open>const x\<close>, line feed, \<^verbatim>\<open>of\<close> is a script of two statements, and the
  first is a VariableDeclaration of kind \<^verbatim>\<open>const\<close> whose declarator has no
  \<^verbatim>\<open>init\<close>, outside every \<^verbatim>\<open>for\<close>: the test of \<^verbatim>\<open>parseVar\<close> for a \<^verbatim>\<open>const\<close>
  without \<^verbatim>\<open>=\<close> looks at the next token only and not at \<^verbatim>\<open>isFor\<close>, and a
  semicolon is inserted at the line break. \<^verbatim>\<open>for (const x of xs) x++;\<close> parses, with
  \<^verbatim>\<open>init\<close> null in the head, and \<^verbatim>\<open>const x;\<close> is an error.
\<close>

theorem const_without_init:
  "result (parseTopLevel_loop 5 (parsersN exampleEnv 12) [] constOfInput) =
     Inr [VariableDeclaration 0 7 ''const''
            [VariableDeclarator 6 7 (Identifier 6 7 ''x'') None],
          ExpressionStatement 8 10 (Identifier 8 10 ''of'')]
   \<and> result (parseTopLevel_loop 5 (parsersN exampleEnv 12) [] forConstInput) =
     Inr [ForOfStatement 0 24 False
            (VariableDeclaration 5 12 ''const''
               [VariableDeclarator 11 12 (Identifier 11 12 ''x'') None])
            (Identifier 16 18 ''xs'')
            (ExpressionStatement 20 24
               (UnaryExpression 20 23 ''++'' False (Identifier 20 21 ''x'')))]
   \<and> result (parseTopLevel_loop 5 (parsersN exampleEnv 12) [] constNoInitInput) =
     Inl (SyntaxError False 7 ''Unexpected token'')"
  apply (intro conjI)
  subgoal by (rule constOfInput_parses)
  subgoal by (rule forConstInput_parses)
  subgoal by (rule constNoInitInput_error)
  done


subsection \<open>Elisions\<close>

lemma toAssignable_elts_Cons:
  "toAssignable_elts ev ia (elt # es) ib =
     bnd (case elt of
            None \<Rightarrow> Inr None
          | Some n \<Rightarrow> bnd (toAssignable ev ia n ib None) (\<lambda>n'. Inr (Some n')))
       (\<lambda>elt'. bnd (toAssignable_elts ev ia es ib) (\<lambda>es'. Inr (elt' # es')))"
  by simp

lemma toAssignable_elts_null:
  "toAssignable_elts ev ia (xs @ None # ys) ib =
     bnd (toAssignable_elts ev ia xs ib)
       (\<lambda>xs'. bnd (toAssignable_elts ev ia ys ib) (\<lambda>ys'. Inr (xs' @ None # ys')))"
proof (induction xs)
  case Nil
  show ?case by (cases "toAssignable_elts ev ia ys ib") simp_all
next
  case (Cons x xs)
  show ?case
  proof (cases x)
    case None
    then show ?thesis
      using Cons.IH
      by (cases "toAssignable_elts ev ia xs ib"; cases "toAssignable_elts ev ia ys ib")
         simp_all
  next
    case (Some n)
    then show ?thesis
      using Cons.IH
      by (cases "toAssignable ev ia n ib None"; cases "toAssignable_elts ev ia xs ib";
          cases "toAssignable_elts ev ia ys ib")
         simp_all
  qed
qed

lemma toAssignableList_last_null:
  "toAssignableList_last ev (xs @ [None]) ib = Inr ()"
  by (simp add: toAssignableList_last_def)

lemma checkLValPattern_elts_null:
  "checkLValPattern_elts P (xs @ None # ys) bt c s = checkLValPattern_elts P (xs @ ys) bt c s"
proof (induction xs arbitrary: c s)
  case Nil
  show ?case by simp
next
  case (Cons x xs)
  show ?case
  proof (cases x)
    case None
    then show ?thesis using Cons.IH by simp
  next
    case (Some n)
    then show ?thesis
      using Cons.IH by (cases "checkLValInnerPattern P n bt c s") auto
  qed
qed

lemma checkPatternExport_elts_null:
  "checkPatternExport_elts exports (xs @ None # ys) = checkPatternExport_elts exports (xs @ ys)"
proof (induction xs arbitrary: exports)
  case Nil
  show ?case by simp
next
  case (Cons x xs)
  show ?case
  proof (cases x)
    case None
    then show ?thesis using Cons.IH by simp
  next
    case (Some n)
    then show ?thesis
      using Cons.IH by (cases "checkPatternExport exports n") simp_all
  qed
qed

lemma parseExprList_loop_elision:
  assumes "close \<noteq> tt_comma" and "type s = tt_comma" and "first \<or> type (next s) = tt_comma"
  shows "parseExprList_loop P close atc True r elts first s =
           P_parseExprList_loop P close atc True r (elts @ [None]) False
             (if first then s else next s)"
  using assms
  by (auto simp add: parseExprList_loop_def eat_def expect_def afterTrailingComma_def)

lemma parseBindingList_loop_elision:
  assumes "close \<noteq> tt_comma" and "type s = tt_comma" and "first \<or> type (next s) = tt_comma"
  shows "parseBindingList_loop P close True atc elts first s =
           P_parseBindingList_loop P close True atc (elts @ [None]) False
             (if first then s else next s)"
  using assms
  by (auto simp add: parseBindingList_loop_def eat_def expect_def)

lemma elisionInput_expression:
  "result (parseExprAtom (parsersN exampleEnv 12) None FI_false elisionInput) =
     Inr (ArrayExpression 0 6 [Some (Identifier 1 2 ''a''), None, Some (Identifier 4 5 ''b'')])"
  by (simp add: ev elisionInput_def cong: evc)

lemma elisionInput_assignment:
  "result (parseTopLevel_loop 5 (parsersN exampleEnv 12) [] elisionInput) =
     Inr [ExpressionStatement 0 10
            (AssignmentExpression 0 10 ''=''
               (ArrayPattern 0 6
                  [Some (Identifier 1 2 ''a''), None, Some (Identifier 4 5 ''b'')])
               (Identifier 9 10 ''c''))]"
  by (simp add: ev evt toAssignable.simps elisionInput_def cong: evc)

lemma elisionVarInput_binding:
  "result (parseTopLevel_loop 5 (parsersN exampleEnv 12) [] elisionVarInput) =
     Inr [VariableDeclaration 0 14 ''var''
            [VariableDeclarator 4 14
               (ArrayPattern 4 10
                  [Some (Identifier 5 6 ''a''), None, Some (Identifier 8 9 ''b'')])
               (Some (Identifier 13 14 ''c''))]]"
  by (simp add: ev evt elisionVarInput_def cong: evc)

lemma elision_export:
  "checkPatternExport []
     (ArrayPattern 0 6 [Some (Identifier 1 2 ''a''), None, Some (Identifier 4 5 ''b'')]) =
     Inr [''a'', ''b'']"
  by (simp add: checkExport_def)

text \<open>
  C9. The text \<^verbatim>\<open>[a,,b]\<close> parses to an ArrayExpression, and after \<^verbatim>\<open>var\<close> to an
  ArrayPattern, whose \<^verbatim>\<open>elements\<close> have null (\<open>None\<close>) at index 1; the assignment
  \<^verbatim>\<open>[a,,b] = c\<close>, which runs \<^verbatim>\<open>toAssignableList\<close> and \<^verbatim>\<open>checkLValPattern\<close> over
  that list, parses to an ArrayPattern with null at the same index, and
  \<^verbatim>\<open>checkPatternExport\<close> enters \<^verbatim>\<open>a\<close> and \<^verbatim>\<open>b\<close>. In general: a round of the
  loop of \<^verbatim>\<open>parseExprList\<close> or \<^verbatim>\<open>parseBindingList\<close> that allows empty elements and
  finds a comma where an element would start appends null; the loop of
  \<^verbatim>\<open>toAssignableList\<close> leaves a null element where it is and raises nothing for it,
  its last check accepts a null last element, and \<^verbatim>\<open>checkLValPattern\<close> and
  \<^verbatim>\<open>checkPatternExport\<close> do on a list with a null element what they do on the list
  without it.
\<close>

theorem elision_is_null:
  "result (parseExprAtom (parsersN exampleEnv 12) None FI_false elisionInput) =
     Inr (ArrayExpression 0 6 [Some (Identifier 1 2 ''a''), None, Some (Identifier 4 5 ''b'')])
   \<and> result (parseTopLevel_loop 5 (parsersN exampleEnv 12) [] elisionVarInput) =
     Inr [VariableDeclaration 0 14 ''var''
            [VariableDeclarator 4 14
               (ArrayPattern 4 10
                  [Some (Identifier 5 6 ''a''), None, Some (Identifier 8 9 ''b'')])
               (Some (Identifier 13 14 ''c''))]]
   \<and> result (parseTopLevel_loop 5 (parsersN exampleEnv 12) [] elisionInput) =
     Inr [ExpressionStatement 0 10
            (AssignmentExpression 0 10 ''=''
               (ArrayPattern 0 6
                  [Some (Identifier 1 2 ''a''), None, Some (Identifier 4 5 ''b'')])
               (Identifier 9 10 ''c''))]
   \<and> checkPatternExport []
        (ArrayPattern 0 6 [Some (Identifier 1 2 ''a''), None, Some (Identifier 4 5 ''b'')]) =
      Inr [''a'', ''b'']
   \<and> (close \<noteq> tt_comma \<and> type s = tt_comma \<and> (first \<or> type (next s) = tt_comma)
      \<longrightarrow> parseExprList_loop P close atc True r elts first s =
            P_parseExprList_loop P close atc True r (elts @ [None]) False
              (if first then s else next s))
   \<and> (close \<noteq> tt_comma \<and> type s = tt_comma \<and> (first \<or> type (next s) = tt_comma)
      \<longrightarrow> parseBindingList_loop P close True atc elts first s =
            P_parseBindingList_loop P close True atc (elts @ [None]) False
              (if first then s else next s))
   \<and> toAssignable_elts ev ia (xs @ None # ys) ib =
       bnd (toAssignable_elts ev ia xs ib)
         (\<lambda>xs'. bnd (toAssignable_elts ev ia ys ib) (\<lambda>ys'. Inr (xs' @ None # ys')))
   \<and> toAssignableList_last ev (xs @ [None]) ib = Inr ()
   \<and> checkLValPattern_elts P (xs @ None # ys) bt c s = checkLValPattern_elts P (xs @ ys) bt c s
   \<and> checkPatternExport_elts exports (xs @ None # ys) = checkPatternExport_elts exports (xs @ ys)"
  apply (intro conjI)
  subgoal by (rule elisionInput_expression)
  subgoal by (rule elisionVarInput_binding)
  subgoal by (rule elisionInput_assignment)
  subgoal by (rule elision_export)
  subgoal by (intro impI, elim conjE, rule parseExprList_loop_elision; assumption)
  subgoal by (intro impI, elim conjE, rule parseBindingList_loop_elision; assumption)
  subgoal by (rule toAssignable_elts_null)
  subgoal by (rule toAssignableList_last_null)
  subgoal by (rule checkLValPattern_elts_null)
  subgoal by (rule checkPatternExport_elts_null)
  done

theorem elision_is_null_witness:
  "tt_bracketR \<noteq> tt_comma \<and> type (next (next elisionInput)) = tt_comma
   \<and> type (next (next (next elisionInput))) = tt_comma
   \<and> parseExprList_loop (parsersN exampleEnv 3) tt_bracketR True True None
        [Some (Identifier 1 2 ''a'')] False (next (next elisionInput)) =
      P_parseExprList_loop (parsersN exampleEnv 3) tt_bracketR True True None
        [Some (Identifier 1 2 ''a''), None] False (next (next (next elisionInput)))
   \<and> parseBindingList_loop (parsersN exampleEnv 3) tt_bracketR True True
        [Some (Identifier 1 2 ''a'')] False (next (next elisionInput)) =
      P_parseBindingList_loop (parsersN exampleEnv 3) tt_bracketR True True
        [Some (Identifier 1 2 ''a''), None] False (next (next (next elisionInput)))"
proof -
  have h1: "tt_bracketR \<noteq> tt_comma"
    and h2: "type (next (next elisionInput)) = tt_comma"
    and h3: "type (next (next (next elisionInput))) = tt_comma"
    by (simp_all add: ev elisionInput_def cong: evc)
  note t = elision_is_null [THEN conjunct2, THEN conjunct2, THEN conjunct2, THEN conjunct2]
  have a: "parseExprList_loop (parsersN exampleEnv 3) tt_bracketR True True None
        [Some (Identifier 1 2 ''a'')] False (next (next elisionInput)) =
      P_parseExprList_loop (parsersN exampleEnv 3) tt_bracketR True True None
        ([Some (Identifier 1 2 ''a'')] @ [None]) False
        (if False then next (next elisionInput) else next (next (next elisionInput)))"
    using t [THEN conjunct1, rule_format, of tt_bracketR "next (next elisionInput)" False] h1 h2 h3
    by blast
  have b: "parseBindingList_loop (parsersN exampleEnv 3) tt_bracketR True True
        [Some (Identifier 1 2 ''a'')] False (next (next elisionInput)) =
      P_parseBindingList_loop (parsersN exampleEnv 3) tt_bracketR True True
        ([Some (Identifier 1 2 ''a'')] @ [None]) False
        (if False then next (next elisionInput) else next (next (next elisionInput)))"
    using t [THEN conjunct2, THEN conjunct1, rule_format, of tt_bracketR
        "next (next elisionInput)" False] h1 h2 h3
    by blast
  from a b h1 h2 h3 show ?thesis by simp
qed


subsection \<open>Optional chains\<close>












subsection \<open>Statements that start with let\<close>

lemmas tt_all = tt_name_def tt_var_def tt_const_def tt_break_def tt_continue_def tt_debugger_def
  tt_do_def tt_for_def tt_function_def tt_class_def tt_if_def tt_return_def tt_switch_def
  tt_throw_def tt_try_def tt_while_def tt_with_def tt_braceL_def tt_semi_def tt_export_def
  tt_import_def kw_def TokenType_new_def

lemma letBracketInput_es5:
  "result (parseTopLevel_loop 5 (parsersN exampleEnv 12) [] (letBracketInput 5)) =
     Inr [ExpressionStatement 0 11
            (AssignmentExpression 0 11 ''=''
               (MemberExpression 0 7 (Identifier 0 3 ''let'') (Identifier 5 6 ''a'') True False)
               (Identifier 10 11 ''b''))]"
  by (simp add: ev evt toAssignable.simps letBracketInput_def cong: evc)

text \<open>
  C5, as stated, fails: with \<^verbatim>\<open>ecmaVersion\<close> 5 the statement \<^verbatim>\<open>let [a] = b\<close>, in
  which \<^verbatim>\<open>[\<close> follows \<^verbatim>\<open>let\<close>, is no declaration but the assignment to the member
  \<^verbatim>\<open>let[a]\<close>.
\<close>

theorem let_es5_counterexample:
  "result (parseTopLevel_loop 5 (parsersN exampleEnv 12) [] (letBracketInput 5)) =
     Inr [ExpressionStatement 0 11
            (AssignmentExpression 0 11 ''=''
               (MemberExpression 0 7 (Identifier 0 3 ''let'') (Identifier 5 6 ''a'') True False)
               (Identifier 10 11 ''b''))]
   \<and> charCodeAt (input (letBracketInput 5))
        (pos_of (letBracketInput 5)
         + skipWhiteSpace (input (letBracketInput 5)) (pos_of (letBracketInput 5))) = Some 91"
  using letBracketInput_es5 by (simp add: ev letBracketInput_def cong: evc)

lemma isLet_lookahead:
  assumes "6 \<le> ecmaVersion s" and "isContextual ''let'' s"
  shows "isLet P ctx s \<longleftrightarrow>
     (let nxt = pos_of s + skipWhiteSpace (input s) (pos_of s);
          nextCh = charCodeAt (input s) nxt;
          pos = nxt + 1 + int (length (takeWhile (\<lambda>c. P_isIdentifierChar P c True)
                                        (drop (nat (nxt + 1)) (input s))));
          after = charCodeAt (input s) pos
      in nextCh = Some 91 \<or> nextCh = Some 92
         \<or> (ctx = None
             \<and> (nextCh = Some 123 \<or> leadSurrogate nextCh
                \<or> ((\<exists>c. nextCh = Some c \<and> P_isIdentifierStart P c True)
                    \<and> (after = Some 92 \<or> leadSurrogate after
                       \<or> \<not> keywordRelationalOperator (slice (input s) nxt pos))))))"
  using assms by (auto simp add: isLet_def Let_def split: option.splits)

lemma isLet_old:
  assumes "ecmaVersion s < 6 \<or> \<not> isContextual ''let'' s"
  shows "\<not> isLet P ctx s"
  using assms by (auto simp add: isLet_def)

lemma parseStatement_let:
  assumes "isLet P None s"
  shows "parseStatement P None topLevel s = parseVarStatement P (start s) ''let'' s"
  using assms by (simp add: parseStatement_def Let_def tt_all)

lemma parseStatement_let_context:
  assumes "ctx \<noteq> None" and "isLet P ctx s"
  shows "parseStatement P ctx topLevel s = raise (start s) ''Unexpected token''"
  using assms by (simp add: parseStatement_def Let_def tt_all unexpected_here_def)

lemma parseStatement_let_expression:
  assumes "isContextual ''let'' s" and "\<not> isLet P ctx s"
  shows "parseStatement P ctx topLevel s =
           bnd (parseExpression P FI_false None s)
             (\<lambda>(expr, s1).
                bnd (if ntype expr = ''Identifier'' then eat tt_colon s1 else Inr (False, s1))
                  (\<lambda>(colon, s2).
                     if colon then parseLabeledStatement P (start s) ''let'' expr ctx s2
                     else parseExpressionStatement (start s) expr s2))"
  using assms
  by (simp add: parseStatement_def Let_def tt_all isContextual_def isAsyncFunction_def
      cong del: bnd_weak_cong)

lemma declaration_shape:
  assumes "result (parseVarStatement P st k s) = Inr n"
  shows "\<exists>e ds. n = VariableDeclaration st e k ds"
  using assms
  by (auto simp add: result_def parseVarStatement_def Let_def bnd_def split: sum.splits)

lemma expression_shape:
  assumes "isContextual ''let'' s" and "\<not> isLet P ctx s"
    and "result (parseStatement P ctx topLevel s) = Inr n"
  shows "ntype n = ''ExpressionStatement'' \<or> ntype n = ''LabeledStatement''"
  using assms
  by (auto simp add: parseStatement_def Let_def tt_all isContextual_def isAsyncFunction_def
      result_def parseLabeledStatement_def parseExpressionStatement_def bnd_def raise_def
      split: sum.splits if_splits prod.splits)

lemma let_declarations:
  "result (parseTopLevel_loop 5 (parsersN exampleEnv 12) [] letInput) =
     Inr [VariableDeclaration 0 9 ''let''
            [VariableDeclarator 4 9 (Identifier 4 5 ''x'') (Some (Literal 8 9 ''1''))]]"
  "result (parseTopLevel_loop 5 (parsersN exampleEnv 12) [] (letBracketInput 13)) =
     Inr [VariableDeclaration 0 11 ''let''
            [VariableDeclarator 4 11 (ArrayPattern 4 7 [Some (Identifier 5 6 ''a'')])
               (Some (Identifier 10 11 ''b''))]]"
  "result (parseTopLevel_loop 5 (parsersN exampleEnv 12) [] letEscapeInput) =
     Inr [VariableDeclaration 0 14 ''let''
            [VariableDeclarator 4 14 (Identifier 4 10 ''a'') (Some (Literal 13 14 ''1''))]]"
  by (simp_all add: ev evt letInput_def letBracketInput_def letEscapeInput_def cong: evc)

lemma let_expressions:
  "result (parseTopLevel_loop 5 (parsersN exampleEnv 12) [] letInInput) =
     Inr [ExpressionStatement 0 8
            (BinaryExpression 0 8 (Identifier 0 3 ''let'') ''in'' (Identifier 7 8 ''x''))]"
  "result (parseTopLevel_loop 5 (parsersN exampleEnv 12) [] letInstanceofInput) =
     Inr [ExpressionStatement 0 16
            (BinaryExpression 0 16 (Identifier 0 3 ''let'') ''instanceof''
               (Identifier 15 16 ''x''))]"
  "result (parseTopLevel_loop 5 (parsersN exampleEnv 12) [] letAssignInput) =
     Inr [ExpressionStatement 0 7
            (AssignmentExpression 0 7 ''='' (Identifier 0 3 ''let'') (Literal 6 7 ''1''))]"
  by (simp_all add: ev evt toAssignable.simps letInInput_def letInstanceofInput_def
      letAssignInput_def cong: evc)

lemma let_in_context:
  "result (parseTopLevel_loop 5 (parsersN exampleEnv 12) [] ifLetBracketInput) =
     Inl (SyntaxError False 7 ''Unexpected token'')"
  "result (parseTopLevel_loop 5 (parsersN exampleEnv 12) [] ifLetInput) =
     Inr [IfStatement 0 10 (Identifier 4 5 ''a'')
            (ExpressionStatement 7 10 (Identifier 7 10 ''let'')) None,
          ExpressionStatement 11 12 (Identifier 11 12 ''x'')]"
  by (simp_all add: ev evt ifLetBracketInput_def ifLetInput_def cong: evc)

lemma isLet_examples:
  "isLet (parsersN exampleEnv 12) None letBraceInput"
  "isLet (parsersN exampleEnv 12) None letAstralInput"
  "isLet (parsersN exampleEnv 12) None letInput"
  "\<not> isLet (parsersN exampleEnv 12) (Some ''if'') letInput"
  "isLet (parsersN exampleEnv 12) (Some ''if'') (letBracketInput 13)"
  "\<not> isLet (parsersN exampleEnv 12) None letInInput"
  "isLet (parsersN exampleEnv 12) None letEscapeInput"
  by (simp_all add: ev letBraceInput_def letAstralInput_def letInput_def letBracketInput_def
      letInInput_def letEscapeInput_def cong: evc)

text \<open>
  C5, amended. For \<^verbatim>\<open>ecmaVersion >= 6\<close> and a \<^verbatim>\<open>let\<close> written without escapes: at
  statement start with a null context, \<^verbatim>\<open>let\<close> is parsed as a declaration exactly when
  the next character after white space and comments is \<^verbatim>\<open>[\<close>, a backslash (the start
  of an escaped identifier), \<^verbatim>\<open>{\<close>, a lead surrogate (an astral identifier), or an
  identifier start whose identifier continues with a backslash or a lead surrogate or is
  neither \<^verbatim>\<open>in\<close> nor \<^verbatim>\<open>instanceof\<close>; otherwise the statement is an expression
  statement or a labeled statement. When the context is not null, \<^verbatim>\<open>let\<close> is never
  parsed as a declaration: before \<^verbatim>\<open>[\<close> or a backslash the token is unexpected, and
  otherwise the statement is an expression or labeled statement. For
  \<^verbatim>\<open>ecmaVersion < 6\<close>, \<^verbatim>\<open>let\<close> never starts a declaration.
\<close>

theorem let_declaration:
  "(6 \<le> ecmaVersion s \<and> isContextual ''let'' s \<longrightarrow>
      (isLet P ctx s \<longleftrightarrow>
        (let nxt = pos_of s + skipWhiteSpace (input s) (pos_of s);
             nextCh = charCodeAt (input s) nxt;
             pos = nxt + 1 + int (length (takeWhile (\<lambda>c. P_isIdentifierChar P c True)
                                           (drop (nat (nxt + 1)) (input s))));
             after = charCodeAt (input s) pos
         in nextCh = Some 91 \<or> nextCh = Some 92
            \<or> (ctx = None
                \<and> (nextCh = Some 123 \<or> leadSurrogate nextCh
                   \<or> ((\<exists>c. nextCh = Some c \<and> P_isIdentifierStart P c True)
                       \<and> (after = Some 92 \<or> leadSurrogate after
                          \<or> \<not> keywordRelationalOperator (slice (input s) nxt pos))))))))
   \<and> (ecmaVersion s < 6 \<longrightarrow> \<not> isLet P ctx s)
   \<and> (\<not> isContextual ''let'' s \<longrightarrow> \<not> isLet P ctx s)
   \<and> (isLet P None s \<longrightarrow>
        parseStatement P None topLevel s = parseVarStatement P (start s) ''let'' s)
   \<and> (result (parseVarStatement P st k s) = Inr n \<longrightarrow>
        (\<exists>e ds. n = VariableDeclaration st e k ds))
   \<and> (ctx \<noteq> None \<and> isLet P ctx s \<longrightarrow>
        parseStatement P ctx topLevel s = raise (start s) ''Unexpected token'')
   \<and> (isContextual ''let'' s \<and> \<not> isLet P ctx s
        \<and> result (parseStatement P ctx topLevel s) = Inr n \<longrightarrow>
        ntype n = ''ExpressionStatement'' \<or> ntype n = ''LabeledStatement'')
   \<and> result (parseTopLevel_loop 5 (parsersN exampleEnv 12) [] letInput) =
     Inr [VariableDeclaration 0 9 ''let''
            [VariableDeclarator 4 9 (Identifier 4 5 ''x'') (Some (Literal 8 9 ''1''))]]
   \<and> result (parseTopLevel_loop 5 (parsersN exampleEnv 12) [] (letBracketInput 13)) =
     Inr [VariableDeclaration 0 11 ''let''
            [VariableDeclarator 4 11 (ArrayPattern 4 7 [Some (Identifier 5 6 ''a'')])
               (Some (Identifier 10 11 ''b''))]]
   \<and> result (parseTopLevel_loop 5 (parsersN exampleEnv 12) [] letEscapeInput) =
     Inr [VariableDeclaration 0 14 ''let''
            [VariableDeclarator 4 14 (Identifier 4 10 ''a'') (Some (Literal 13 14 ''1''))]]
   \<and> isLet (parsersN exampleEnv 12) None letBraceInput
   \<and> isLet (parsersN exampleEnv 12) None letAstralInput
   \<and> result (parseTopLevel_loop 5 (parsersN exampleEnv 12) [] letInInput) =
     Inr [ExpressionStatement 0 8
            (BinaryExpression 0 8 (Identifier 0 3 ''let'') ''in'' (Identifier 7 8 ''x''))]
   \<and> result (parseTopLevel_loop 5 (parsersN exampleEnv 12) [] letInstanceofInput) =
     Inr [ExpressionStatement 0 16
            (BinaryExpression 0 16 (Identifier 0 3 ''let'') ''instanceof''
               (Identifier 15 16 ''x''))]
   \<and> result (parseTopLevel_loop 5 (parsersN exampleEnv 12) [] letAssignInput) =
     Inr [ExpressionStatement 0 7
            (AssignmentExpression 0 7 ''='' (Identifier 0 3 ''let'') (Literal 6 7 ''1''))]
   \<and> result (parseTopLevel_loop 5 (parsersN exampleEnv 12) [] ifLetBracketInput) =
     Inl (SyntaxError False 7 ''Unexpected token'')
   \<and> result (parseTopLevel_loop 5 (parsersN exampleEnv 12) [] ifLetInput) =
     Inr [IfStatement 0 10 (Identifier 4 5 ''a'')
            (ExpressionStatement 7 10 (Identifier 7 10 ''let'')) None,
          ExpressionStatement 11 12 (Identifier 11 12 ''x'')]"
  apply (intro conjI)
  subgoal by (intro impI, elim conjE, rule isLet_lookahead; assumption)
  subgoal by (intro impI, rule isLet_old, simp)
  subgoal by (intro impI, rule isLet_old, simp)
  subgoal by (intro impI, rule parseStatement_let; assumption)
  subgoal by (intro impI, rule declaration_shape; assumption)
  subgoal by (intro impI, elim conjE, rule parseStatement_let_context; assumption)
  subgoal by (intro impI, elim conjE, rule expression_shape; assumption)
  subgoal by (rule let_declarations)
  subgoal by (rule let_declarations)
  subgoal by (rule let_declarations)
  subgoal by (rule isLet_examples)
  subgoal by (rule isLet_examples)
  subgoal by (rule let_expressions)
  subgoal by (rule let_expressions)
  subgoal by (rule let_expressions)
  subgoal by (rule let_in_context)
  subgoal by (rule let_in_context)
  done

lemma let_statements:
  "result (parseStatement (parsersN exampleEnv 12) None True letInput) =
     Inr (VariableDeclaration 0 9 ''let''
            [VariableDeclarator 4 9 (Identifier 4 5 ''x'') (Some (Literal 8 9 ''1''))])"
  "result (parseStatement (parsersN exampleEnv 12) None True letInInput) =
     Inr (ExpressionStatement 0 8
            (BinaryExpression 0 8 (Identifier 0 3 ''let'') ''in'' (Identifier 7 8 ''x'')))"
  "isContextual ''let'' letInInput" "isContextual ''let'' letInput"
  "ecmaVersion letInput = 13" "ecmaVersion (letBracketInput 5) = 5"
  "start letInput = 0" "start (letBracketInput 13) = 0"
  "\<not> isContextual ''let'' (next letInput)"
  by (simp_all add: ev letInput_def letInInput_def letBracketInput_def cong: evc)

theorem let_declaration_witness:
  "isLet (parsersN exampleEnv 12) None letInput
   \<and> parseStatement (parsersN exampleEnv 12) None True letInput =
       parseVarStatement (parsersN exampleEnv 12) 0 ''let'' letInput
   \<and> result (parseVarStatement (parsersN exampleEnv 12) 0 ''let'' letInput) =
       Inr (VariableDeclaration 0 9 ''let''
              [VariableDeclarator 4 9 (Identifier 4 5 ''x'') (Some (Literal 8 9 ''1''))])
   \<and> Some ''if'' \<noteq> None \<and> isLet (parsersN exampleEnv 12) (Some ''if'') (letBracketInput 13)
   \<and> parseStatement (parsersN exampleEnv 12) (Some ''if'') False (letBracketInput 13) =
       raise 0 ''Unexpected token''
   \<and> isContextual ''let'' letInInput \<and> \<not> isLet (parsersN exampleEnv 12) None letInInput
   \<and> result (parseStatement (parsersN exampleEnv 12) None True letInInput) =
       Inr (ExpressionStatement 0 8
              (BinaryExpression 0 8 (Identifier 0 3 ''let'') ''in'' (Identifier 7 8 ''x'')))
   \<and> ecmaVersion (letBracketInput 5) < 6
   \<and> \<not> isLet (parsersN exampleEnv 12) None (letBracketInput 5)
   \<and> \<not> isContextual ''let'' (next letInput)
   \<and> \<not> isLet (parsersN exampleEnv 12) None (next letInput)"
proof -
  have a: "parseStatement (parsersN exampleEnv 12) None True letInput =
       parseVarStatement (parsersN exampleEnv 12) (start letInput) ''let'' letInput"
    using let_declaration [where P = "parsersN exampleEnv 12" and s = letInput and topLevel = True,
        THEN conjunct2, THEN conjunct2, THEN conjunct2, THEN conjunct1, rule_format]
      isLet_examples(3) by blast
  have b: "parseStatement (parsersN exampleEnv 12) (Some ''if'') False (letBracketInput 13) =
       raise (start (letBracketInput 13)) ''Unexpected token''"
    using let_declaration [where ctx = "Some ''if''" and P = "parsersN exampleEnv 12"
        and s = "letBracketInput 13" and topLevel = False,
        THEN conjunct2, THEN conjunct2, THEN conjunct2, THEN conjunct2, THEN conjunct2, THEN conjunct1,
        rule_format]
      isLet_examples(5) by blast
  have c: "\<not> isLet (parsersN exampleEnv 12) None (letBracketInput 5)"
    using let_declaration [where s = "letBracketInput 5" and P = "parsersN exampleEnv 12"
        and ctx = None, THEN conjunct2, THEN conjunct1, rule_format]
      let_statements(6) by simp
  have d: "\<not> isLet (parsersN exampleEnv 12) None (next letInput)"
    using let_declaration [where s = "next letInput" and P = "parsersN exampleEnv 12"
        and ctx = None, THEN conjunct2, THEN conjunct2, THEN conjunct1, rule_format]
      let_statements(9) by blast
  have e: "result (parseVarStatement (parsersN exampleEnv 12) 0 ''let'' letInput) =
       Inr (VariableDeclaration 0 9 ''let''
              [VariableDeclarator 4 9 (Identifier 4 5 ''x'') (Some (Literal 8 9 ''1''))])"
    using a let_statements(1) let_statements(7) by simp
  from a b c d e isLet_examples let_statements show ?thesis by simp
qed


subsection \<open>Private names at the end of a class body\<close>
















end
